theory Spec2Isabelle
  imports Complex_Main "HOL-Library.AList"
begin

section \<open>Core configuration\<close>

text \<open>
  The simulator's state is a handful of Python dictionaries and counters. A dictionary is
  modelled as an association list: insertion order is kept, a key occurs at most once,
  \<open>d[k] = v\<close> is \<open>AList.update k v d\<close> and \<open>d.get(k, default)\<close> is \<open>dict_get\<close>.
  Resource amounts are Python floats; they are modelled as real numbers, so rounding is
  not part of the model. Python's unbounded integers are \<open>int\<close>.
\<close>

type_synonym ('k, 'v) dict = "('k \<times> 'v) list"

definition dict_get :: "('k, 'v) dict \<Rightarrow> 'k \<Rightarrow> 'v \<Rightarrow> 'v" where
  "dict_get d k dflt = (case map_of d k of None \<Rightarrow> dflt | Some v \<Rightarrow> v)"

definition dict_has :: "('k, 'v) dict \<Rightarrow> 'k \<Rightarrow> bool" where
  "dict_has d k = (map_of d k \<noteq> None)"

definition dict_setdefault :: "'k \<Rightarrow> 'v \<Rightarrow> ('k, 'v) dict \<Rightarrow> ('k, 'v) dict" where
  "dict_setdefault k v d = (if dict_has d k then d else AList.update k v d)"

text \<open>Python's \<open>int(x)\<close> on a number truncates towards zero.\<close>

definition py_int :: "real \<Rightarrow> int" where
  "py_int r = (if 0 \<le> r then \<lfloor>r\<rfloor> else \<lceil>r\<rceil>)"

definition RESOURCE_KEYS :: "string list" where
  "RESOURCE_KEYS =
     [''mallets'', ''T1 cheese'', ''T2 cheese'', ''T3 cheese'', ''Thread'', ''Machinery'', ''Diamond'']"

definition CONSUMABLE_KEYS :: "string list" where
  "CONSUMABLE_KEYS = [''CC'', ''hooks'', ''Gold'', ''ME'']"

definition BASE_GENRES :: "string list" where
  "BASE_GENRES = [''Romance'', ''Adventure'', ''Comedy'', ''Tragedy'', ''Suspense'']"

definition FANTASY_GENRE :: string where
  "FANTASY_GENRE = ''Fantasy''"

definition CHAPTER_LENGTHS :: "int list" where
  "CHAPTER_LENGTHS = [10, 20, 30]"

definition TOTAL_CHAPTERS :: int where
  "TOTAL_CHAPTERS = 6"

record cheese_rule =
  rule_resource :: string
  page_gain :: int
  chapter_enemy :: string
  post_enemy :: string
  post_fantasy_enemy :: string
  notoriety_gain :: int

definition CHEESE_HUNT_RULES :: "(string, cheese_rule) dict" where
  "CHEESE_HUNT_RULES =
     [(''T1'', \<lparr>rule_resource = ''T1 cheese'', page_gain = 25, chapter_enemy = ''T1 mouse'',
               post_enemy = ''Common Weaver - With T1 Cheese'',
               post_fantasy_enemy = ''Ultimate MythWeaver - With T1 Cheese'',
               notoriety_gain = 25\<rparr>),
      (''T2'', \<lparr>rule_resource = ''T2 cheese'', page_gain = 50, chapter_enemy = ''T2 mouse'',
               post_enemy = ''Common Weaver - With T2 Cheese'',
               post_fantasy_enemy = ''Ultimate MythWeaver - With T2 Cheese'',
               notoriety_gain = 50\<rparr>),
      (''T3'', \<lparr>rule_resource = ''T3 cheese'', page_gain = 125, chapter_enemy = ''T3 mouse'',
               post_enemy = ''Common Weaver - With T3 Cheese'',
               post_fantasy_enemy = ''Ultimate MythWeaver - With T3 Cheese'',
               notoriety_gain = 125\<rparr>)]"

definition DEFAULT_ENEMY_DROPS :: "(string, (string, real) dict) dict" where
  "DEFAULT_ENEMY_DROPS =
     [(''T1 mouse'', [(''Thread'', 154 / 100), (''Gold'', 7500)]),
      (''T2 mouse'', [(''Machinery'', 243 / 100), (''Gold'', 16500)]),
      (''T3 mouse'', [(''Gold'', 25000)]),
      (''Common Weaver - With T1 Cheese'',
         [(''Gold'', 25000), (''mallets'', 15 / 10), (''Thread'', 154 / 100)]),
      (''Common Weaver - With T2 Cheese'',
         [(''Gold'', 25000), (''mallets'', 15 / 10), (''Machinery'', 243 / 100)]),
      (''Common Weaver - With T3 Cheese'', [(''Gold'', 25000), (''mallets'', 15 / 10)]),
      (''Ultimate MythWeaver - With T1 Cheese'',
         [(''Gold'', 225000), (''Diamond'', 1), (''mallets'', 23 / 10), (''Thread'', 154 / 100)]),
      (''Ultimate MythWeaver - With T2 Cheese'',
         [(''Gold'', 225000), (''Diamond'', 1), (''mallets'', 23 / 10),
          (''Machinery'', 243 / 100)]),
      (''Ultimate MythWeaver - With T3 Cheese'',
         [(''Gold'', 225000), (''Diamond'', 1), (''mallets'', 23 / 10)])]"

definition default_enemy_drops :: "(string, (string, real) dict) dict" where
  "default_enemy_drops = DEFAULT_ENEMY_DROPS"

definition default_genre_pages :: "(string, int) dict" where
  "default_genre_pages = map (\<lambda>genre. (genre, 0)) (BASE_GENRES @ [FANTASY_GENRE])"

text \<open>
  \<open>_copy_genre_pages\<close> starts from the default pages and overwrites the entries of the
  six known genres with \<open>int(value)\<close>; any other key of the source is dropped. The source
  dictionary holds numbers (a snapshot document may hold non-integers).
\<close>

definition copy_genre_pages :: "(string, real) dict \<Rightarrow> (string, int) dict" where
  "copy_genre_pages source =
     fold (\<lambda>(genre, v) pages.
             if dict_has pages genre then AList.update genre (py_int v) pages else pages)
       source default_genre_pages"

record recipe =
  label :: string
  outputs :: "(string, int) dict"
  costs :: "(string, int) dict"


section \<open>Game state\<close>

record chapter_choice =
  choice_length :: int
  choice_genre :: string

record game_state =
  resources :: "(string, real) dict"
  consumables :: "(string, real) dict"
  notoriety :: "(string, int) dict"
  enemy_drops :: "(string, (string, real) dict) dict"
  genre_pages :: "(string, int) dict"
  total_hunts :: int
  current_run_hunts :: int
  chapter_position :: int
  current_chapter_length :: "int option"
  current_chapter_genre :: "string option"
  current_chapter_progress :: int
  postscript_length :: int
  pending_chapter_choices :: "chapter_choice list"
  run_fantasy_available :: bool
  postscript_extended :: bool
  run_mallets_spent :: int
  total_mallets_spent :: int
  total_diamonds_gain :: real
  pending_choices_locked :: bool

text \<open>\<open>GameState()\<close>: every field at its dataclass default.\<close>

definition new_game_state :: game_state where
  "new_game_state =
     \<lparr>resources = map (\<lambda>key. (key, 0)) RESOURCE_KEYS,
      consumables = map (\<lambda>key. (key, 0)) CONSUMABLE_KEYS,
      notoriety = map (\<lambda>genre. (genre, 0)) BASE_GENRES,
      enemy_drops = default_enemy_drops,
      genre_pages = default_genre_pages,
      total_hunts = 0,
      current_run_hunts = 0,
      chapter_position = 0,
      current_chapter_length = None,
      current_chapter_genre = None,
      current_chapter_progress = 0,
      postscript_length = 10,
      pending_chapter_choices = [],
      run_fantasy_available = False,
      postscript_extended = False,
      run_mallets_spent = 0,
      total_mallets_spent = 0,
      total_diamonds_gain = 0,
      pending_choices_locked = False\<rparr>"

text \<open>
  \<open>clone\<close> copies every container; as values only \<open>genre_pages\<close> can change, because it
  goes through \<open>_copy_genre_pages\<close>.
\<close>

definition number_dict :: "(string, int) dict \<Rightarrow> (string, real) dict" where
  "number_dict d = map (\<lambda>(k, v). (k, real_of_int v)) d"

definition clone :: "game_state \<Rightarrow> game_state" where
  "clone s = s\<lparr>genre_pages := copy_genre_pages (number_dict (genre_pages s))\<rparr>"

definition fantasy_unlocked :: "game_state \<Rightarrow> bool" where
  "fantasy_unlocked s = list_all (\<lambda>(genre, v). v > 80) (notoriety s)"

section \<open>History manager\<close>

text \<open>
  The two stacks are Python lists used with \<open>append\<close> and \<open>pop\<close>: the top of a stack is
  the last element. \<open>undo\<close> and \<open>redo\<close> return the state they made current, or \<open>None\<close>,
  together with the manager after the call.
\<close>

record history =
  h_current :: game_state
  h_undo :: "game_state list"
  h_redo :: "game_state list"

definition HistoryManager :: "game_state \<Rightarrow> history" where
  "HistoryManager initial_state = \<lparr>h_current = initial_state, h_undo = [], h_redo = []\<rparr>"

definition commit :: "game_state \<Rightarrow> history \<Rightarrow> history" where
  "commit new_state h =
     \<lparr>h_current = new_state, h_undo = h_undo h @ [h_current h], h_redo = []\<rparr>"

definition can_undo :: "history \<Rightarrow> bool" where
  "can_undo h = (h_undo h \<noteq> [])"

definition can_redo :: "history \<Rightarrow> bool" where
  "can_redo h = (h_redo h \<noteq> [])"

definition undo :: "history \<Rightarrow> game_state option \<times> history" where
  "undo h =
     (if h_undo h = [] then (None, h)
      else (Some (last (h_undo h)),
            \<lparr>h_current = last (h_undo h), h_undo = butlast (h_undo h),
             h_redo = h_redo h @ [h_current h]\<rparr>))"

definition redo :: "history \<Rightarrow> game_state option \<times> history" where
  "redo h =
     (if h_redo h = [] then (None, h)
      else (Some (last (h_redo h)),
            \<lparr>h_current = last (h_redo h), h_undo = h_undo h @ [h_current h],
             h_redo = butlast (h_redo h)\<rparr>))"

section \<open>Outcomes, errors and the random source\<close>

text \<open>
  Every user action either commits a new state, or returns without committing (after a
  message box or silently), or raises inside the callback; a raise leaves the committed
  state as it was.
\<close>

datatype error = KeyError | IndexError

datatype outcome = Committed game_state | Rejected | Raised error

text \<open>
  The shared pseudo-random source is represented by the raw draws one action consumes:
  the indices behind the two \<open>random.choice\<close> calls, the unit draw behind
  \<open>random.uniform\<close>, and one list of draws for each \<open>random.shuffle\<close>.
\<close>

record rng =
  choice_length_draw :: nat
  choice_genre_draw :: nat
  uniform_draw :: real
  shuffle_draws :: "nat list list"

definition random_choice :: "nat \<Rightarrow> 'a list \<Rightarrow> error + 'a" where
  "random_choice n xs = (if xs = [] then Inl IndexError else Inr (xs ! (n mod length xs)))"

text \<open>
  \<open>random.shuffle\<close> returns some permutation of its argument. Each draw selects the next
  element among those not yet placed; without draws the remaining order is kept.
\<close>

fun shuffle_by :: "nat list \<Rightarrow> 'a list \<Rightarrow> 'a list" where
  "shuffle_by [] xs = xs"
| "shuffle_by (d # ds) xs =
     (if xs = [] then []
      else (xs ! (d mod length xs))
           # shuffle_by ds (take (d mod length xs) xs @ drop (Suc (d mod length xs)) xs))"

section \<open>Crafting engine\<close>

definition apply_delta :: "game_state \<Rightarrow> string \<Rightarrow> real \<Rightarrow> error + game_state" where
  "apply_delta state key delta =
     (if dict_has (resources state) key then
        Inr (state\<lparr>resources :=
               AList.update key (dict_get (resources state) key 0 + delta) (resources state)\<rparr>)
      else if dict_has (consumables state) key then
        Inr (state\<lparr>consumables :=
               AList.update key (dict_get (consumables state) key 0 + delta) (consumables state)\<rparr>)
      else Inl KeyError)"

fun apply_deltas :: "(string \<times> real) list \<Rightarrow> game_state \<Rightarrow> error + game_state" where
  "apply_deltas [] state = Inr state"
| "apply_deltas ((key, delta) # rest) state =
     (case apply_delta state key delta of
        Inl e \<Rightarrow> Inl e
      | Inr state' \<Rightarrow> apply_deltas rest state')"

text \<open>
  \<open>_craft\<close> reads the quantity field through \<open>_parse_int\<close>; \<open>quantity\<close> is that result
  (\<open>None\<close> when the text is not an integer). The second component of the result is the
  text written back to the quantity field, if any.
\<close>

definition craft :: "recipe \<Rightarrow> int option \<Rightarrow> game_state \<Rightarrow> outcome \<times> string option" where
  "craft recipe quantity s =
     (case quantity of
        None \<Rightarrow> (Rejected, Some ''1'')
      | Some q \<Rightarrow>
          if q \<le> 0 then (Rejected, Some ''1'')
          else
            (case apply_deltas
                    (map (\<lambda>(key, amount). (key, real_of_int (- amount * q))) (costs recipe)
                     @ map (\<lambda>(key, amount). (key, real_of_int (amount * q))) (outputs recipe))
                    (clone s) of
               Inl e \<Rightarrow> (Raised e, None)
             | Inr new_state \<Rightarrow> (Committed new_state, None)))"

section \<open>Loot engine\<close>

definition apply_loot_amount :: "game_state \<Rightarrow> string \<Rightarrow> real \<Rightarrow> game_state" where
  "apply_loot_amount state material amount =
     (if dict_has (resources state) material then
        state\<lparr>resources :=
          AList.update material (dict_get (resources state) material 0 + amount) (resources state)\<rparr>
      else if dict_has (consumables state) material then
        state\<lparr>consumables :=
          AList.update material (dict_get (consumables state) material 0 + amount)
            (consumables state)\<rparr>
      else
        state\<lparr>resources :=
          AList.update material (dict_get (resources state) material 0 + amount) (resources state)\<rparr>)"

fun loot_loop ::
  "real \<Rightarrow> (string \<times> real) list \<Rightarrow> game_state \<times> (string \<times> real) list
     \<Rightarrow> game_state \<times> (string \<times> real) list" where
  "loot_loop multiplier [] acc = acc"
| "loot_loop multiplier ((material, amount) # rest) (state, results) =
     (let v = (if material \<notin> {''Gold'', ''Diamond''} then amount * multiplier else amount);
          state1 = (if material = ''Diamond''
                    then state\<lparr>total_diamonds_gain := total_diamonds_gain state + v\<rparr>
                    else state);
          state2 = apply_loot_amount state1 material v
      in loot_loop multiplier rest (state2, results @ [(material, v)]))"

text \<open>
  \<open>state.enemy_drops.get(enemy) or DEFAULT_ENEMY_DROPS.get(enemy)\<close>: a missing or empty
  table of the state falls back to the built-in one.
\<close>

definition drops_for :: "game_state \<Rightarrow> string \<Rightarrow> (string, real) dict option" where
  "drops_for state enemy =
     (case map_of (enemy_drops state) enemy of
        None \<Rightarrow> map_of DEFAULT_ENEMY_DROPS enemy
      | Some d \<Rightarrow> if d = [] then map_of DEFAULT_ENEMY_DROPS enemy else Some d)"

definition apply_enemy_loot ::
  "game_state \<Rightarrow> string \<Rightarrow> real \<Rightarrow> game_state \<times> (string \<times> real) list" where
  "apply_enemy_loot state enemy multiplier =
     (case drops_for state enemy of
        None \<Rightarrow> (state, [])
      | Some drops \<Rightarrow> if drops = [] then (state, []) else loot_loop multiplier drops (state, []))"

section \<open>Notoriety and the postscript hunt\<close>

definition clamp_notoriety :: "int \<Rightarrow> int" where
  "clamp_notoriety v = max 0 (min 200 v)"

text \<open>
  \<open>_adjust_notoriety\<close>: the selected genre gains \<open>increase\<close>, clamped; then the loop over
  the dictionary's keys lowers every other entry by one when it is above 1.
\<close>

definition decay_step :: "string \<Rightarrow> string \<Rightarrow> (string, int) dict \<Rightarrow> (string, int) dict" where
  "decay_step selected_genre genre n =
     (if genre = selected_genre then n
      else if dict_get n genre 0 > 1 then AList.update genre (dict_get n genre 0 - 1) n
      else n)"

definition adjust_notoriety :: "game_state \<Rightarrow> string \<Rightarrow> int \<Rightarrow> game_state" where
  "adjust_notoriety state selected_genre increase =
     (let current = dict_get (notoriety state) selected_genre 0;
          n1 = AList.update selected_genre (clamp_notoriety (current + increase)) (notoriety state)
      in state\<lparr>notoriety := fold (decay_step selected_genre) (map fst n1) n1\<rparr>)"

definition fantasy_decay_step :: "string \<Rightarrow> (string, int) dict \<Rightarrow> (string, int) dict" where
  "fantasy_decay_step genre n = AList.update genre (max 0 (dict_get n genre 0 - 20)) n"

text \<open>
  \<open>_select_genre_by_pages\<close>: genres with positive pages are weighted by their pages; the
  first genre whose cumulative weight reaches the pick wins, the last weighted genre
  otherwise. Without any positive weight the draw is uniform over the six genres.
\<close>

fun pick_loop :: "real \<Rightarrow> real \<Rightarrow> (string \<times> int) list \<Rightarrow> string option" where
  "pick_loop pick cumulative [] = None"
| "pick_loop pick cumulative ((genre, weight) # rest) =
     (if pick \<le> cumulative + real_of_int weight then Some genre
      else pick_loop pick (cumulative + real_of_int weight) rest)"

definition genre_weights :: "game_state \<Rightarrow> (string \<times> int) list" where
  "genre_weights state =
     filter (\<lambda>(genre, pages). pages > 0)
       (map (\<lambda>genre. (genre, max 0 (dict_get (genre_pages state) genre 0)))
          (BASE_GENRES @ [FANTASY_GENRE]))"

definition select_genre_by_pages :: "rng \<Rightarrow> game_state \<Rightarrow> error + string" where
  "select_genre_by_pages rnd state =
     (let weights = genre_weights state in
      if weights = [] then random_choice (choice_genre_draw rnd) (BASE_GENRES @ [FANTASY_GENRE])
      else
        (let total = sum_list (map snd weights);
             pick = real_of_int total * uniform_draw rnd
         in case pick_loop pick 0 weights of
              Some genre \<Rightarrow> Inr genre
            | None \<Rightarrow> Inr (fst (last weights))))"

text \<open>
  \<open>_handle_postscript_hunt\<close> returns the state after the hunt together with the selected
  genre, the enemy and the loot lines.
\<close>

definition handle_postscript_hunt ::
  "rng \<Rightarrow> game_state \<Rightarrow> cheese_rule \<Rightarrow> real
     \<Rightarrow> error + (game_state \<times> string \<times> string \<times> (string \<times> real) list)" where
  "handle_postscript_hunt rnd state cheese_rule multiplier =
     (case select_genre_by_pages rnd state of
        Inl e \<Rightarrow> Inl e
      | Inr selected_genre \<Rightarrow>
          if selected_genre = FANTASY_GENRE then
            (let (state1, drops) =
                   apply_enemy_loot state (post_fantasy_enemy cheese_rule) multiplier;
                 state2 = state1\<lparr>notoriety :=
                            fold fantasy_decay_step (map fst (notoriety state1)) (notoriety state1)\<rparr>
             in Inr (state2, selected_genre, post_fantasy_enemy cheese_rule, drops))
          else
            (let (state1, drops) = apply_enemy_loot state (post_enemy cheese_rule) multiplier;
                 state2 = adjust_notoriety state1 selected_genre (notoriety_gain cheese_rule)
             in Inr (state2, selected_genre, post_enemy cheese_rule, drops)))"

section \<open>Run and chapter state machine\<close>

text \<open>
  \<open>_genres_for_selection\<close>: the first argument is the committed state the method reads
  when its optional argument is absent.
\<close>

definition genres_for_selection :: "game_state \<Rightarrow> bool option \<Rightarrow> string list" where
  "genres_for_selection self_state fantasy_available =
     (let fa = (case fantasy_available of None \<Rightarrow> run_fantasy_available self_state | Some b \<Rightarrow> b)
      in if fa then BASE_GENRES @ [FANTASY_GENRE] else BASE_GENRES)"

fun choices_loop ::
  "nat list list \<Rightarrow> string list \<Rightarrow> string list \<Rightarrow> int list \<Rightarrow> error + chapter_choice list" where
  "choices_loop draws genres available [] = Inr []"
| "choices_loop draws genres available (len # rest) =
     (let available1 = (if available = []
                        then shuffle_by (case draws of [] \<Rightarrow> [] | d # _ \<Rightarrow> d) genres
                        else available);
          draws1 = (if available = [] then tl draws else draws)
      in if available1 = [] then Inl IndexError
         else
           (case choices_loop draws1 genres (butlast available1) rest of
              Inl e \<Rightarrow> Inl e
            | Inr choices \<Rightarrow>
                Inr (\<lparr>choice_length = len, choice_genre = last available1\<rparr> # choices)))"

definition generate_next_chapter_choices ::
  "game_state \<Rightarrow> nat list list \<Rightarrow> game_state \<Rightarrow> error + chapter_choice list" where
  "generate_next_chapter_choices self_state draws state =
     (let genres = genres_for_selection self_state (Some (run_fantasy_available state))
      in choices_loop (tl draws) genres
           (shuffle_by (case draws of [] \<Rightarrow> [] | d # _ \<Rightarrow> d) genres) CHAPTER_LENGTHS)"

definition initialize_new_run_state :: "game_state \<Rightarrow> bool \<Rightarrow> game_state" where
  "initialize_new_run_state state fantasy_available =
     state\<lparr>genre_pages := default_genre_pages,
           current_run_hunts := 0,
           chapter_position := 0,
           current_chapter_length := None,
           current_chapter_genre := None,
           current_chapter_progress := 0,
           postscript_length := 10,
           pending_chapter_choices := [],
           run_fantasy_available := fantasy_available,
           postscript_extended := False,
           run_mallets_spent := 0,
           pending_choices_locked := False\<rparr>"

definition begin_chapter ::
  "game_state \<Rightarrow> nat list list \<Rightarrow> game_state \<Rightarrow> int \<Rightarrow> int \<Rightarrow> string \<Rightarrow> error + game_state" where
  "begin_chapter self_state draws state chapter_number len genre =
     (let state1 = state\<lparr>chapter_position := chapter_number,
                         current_chapter_length := Some len,
                         current_chapter_genre := Some genre,
                         current_chapter_progress := 0\<rparr>
      in if chapter_number \<le> TOTAL_CHAPTERS - 1 then
           (case generate_next_chapter_choices self_state draws state1 of
              Inl e \<Rightarrow> Inl e
            | Inr choices \<Rightarrow>
                Inr (state1\<lparr>pending_chapter_choices := choices, pending_choices_locked := True\<rparr>))
         else Inr (state1\<lparr>pending_chapter_choices := [], pending_choices_locked := False\<rparr>))"

definition record_mallet_spend :: "game_state \<Rightarrow> int \<Rightarrow> game_state" where
  "record_mallet_spend state amount =
     state\<lparr>run_mallets_spent := run_mallets_spent state + amount,
           total_mallets_spent := total_mallets_spent state + amount\<rparr>"

definition enter_postscript :: "game_state \<Rightarrow> game_state" where
  "enter_postscript state =
     state\<lparr>chapter_position := 7,
           current_chapter_length := None,
           current_chapter_genre := None,
           current_chapter_progress := 0,
           pending_chapter_choices := [],
           postscript_extended := False,
           pending_choices_locked := False\<rparr>"

definition finish_postscript :: "game_state \<Rightarrow> game_state" where
  "finish_postscript state =
     state\<lparr>chapter_position := 0,
           current_chapter_length := None,
           current_chapter_genre := None,
           current_chapter_progress := 0,
           postscript_length := 10,
           pending_chapter_choices := [],
           run_fantasy_available := False,
           current_run_hunts := 0,
           genre_pages := default_genre_pages,
           run_mallets_spent := 0\<rparr>"

definition handle_chapter_completion ::
  "game_state \<Rightarrow> nat list list \<Rightarrow> game_state \<Rightarrow> error + game_state" where
  "handle_chapter_completion self_state draws state =
     (if chapter_position state \<ge> TOTAL_CHAPTERS then Inr (enter_postscript state)
      else
        (let state1 = state\<lparr>current_chapter_length := None,
                            current_chapter_genre := None,
                            current_chapter_progress := 0,
                            pending_choices_locked := False\<rparr>
         in if pending_chapter_choices state1 = [] then
              (case generate_next_chapter_choices self_state draws state1 of
                 Inl e \<Rightarrow> Inl e
               | Inr choices \<Rightarrow> Inr (state1\<lparr>pending_chapter_choices := choices\<rparr>))
            else Inr state1))"

section \<open>Hunt orchestrator\<close>

definition page_gain_for_hunt :: "cheese_rule option \<Rightarrow> int" where
  "page_gain_for_hunt cheese_rule = (case cheese_rule of Some r \<Rightarrow> page_gain r | None \<Rightarrow> 1)"

definition cc_multiplier :: real where
  "cc_multiplier = 2"

definition target_length_of :: "game_state \<Rightarrow> int option" where
  "target_length_of s =
     (if chapter_position s = 7 then Some (postscript_length s) else current_chapter_length s)"

definition rule_for :: "string option \<Rightarrow> cheese_rule option" where
  "rule_for cheese_type =
     (case cheese_type of
        None \<Rightarrow> None
      | Some c \<Rightarrow> if c = [] then None else map_of CHEESE_HUNT_RULES c)"

text \<open>
  The part of \<open>_perform_hunt\<close> after its checks: everything done to the clone before it
  is committed. \<open>cc_enabled\<close> is the state of the "CC ON" check box.
\<close>

definition hunt_rewards ::
  "rng \<Rightarrow> bool \<Rightarrow> cheese_rule \<Rightarrow> game_state \<Rightarrow> error + game_state" where
  "hunt_rewards rnd cc_enabled cheese_rule new_state =
     (let loot_multiplier = (if cc_enabled then cc_multiplier else 1);
          state1 = (if cc_enabled
                    then new_state\<lparr>consumables :=
                           AList.update ''CC'' (dict_get (consumables new_state) ''CC'' 0 - 1)
                             (consumables new_state)\<rparr>
                    else new_state)
      in if chapter_position state1 = 7 then
           (case handle_postscript_hunt rnd state1 cheese_rule loot_multiplier of
              Inl e \<Rightarrow> Inl e
            | Inr (state2, log_genre, log_enemy, log_drops) \<Rightarrow> Inr state2)
         else
           (case current_chapter_genre state1 of
              None \<Rightarrow> Inr state1
            | Some genre \<Rightarrow>
                if genre = [] then Inr state1
                else
                  (let gain = page_gain_for_hunt (Some cheese_rule);
                       current_pages = dict_get (genre_pages state1) genre 0;
                       state2 = state1\<lparr>genre_pages :=
                                  AList.update genre (current_pages + gain) (genre_pages state1)\<rparr>
                   in Inr (fst (apply_enemy_loot state2 (chapter_enemy cheese_rule)
                                  loot_multiplier)))))"

definition hunt_effects ::
  "rng \<Rightarrow> bool \<Rightarrow> cheese_rule option \<Rightarrow> int \<Rightarrow> game_state \<Rightarrow> error + game_state" where
  "hunt_effects rnd cc_enabled cheese_rule target_length s =
     (let new_state = clone s;
          state1 = (case cheese_rule of
                      None \<Rightarrow> new_state
                    | Some r \<Rightarrow>
                        new_state\<lparr>resources :=
                          AList.update (rule_resource r)
                            (dict_get (resources new_state) (rule_resource r) 0 - 1)
                            (resources new_state)\<rparr>);
          state2 = state1\<lparr>current_chapter_progress := current_chapter_progress state1 + 1,
                          total_hunts := total_hunts state1 + 1,
                          current_run_hunts := current_run_hunts state1 + 1\<rparr>
      in case (case cheese_rule of
                 None \<Rightarrow> Inr state2
               | Some r \<Rightarrow> hunt_rewards rnd cc_enabled r state2) of
           Inl e \<Rightarrow> Inl e
         | Inr state3 \<Rightarrow>
             if current_chapter_progress state3 \<ge> target_length then
               (if chapter_position state3 = 7 then Inr (finish_postscript state3)
                else handle_chapter_completion s (shuffle_draws rnd) state3)
             else Inr state3)"

definition perform_hunt :: "rng \<Rightarrow> bool \<Rightarrow> string option \<Rightarrow> game_state \<Rightarrow> outcome" where
  "perform_hunt rnd cc_enabled cheese_type s =
     (if chapter_position s = 0 then Rejected
      else if pending_chapter_choices s \<noteq> [] \<and> \<not> pending_choices_locked s
              \<and> chapter_position s \<le> TOTAL_CHAPTERS then Rejected
      else if cheese_type = None then Rejected
      else if \<not> (1 \<le> chapter_position s \<and> chapter_position s \<le> TOTAL_CHAPTERS
                  \<or> chapter_position s = 7) then Rejected
      else
        (case target_length_of s of
           None \<Rightarrow> Rejected
         | Some target_length \<Rightarrow>
             if target_length = 0 then Rejected
             else if (case rule_for cheese_type of
                        None \<Rightarrow> False
                      | Some r \<Rightarrow> dict_get (resources s) (rule_resource r) 0 \<le> 0)
             then Rejected
             else
               (case hunt_effects rnd cc_enabled (rule_for cheese_type) target_length s of
                  Inl e \<Rightarrow> Raised e
                | Inr new_state \<Rightarrow> Committed new_state)))"

section \<open>Starting a run, choosing, rerolling and extending\<close>

definition ensure_can_start_run :: "game_state \<Rightarrow> bool" where
  "ensure_can_start_run s = (chapter_position s = 0)"

definition start_random_run :: "rng \<Rightarrow> game_state \<Rightarrow> outcome" where
  "start_random_run rnd s =
     (if \<not> ensure_can_start_run s then Rejected
      else
        (let fantasy_available = fantasy_unlocked s;
             available_genres = genres_for_selection s (Some fantasy_available)
         in if available_genres = [] then Rejected
            else
              (case random_choice (choice_length_draw rnd) CHAPTER_LENGTHS of
                 Inl e \<Rightarrow> Raised e
               | Inr len \<Rightarrow>
                   (case random_choice (choice_genre_draw rnd) available_genres of
                      Inl e \<Rightarrow> Raised e
                    | Inr genre \<Rightarrow>
                        (case begin_chapter s (shuffle_draws rnd)
                                (initialize_new_run_state (clone s) fantasy_available)
                                1 len genre of
                           Inl e \<Rightarrow> Raised e
                         | Inr new_state \<Rightarrow> Committed new_state)))))"

definition confirm_manual_start :: "rng \<Rightarrow> int \<Rightarrow> string \<Rightarrow> game_state \<Rightarrow> outcome" where
  "confirm_manual_start rnd len genre s =
     (let new_state = clone s in
      if dict_get (resources new_state) ''mallets'' 0 < 30 then Rejected
      else
        (let state1 = new_state\<lparr>resources :=
                        AList.update ''mallets'' (dict_get (resources new_state) ''mallets'' 0 - 30)
                          (resources new_state)\<rparr>;
             fantasy_available = fantasy_unlocked state1
         in if genre = FANTASY_GENRE \<and> \<not> fantasy_available then Rejected
            else
              (case begin_chapter s (shuffle_draws rnd)
                      (record_mallet_spend (initialize_new_run_state state1 fantasy_available) 30)
                      1 len genre of
                 Inl e \<Rightarrow> Raised e
               | Inr state2 \<Rightarrow> Committed state2)))"

text \<open>
  \<open>_start_manual_run\<close> opens a dialog whose two read-only combo boxes offer the chapter
  lengths and the available genres; confirming calls \<open>_confirm_manual_start\<close> with the
  selected pair.
\<close>

definition start_manual_run :: "rng \<Rightarrow> int \<Rightarrow> string \<Rightarrow> game_state \<Rightarrow> outcome" where
  "start_manual_run rnd chosen_length chosen_genre s =
     (if \<not> ensure_can_start_run s then Rejected
      else if dict_get (resources s) ''mallets'' 0 < 30 then Rejected
      else
        (let fantasy_available = fantasy_unlocked s;
             available_genres = genres_for_selection s (Some fantasy_available)
         in if available_genres = [] then Rejected
            else if chosen_length \<notin> set CHAPTER_LENGTHS \<or> chosen_genre \<notin> set available_genres
            then Rejected
            else confirm_manual_start rnd chosen_length chosen_genre s))"

definition choose_next_chapter :: "rng \<Rightarrow> chapter_choice \<Rightarrow> game_state \<Rightarrow> outcome" where
  "choose_next_chapter rnd choice s =
     (if choice_length choice = 0 then Rejected
      else
        (let new_state = clone s in
         if pending_chapter_choices new_state = [] then Rejected
         else if pending_choices_locked new_state then Rejected
         else
           (let n0 = min (chapter_position new_state + 1) TOTAL_CHAPTERS;
                next_chapter_number =
                  (if n0 \<le> chapter_position new_state then chapter_position new_state + 1 else n0)
            in case begin_chapter s (shuffle_draws rnd) new_state next_chapter_number
                      (choice_length choice) (choice_genre choice) of
                 Inl e \<Rightarrow> Raised e
               | Inr state1 \<Rightarrow> Committed state1)))"

definition extend_postscript :: "game_state \<Rightarrow> outcome" where
  "extend_postscript s =
     (if chapter_position s \<noteq> 7 then Rejected
      else if dict_get (resources s) ''mallets'' 0 < 30 then Rejected
      else
        (let new_state = clone s in
         if dict_get (resources new_state) ''mallets'' 0 < 30 then Rejected
         else
           Committed
             (record_mallet_spend
                (new_state\<lparr>resources :=
                    AList.update ''mallets'' (dict_get (resources new_state) ''mallets'' 0 - 30)
                      (resources new_state),
                  postscript_length := postscript_length new_state + 3,
                  postscript_extended := True\<rparr>) 30)))"

text \<open>
  \<open>_refresh_hunt_section\<close> computes this condition for the state of the "Postscript +3"
  button. The handler above does not repeat its last conjunct, and the button is not
  always in step with the committed state (\<open>_refresh_view\<close> raises before it reaches the
  hunt section when the state holds a resource without an entry widget), so an action is
  the handler alone.
\<close>

definition extend_postscript_button_enabled :: "game_state \<Rightarrow> bool" where
  "extend_postscript_button_enabled s =
     (chapter_position s = 7 \<and> dict_get (resources s) ''mallets'' 0 \<ge> 30
      \<and> \<not> postscript_extended s)"

definition reroll_chapter_choices :: "rng \<Rightarrow> game_state \<Rightarrow> outcome" where
  "reroll_chapter_choices rnd s =
     (if pending_chapter_choices s = [] then Rejected
      else if dict_get (resources s) ''mallets'' 0 < 3 then Rejected
      else
        (let new_state = clone s in
         if dict_get (resources new_state) ''mallets'' 0 < 3 then Rejected
         else
           (let state1 = new_state\<lparr>resources :=
                           AList.update ''mallets'' (dict_get (resources new_state) ''mallets'' 0 - 3)
                             (resources new_state)\<rparr>
            in case generate_next_chapter_choices s (shuffle_draws rnd) state1 of
                 Inl e \<Rightarrow> Raised e
               | Inr choices \<Rightarrow>
                   Committed (record_mallet_spend (state1\<lparr>pending_chapter_choices := choices\<rparr>) 3))))"

section \<open>Field edits and the loot table\<close>

datatype category = Resources | Consumables | Notoriety

definition category_keys :: "category \<Rightarrow> string list" where
  "category_keys c =
     (case c of Resources \<Rightarrow> RESOURCE_KEYS | Consumables \<Rightarrow> CONSUMABLE_KEYS
      | Notoriety \<Rightarrow> BASE_GENRES)"

text \<open>
  \<open>_entry_changed\<close>: \<open>v\<close> is the number the parser returned for the entry's text (\<open>None\<close>
  when it is not a number). \<open>_get_var\<close> raises for a key that has no entry widget. The
  notoriety entries are parsed by \<open>_parse_int\<close>, so their numbers are integers.
\<close>

definition entry_changed :: "category \<Rightarrow> string \<Rightarrow> bool \<Rightarrow> real option \<Rightarrow> game_state \<Rightarrow> outcome" where
  "entry_changed cat key clamp v s =
     (if key \<notin> set (category_keys cat) then Raised KeyError
      else
        (case v of
           None \<Rightarrow> Rejected
         | Some v0 \<Rightarrow>
             (let v1 = (if clamp then max 0 (min 200 v0) else v0) in
              case cat of
                Resources \<Rightarrow>
                  if map_of (resources s) key = Some v1 then Rejected
                  else Committed ((clone s)\<lparr>resources := AList.update key v1 (resources (clone s))\<rparr>)
              | Consumables \<Rightarrow>
                  if map_of (consumables s) key = Some v1 then Rejected
                  else Committed
                         ((clone s)\<lparr>consumables := AList.update key v1 (consumables (clone s))\<rparr>)
              | Notoriety \<Rightarrow>
                  if map_option real_of_int (map_of (notoriety s) key) = Some v1 then Rejected
                  else Committed
                         ((clone s)\<lparr>notoriety :=
                             AList.update key (py_int v1) (notoriety (clone s))\<rparr>))))"

text \<open>
  \<open>_drop_value_changed\<close> reads the entry widget of a row of the loot table. The rows are
  widgets of the view, not part of the state: \<open>entry\<close> is \<open>None\<close> when the view has no
  such row (a \<open>KeyError\<close>), and otherwise the number parsed from the entry's text.
\<close>

definition drop_value_changed ::
  "string \<Rightarrow> string \<Rightarrow> real option option \<Rightarrow> game_state \<Rightarrow> outcome" where
  "drop_value_changed enemy material entry s =
     (case entry of
        None \<Rightarrow> Raised KeyError
      | Some v \<Rightarrow>
          (case v of
             None \<Rightarrow> Rejected
           | Some v0 \<Rightarrow>
               if dict_get (dict_get (enemy_drops s) enemy []) material 0 = v0 then Rejected
               else
                 (let new_state = clone s;
                      drops = dict_get (enemy_drops new_state) enemy []
                  in Committed
                       (new_state\<lparr>enemy_drops :=
                          AList.update enemy (AList.update material v0 drops)
                            (enemy_drops new_state)\<rparr>))))"

definition add_drop_to_enemy :: "string \<Rightarrow> string \<Rightarrow> game_state \<Rightarrow> outcome" where
  "add_drop_to_enemy enemy material s =
     (let new_state = clone s;
          drops = dict_get (enemy_drops new_state) enemy []
      in if dict_has drops material then Rejected
         else Committed
                (new_state\<lparr>enemy_drops :=
                   AList.update enemy (AList.update material 0 drops) (enemy_drops new_state)\<rparr>))"

section \<open>Snapshot documents\<close>

text \<open>
  The snapshot is a JSON object; a field that is absent is \<open>None\<close>. JSON numbers are
  reals, and \<open>from_dict\<close> converts with \<open>int\<close> or \<open>float\<close> as the source does.
\<close>

record snapshot_doc =
  doc_resources :: "(string, real) dict option"
  doc_consumables :: "(string, real) dict option"
  doc_notoriety :: "(string, real) dict option"
  doc_enemy_drops :: "(string, (string, real) dict) dict option"
  doc_genre_pages :: "(string, real) dict option"
  doc_total_hunts :: "real option"
  doc_current_run_hunts :: "real option"
  doc_chapter_position :: "real option"
  doc_current_chapter_length :: "real option"
  doc_current_chapter_genre :: "string option"
  doc_current_chapter_progress :: "real option"
  doc_postscript_length :: "real option"
  doc_pending_chapter_choices :: "chapter_choice list option"
  doc_run_fantasy_available :: "bool option"
  doc_postscript_extended :: "bool option"
  doc_run_mallets_spent :: "real option"
  doc_total_mallets_spent :: "real option"
  doc_pending_choices_locked :: "bool option"
  doc_total_diamonds_gain :: "real option"

definition to_dict :: "game_state \<Rightarrow> snapshot_doc" where
  "to_dict s =
     \<lparr>doc_resources = Some (resources s),
      doc_consumables = Some (consumables s),
      doc_notoriety = Some (number_dict (notoriety s)),
      doc_enemy_drops = Some (enemy_drops s),
      doc_genre_pages = Some (number_dict (genre_pages s)),
      doc_total_hunts = Some (real_of_int (total_hunts s)),
      doc_current_run_hunts = Some (real_of_int (current_run_hunts s)),
      doc_chapter_position = Some (real_of_int (chapter_position s)),
      doc_current_chapter_length = map_option real_of_int (current_chapter_length s),
      doc_current_chapter_genre = current_chapter_genre s,
      doc_current_chapter_progress = Some (real_of_int (current_chapter_progress s)),
      doc_postscript_length = Some (real_of_int (postscript_length s)),
      doc_pending_chapter_choices = Some (pending_chapter_choices s),
      doc_run_fantasy_available = Some (run_fantasy_available s),
      doc_postscript_extended = Some (postscript_extended s),
      doc_run_mallets_spent = Some (real_of_int (run_mallets_spent s)),
      doc_total_mallets_spent = Some (real_of_int (total_mallets_spent s)),
      doc_pending_choices_locked = Some (pending_choices_locked s),
      doc_total_diamonds_gain = Some (total_diamonds_gain s)\<rparr>"

definition get_or :: "'a option \<Rightarrow> 'a \<Rightarrow> 'a" where
  "get_or field dflt = (case field of None \<Rightarrow> dflt | Some v \<Rightarrow> v)"

definition from_dict :: "snapshot_doc \<Rightarrow> game_state" where
  "from_dict data =
     (let state = new_game_state;
          raw_resources = get_or (doc_resources data) [];
          raw_consumables = get_or (doc_consumables data) [];
          raw_notoriety = get_or (doc_notoriety data) [];
          raw_drops = get_or (doc_enemy_drops data) []
      in \<lparr>resources =
             fold (\<lambda>key d. AList.update key (dict_get raw_resources key 0) d) RESOURCE_KEYS
               (resources state),
           consumables =
             fold (\<lambda>key d. AList.update key (dict_get raw_consumables key 0) d) CONSUMABLE_KEYS
               (consumables state),
           notoriety =
             fold (\<lambda>genre n.
                     AList.update genre (clamp_notoriety (py_int (dict_get raw_notoriety genre 0))) n)
               BASE_GENRES (notoriety state),
           enemy_drops =
             fold (\<lambda>enemy d. dict_setdefault enemy (dict_get DEFAULT_ENEMY_DROPS enemy []) d)
               (map fst DEFAULT_ENEMY_DROPS)
               (fold (\<lambda>(enemy, drops) d. AList.update enemy drops d) raw_drops
                  (enemy_drops state)),
           genre_pages = copy_genre_pages (get_or (doc_genre_pages data) []),
           total_hunts = py_int (get_or (doc_total_hunts data) 0),
           current_run_hunts = py_int (get_or (doc_current_run_hunts data) 0),
           chapter_position = py_int (get_or (doc_chapter_position data) 0),
           current_chapter_length = map_option py_int (doc_current_chapter_length data),
           current_chapter_genre = doc_current_chapter_genre data,
           current_chapter_progress = py_int (get_or (doc_current_chapter_progress data) 0),
           postscript_length = py_int (get_or (doc_postscript_length data) 10),
           pending_chapter_choices = get_or (doc_pending_chapter_choices data) [],
           run_fantasy_available = get_or (doc_run_fantasy_available data) False,
           postscript_extended = get_or (doc_postscript_extended data) False,
           run_mallets_spent = py_int (get_or (doc_run_mallets_spent data) 0),
           total_mallets_spent = py_int (get_or (doc_total_mallets_spent data) 0),
           total_diamonds_gain = get_or (doc_total_diamonds_gain data) 0,
           pending_choices_locked = get_or (doc_pending_choices_locked data) False\<rparr>)"

definition load_snapshot :: "snapshot_doc \<Rightarrow> game_state \<Rightarrow> outcome" where
  "load_snapshot raw s = Committed (from_dict raw)"

section \<open>The application: actions on the history\<close>

text \<open>
  An action is one user-triggered call that commits at most one new state. A command is
  what the user can do to the history: an action, a batch of ten hunts, undo or redo.
\<close>

datatype action =
    StartRandomRun rng
  | StartManualRun rng int string
  | PerformHunt rng bool "string option"
  | ChooseNextChapter rng chapter_choice
  | RerollChoices rng
  | ExtendPostscript
  | Craft recipe "int option"
  | EditResource string "real option"
  | EditConsumable string "real option"
  | EditNotoriety string "int option"
  | EditDrop string string "real option option"
  | AddDrop string string
  | LoadSnapshot snapshot_doc

fun perform :: "action \<Rightarrow> game_state \<Rightarrow> outcome" where
  "perform (StartRandomRun rnd) s = start_random_run rnd s"
| "perform (StartManualRun rnd len genre) s = start_manual_run rnd len genre s"
| "perform (PerformHunt rnd cc cheese_type) s = perform_hunt rnd cc cheese_type s"
| "perform (ChooseNextChapter rnd choice) s = choose_next_chapter rnd choice s"
| "perform (RerollChoices rnd) s = reroll_chapter_choices rnd s"
| "perform ExtendPostscript s = extend_postscript s"
| "perform (Craft recipe quantity) s = fst (craft recipe quantity s)"
| "perform (EditResource key v) s = entry_changed Resources key False v s"
| "perform (EditConsumable key v) s = entry_changed Consumables key False v s"
| "perform (EditNotoriety key v) s = entry_changed Notoriety key True (map_option real_of_int v) s"
| "perform (EditDrop enemy material v) s = drop_value_changed enemy material v s"
| "perform (AddDrop enemy material) s = add_drop_to_enemy enemy material s"
| "perform (LoadSnapshot raw) s = load_snapshot raw s"

text \<open>\<open>_commit_state\<close> after an action that committed; nothing otherwise.\<close>

definition commit_outcome :: "outcome \<Rightarrow> history \<Rightarrow> history" where
  "commit_outcome r h = (case r of Committed s \<Rightarrow> commit s h | Rejected \<Rightarrow> h | Raised e \<Rightarrow> h)"

definition act :: "action \<Rightarrow> history \<Rightarrow> history" where
  "act a h = commit_outcome (perform a (h_current h)) h"

text \<open>\<open>_batch_hunt\<close>: after its two checks, ten single hunts, each committed on its own.\<close>

definition batch_hunt :: "(nat \<Rightarrow> rng) \<Rightarrow> bool \<Rightarrow> string \<Rightarrow> history \<Rightarrow> history" where
  "batch_hunt rnds cc_enabled cheese_type h =
     (case map_of CHEESE_HUNT_RULES cheese_type of
        None \<Rightarrow> h
      | Some cheese_rule \<Rightarrow>
          if dict_get (resources (h_current h)) (rule_resource cheese_rule) 0 < 10 then h
          else if get_or (target_length_of (h_current h)) 0
                    - current_chapter_progress (h_current h) < 10 then h
          else fold (\<lambda>i. act (PerformHunt (rnds i) cc_enabled (Some cheese_type))) [0..<10] h)"

datatype command = Act action | BatchHunt "nat \<Rightarrow> rng" bool string | Undo | Redo

fun apply_command :: "command \<Rightarrow> history \<Rightarrow> history" where
  "apply_command (Act a) h = act a h"
| "apply_command (BatchHunt rnds cc cheese_type) h = batch_hunt rnds cc cheese_type h"
| "apply_command Undo h = snd (undo h)"
| "apply_command Redo h = snd (redo h)"

definition run_commands :: "command list \<Rightarrow> history \<Rightarrow> history" where
  "run_commands cmds h = fold apply_command cmds h"

definition initial_history :: history where
  "initial_history = HistoryManager new_game_state"

section \<open>Vocabulary of the properties\<close>

text \<open>
  The amount a material currently has: its resource entry when there is one, else its
  consumable entry, else nothing yet.
\<close>

definition bucket :: "game_state \<Rightarrow> string \<Rightarrow> real" where
  "bucket s material =
     (if dict_has (resources s) material then dict_get (resources s) material 0
      else dict_get (consumables s) material 0)"

text \<open>
  Python compares dictionaries by their entries, whatever the insertion order. Two states
  are the same when their dictionaries have the same entries and their other fields are
  equal.
\<close>

definition same_dict :: "('k, 'v) dict \<Rightarrow> ('k, 'v) dict \<Rightarrow> bool" where
  "same_dict d d' = (map_of d = map_of d')"

definition same_state :: "game_state \<Rightarrow> game_state \<Rightarrow> bool" where
  "same_state s t =
     (same_dict (resources s) (resources t)
      \<and> same_dict (consumables s) (consumables t)
      \<and> same_dict (notoriety s) (notoriety t)
      \<and> same_dict (enemy_drops s) (enemy_drops t)
      \<and> same_dict (genre_pages s) (genre_pages t)
      \<and> total_hunts s = total_hunts t
      \<and> current_run_hunts s = current_run_hunts t
      \<and> chapter_position s = chapter_position t
      \<and> current_chapter_length s = current_chapter_length t
      \<and> current_chapter_genre s = current_chapter_genre t
      \<and> current_chapter_progress s = current_chapter_progress t
      \<and> postscript_length s = postscript_length t
      \<and> pending_chapter_choices s = pending_chapter_choices t
      \<and> run_fantasy_available s = run_fantasy_available t
      \<and> postscript_extended s = postscript_extended t
      \<and> run_mallets_spent s = run_mallets_spent t
      \<and> total_mallets_spent s = total_mallets_spent t
      \<and> total_diamonds_gain s = total_diamonds_gain t
      \<and> pending_choices_locked s = pending_choices_locked t)"

text \<open>
  A state whose dictionaries hold exactly the built-in keys, each once, and whose loot
  table has an entry for every built-in enemy.
\<close>

definition builtin_keys_only :: "game_state \<Rightarrow> bool" where
  "builtin_keys_only s =
     (fst ` set (resources s) = set RESOURCE_KEYS
      \<and> fst ` set (consumables s) = set CONSUMABLE_KEYS
      \<and> fst ` set (notoriety s) = set BASE_GENRES
      \<and> fst ` set (genre_pages s) = set (BASE_GENRES @ [FANTASY_GENRE])
      \<and> distinct (map fst (genre_pages s))
      \<and> fst ` set DEFAULT_ENEMY_DROPS \<subseteq> fst ` set (enemy_drops s)
      \<and> distinct (map fst (enemy_drops s)))"

definition clamped :: "game_state \<Rightarrow> game_state" where
  "clamped s = s\<lparr>notoriety := map (\<lambda>(genre, v). (genre, clamp_notoriety v)) (notoriety s)\<rparr>"

text \<open>The state an outcome commits, if it commits one.\<close>

definition committed_state :: "outcome \<Rightarrow> game_state option" where
  "committed_state r = (case r of Committed s \<Rightarrow> Some s | Rejected \<Rightarrow> None | Raised e \<Rightarrow> None)"

text \<open>The three actions that are not steps inside a run.\<close>

fun starts_or_loads :: "action \<Rightarrow> bool" where
  "starts_or_loads (StartRandomRun rnd) = True"
| "starts_or_loads (StartManualRun rnd len genre) = True"
| "starts_or_loads (LoadSnapshot raw) = True"
| "starts_or_loads a = False"

text \<open>
  Shape of the dictionaries of every state the program builds: the fixed resource and
  consumable kinds are present, the notoriety entries are exactly the base genres, each
  within 0..200.
\<close>

definition keys_present :: "game_state \<Rightarrow> bool" where
  "keys_present s =
     (set RESOURCE_KEYS \<subseteq> fst ` set (resources s)
      \<and> set CONSUMABLE_KEYS \<subseteq> fst ` set (consumables s))"

definition notoriety_ok :: "game_state \<Rightarrow> bool" where
  "notoriety_ok s =
     (map fst (notoriety s) = BASE_GENRES \<and> list_all (\<lambda>(g, v). 0 \<le> v \<and> v \<le> 200) (notoriety s))"

definition keys_grow :: "game_state \<Rightarrow> game_state \<Rightarrow> bool" where
  "keys_grow s s' =
     (fst ` set (resources s) \<subseteq> fst ` set (resources s')
      \<and> fst ` set (consumables s) \<subseteq> fst ` set (consumables s'))"

text \<open>The second state differs from the first at most in the fields a hunt rewards.\<close>

definition rewards_only :: "game_state \<Rightarrow> game_state \<Rightarrow> bool" where
  "rewards_only s s' =
     (s'\<lparr>resources := resources s, consumables := consumables s,
         total_diamonds_gain := total_diamonds_gain s, notoriety := notoriety s,
         genre_pages := genre_pages s\<rparr> = s)"

definition state_ok :: "game_state \<Rightarrow> bool" where
  "state_ok s = (keys_present s \<and> notoriety_ok s)"

definition history_ok :: "history \<Rightarrow> bool" where
  "history_ok h = list_all state_ok (h_current h # h_undo h @ h_redo h)"

section \<open>Example inputs\<close>

definition example_rng :: rng where
  "example_rng =
     \<lparr>choice_length_draw = 0, choice_genre_draw = 0, uniform_draw = 0,
      shuffle_draws = [[1, 2, 3]]\<rparr>"

text \<open>A state in the postscript with one T1 cheese, pages only for Romance.\<close>

definition postscript_example :: game_state where
  "postscript_example =
     new_game_state\<lparr>chapter_position := 7,
       resources := AList.update ''T1 cheese'' 1 (resources new_game_state),
       notoriety := [(''Romance'', 190), (''Adventure'', 1), (''Comedy'', 0), (''Tragedy'', 2),
                     (''Suspense'', 200)],
       genre_pages := AList.update ''Romance'' 25 default_genre_pages\<rparr>"

text \<open>A state at the start of the postscript with 100 mallets.\<close>

definition rich_postscript_example :: game_state where
  "rich_postscript_example =
     new_game_state\<lparr>chapter_position := 7,
       resources := AList.update ''mallets'' 100 (resources new_game_state)\<rparr>"


text \<open>A partial snapshot document: only the notoriety field, every base genre at 90.\<close>

definition notorious_doc :: snapshot_doc where
  "notorious_doc =
     \<lparr>doc_resources = None, doc_consumables = None,
      doc_notoriety = Some (map (\<lambda>genre. (genre, 90)) BASE_GENRES),
      doc_enemy_drops = None, doc_genre_pages = None, doc_total_hunts = None,
      doc_current_run_hunts = None, doc_chapter_position = None,
      doc_current_chapter_length = None, doc_current_chapter_genre = None,
      doc_current_chapter_progress = None, doc_postscript_length = None,
      doc_pending_chapter_choices = None, doc_run_fantasy_available = None,
      doc_postscript_extended = None, doc_run_mallets_spent = None,
      doc_total_mallets_spent = None, doc_pending_choices_locked = None,
      doc_total_diamonds_gain = None\<rparr>"

text \<open>The same document with 30 mallets.\<close>

definition rich_notorious_doc :: snapshot_doc where
  "rich_notorious_doc = notorious_doc\<lparr>doc_resources := Some [(''mallets'', 30)]\<rparr>"

text \<open>The snapshot document without any field.\<close>

definition empty_doc :: snapshot_doc where
  "empty_doc =
     \<lparr>doc_resources = None, doc_consumables = None, doc_notoriety = None,
      doc_enemy_drops = None, doc_genre_pages = None, doc_total_hunts = None,
      doc_current_run_hunts = None, doc_chapter_position = None,
      doc_current_chapter_length = None, doc_current_chapter_genre = None,
      doc_current_chapter_progress = None, doc_postscript_length = None,
      doc_pending_chapter_choices = None, doc_run_fantasy_available = None,
      doc_postscript_extended = None, doc_run_mallets_spent = None,
      doc_total_mallets_spent = None, doc_pending_choices_locked = None,
      doc_total_diamonds_gain = None\<rparr>"

text \<open>
  A snapshot document whose loot table gives the T1 mouse a material that is neither a
  resource nor a consumable, in chapter 1 with one T1 cheese.
\<close>

definition custom_loot_doc :: snapshot_doc where
  "custom_loot_doc =
     empty_doc\<lparr>doc_resources := Some [(''T1 cheese'', 1)],
       doc_enemy_drops := Some [(''T1 mouse'', [(''Foo'', 1)])],
       doc_chapter_position := Some 1,
       doc_current_chapter_length := Some 10,
       doc_current_chapter_genre := Some ''Romance''\<rparr>"

text \<open>A fresh state with notoriety values outside 0..200.\<close>

definition out_of_range_example :: game_state where
  "out_of_range_example =
     new_game_state\<lparr>notoriety := [(''Romance'', 250), (''Adventure'', - 5), (''Comedy'', 0),
                                  (''Tragedy'', 2), (''Suspense'', 200)]\<rparr>"

text \<open>
  The state after loading \<open>custom_loot_doc\<close> and hunting once with T1 cheese.
\<close>

definition looted_example :: game_state where
  "looted_example =
     h_current (run_commands [Act (LoadSnapshot custom_loot_doc),
                              Act (PerformHunt example_rng False (Some ''T1''))]
                  initial_history)"

section \<open>Properties of the history manager\<close>

text \<open>
  C3. For every history (whose current state is \<open>s\<close>) and every next state \<open>n\<close>: undo after
  commit returns \<open>s\<close> and makes it current; redo after that undo returns \<open>n\<close> and gives back
  the history as it was right after the commit; a new commit after the undo leaves the redo
  stack empty, so redo then fails and changes nothing; undo on an empty undo stack fails
  and changes nothing.
\<close>

theorem history_undo_redo:
  "fst (undo (commit n h)) = Some (h_current h)
   \<and> h_current (snd (undo (commit n h))) = h_current h
   \<and> h_undo (snd (undo (commit n h))) = h_undo h
   \<and> redo (snd (undo (commit n h))) = (Some n, commit n h)
   \<and> h_redo (commit m (snd (undo (commit n h)))) = []
   \<and> redo (commit m (snd (undo (commit n h)))) = (None, commit m (snd (undo (commit n h))))
   \<and> undo \<lparr>h_current = c, h_undo = [], h_redo = r\<rparr>
       = (None, \<lparr>h_current = c, h_undo = [], h_redo = r\<rparr>)"
  by (simp add: undo_def redo_def commit_def)

section \<open>Dictionaries\<close>

lemma dict_has_iff: "dict_has d k \<longleftrightarrow> k \<in> fst ` set d"
  by (simp add: dict_has_def map_of_eq_None_iff)

lemma dict_has_update [simp]: "dict_has (AList.update k v d) k' = (k' = k \<or> dict_has d k')"
  by (auto simp: dict_has_def update_conv')

lemma dict_get_update [simp]:
  "dict_get (AList.update k v d) k' dflt = (if k' = k then v else dict_get d k' dflt)"
  by (simp add: dict_get_def update_conv')

lemma dict_get_absent: "\<not> dict_has d k \<Longrightarrow> dict_get d k dflt = dflt"
  by (simp add: dict_has_def dict_get_def)

section \<open>Properties of the loot engine\<close>

lemma bucket_apply_loot_amount:
  "bucket (apply_loot_amount s m v) m' = bucket s m' + (if m' = m then v else 0)"
  by (simp add: bucket_def apply_loot_amount_def dict_get_absent)

lemma bucket_diamonds [simp]: "bucket (s\<lparr>total_diamonds_gain := x\<rparr>) m = bucket s m"
  by (simp add: bucket_def)

lemma diamonds_apply_loot_amount [simp]:
  "total_diamonds_gain (apply_loot_amount s m v) = total_diamonds_gain s"
  by (simp add: apply_loot_amount_def)

lemma loot_loop_bucket:
  "distinct (map fst drops) \<Longrightarrow>
   bucket (fst (loot_loop mult drops (s, res))) m =
     bucket s m + (case map_of drops m of None \<Rightarrow> 0
                   | Some a \<Rightarrow> if m \<in> {''Gold'', ''Diamond''} then a else a * mult)"
proof (induction drops arbitrary: s res)
  case Nil
  then show ?case by simp
next
  case (Cons p drops)
  obtain m0 a0 where p: "p = (m0, a0)" by (cases p)
  from Cons.prems have d: "distinct (map fst drops)" and n: "m0 \<notin> fst ` set drops"
    by (auto simp: p)
  have none: "map_of drops m0 = None" using n by (simp add: map_of_eq_None_iff)
  show ?case
    using none by (simp add: p Let_def Cons.IH[OF d] bucket_apply_loot_amount)
qed

lemma loot_loop_diamonds:
  "distinct (map fst drops) \<Longrightarrow>
   total_diamonds_gain (fst (loot_loop mult drops (s, res))) =
     total_diamonds_gain s + (case map_of drops ''Diamond'' of None \<Rightarrow> 0 | Some a \<Rightarrow> a)"
proof (induction drops arbitrary: s res)
  case Nil
  then show ?case by simp
next
  case (Cons p drops)
  obtain m0 a0 where p: "p = (m0, a0)" by (cases p)
  from Cons.prems have d: "distinct (map fst drops)" and n: "m0 \<notin> fst ` set drops"
    by (auto simp: p)
  have none: "map_of drops m0 = None" using n by (simp add: map_of_eq_None_iff)
  show ?case
    using none by (simp add: p Let_def Cons.IH[OF d])
qed

lemma loot_loop_results:
  "snd (loot_loop mult drops (s, res)) =
     res @ map (\<lambda>(m, a). (m, if m \<in> {''Gold'', ''Diamond''} then a else a * mult)) drops"
  by (induction drops arbitrary: s res) (auto simp: Let_def)


text \<open>
  C4. Whatever table an enemy drops from and whatever the multiplier, the loot changes the
  bucket of every material of the table by its drop amount times the multiplier, except
  for Gold and Diamond, whose buckets change by the drop amount itself; no other bucket
  changes; the Diamond amount is also added to \<open>total_diamonds_gain\<close>; and the returned
  loot lines list these amounts. The table is a dictionary, so its keys are distinct.
\<close>

theorem loot_scaling:
  assumes "drops_for s enemy = Some drops" and "distinct (map fst drops)"
  shows "(\<forall>(m, a) \<in> set drops.
            bucket (fst (apply_enemy_loot s enemy mult)) m
              = bucket s m + (if m = ''Gold'' \<or> m = ''Diamond'' then a else a * mult))
         \<and> (\<forall>m. m \<notin> fst ` set drops \<longrightarrow> bucket (fst (apply_enemy_loot s enemy mult)) m = bucket s m)
         \<and> total_diamonds_gain (fst (apply_enemy_loot s enemy mult))
              = total_diamonds_gain s + dict_get drops ''Diamond'' 0
         \<and> snd (apply_enemy_loot s enemy mult)
              = map (\<lambda>(m, a). (m, if m = ''Gold'' \<or> m = ''Diamond'' then a else a * mult)) drops"
proof -
  have eq: "apply_enemy_loot s enemy mult = loot_loop mult drops (s, [])"
    using assms(1) by (cases drops) (simp_all add: apply_enemy_loot_def)
  have a: "\<forall>(m, a) \<in> set drops.
            bucket (fst (apply_enemy_loot s enemy mult)) m
              = bucket s m + (if m = ''Gold'' \<or> m = ''Diamond'' then a else a * mult)"
  proof (clarify)
    fix m a assume "(m, a) \<in> set drops"
    then have "map_of drops m = Some a" using assms(2) by simp
    then show "bucket (fst (apply_enemy_loot s enemy mult)) m
              = bucket s m + (if m = ''Gold'' \<or> m = ''Diamond'' then a else a * mult)"
      by (simp add: eq loot_loop_bucket[OF assms(2)])
  qed
  have b: "\<forall>m. m \<notin> fst ` set drops \<longrightarrow> bucket (fst (apply_enemy_loot s enemy mult)) m = bucket s m"
  proof (intro allI impI)
    fix m assume "m \<notin> fst ` set drops"
    then have "map_of drops m = None" by (simp add: map_of_eq_None_iff)
    then show "bucket (fst (apply_enemy_loot s enemy mult)) m = bucket s m"
      by (simp add: eq loot_loop_bucket[OF assms(2)])
  qed
  have c: "total_diamonds_gain (fst (apply_enemy_loot s enemy mult))
              = total_diamonds_gain s + dict_get drops ''Diamond'' 0"
    by (simp add: eq loot_loop_diamonds[OF assms(2)] dict_get_def)
  have d: "snd (apply_enemy_loot s enemy mult)
              = map (\<lambda>(m, a). (m, if m = ''Gold'' \<or> m = ''Diamond'' then a else a * mult)) drops"
    by (simp add: eq loot_loop_results)
  from a b c d show ?thesis by blast
qed

lemma ultimate_t2_table:
  "drops_for new_game_state ''Ultimate MythWeaver - With T2 Cheese''
     = Some [(''Gold'', 225000), (''Diamond'', 1), (''mallets'', 23 / 10), (''Machinery'', 243 / 100)]"
  by (simp add: drops_for_def new_game_state_def default_enemy_drops_def DEFAULT_ENEMY_DROPS_def)

theorem loot_scaling_witness:
  "drops_for new_game_state ''Ultimate MythWeaver - With T2 Cheese''
     = Some [(''Gold'', 225000), (''Diamond'', 1), (''mallets'', 23 / 10), (''Machinery'', 243 / 100)]
   \<and> distinct (map fst [(''Gold'', 225000::real), (''Diamond'', 1), (''mallets'', 23 / 10),
                         (''Machinery'', 243 / 100)])
   \<and> bucket (fst (apply_enemy_loot new_game_state ''Ultimate MythWeaver - With T2 Cheese'' 2)) ''Gold''
       = bucket new_game_state ''Gold'' + 225000
   \<and> bucket (fst (apply_enemy_loot new_game_state ''Ultimate MythWeaver - With T2 Cheese'' 2)) ''Diamond''
       = bucket new_game_state ''Diamond'' + 1
   \<and> bucket (fst (apply_enemy_loot new_game_state ''Ultimate MythWeaver - With T2 Cheese'' 2)) ''Machinery''
       = bucket new_game_state ''Machinery'' + 243 / 100 * 2
   \<and> total_diamonds_gain (fst (apply_enemy_loot new_game_state ''Ultimate MythWeaver - With T2 Cheese'' 2))
       = total_diamonds_gain new_game_state + 1"
  using loot_scaling[OF ultimate_t2_table, of 2] by (simp add: ultimate_t2_table dict_get_def)


section \<open>Properties of the crafting engine\<close>



lemma apply_delta_frame:
  "apply_delta s k d = Inr s' \<Longrightarrow> s'\<lparr>resources := resources s, consumables := consumables s\<rparr> = s"
  by (auto simp: apply_delta_def split: if_splits)




lemma apply_deltas_frame:
  "apply_deltas ds s = Inr s' \<Longrightarrow> s'\<lparr>resources := resources s, consumables := consumables s\<rparr> = s"
proof (induction ds arbitrary: s)
  case Nil
  then show ?case by simp
next
  case (Cons p ds)
  obtain k0 d where p: "p = (k0, d)" by (cases p)
  from Cons.prems obtain s1 where s1: "apply_delta s k0 d = Inr s1"
    and rest: "apply_deltas ds s1 = Inr s'"
    by (auto simp: p split: sum.splits)
  have "s'\<lparr>resources := resources s, consumables := consumables s\<rparr>
          = (s'\<lparr>resources := resources s1, consumables := consumables s1\<rparr>)
              \<lparr>resources := resources s, consumables := consumables s\<rparr>"
    by simp
  also have "\<dots> = s1\<lparr>resources := resources s, consumables := consumables s\<rparr>"
    using Cons.IH[OF rest] by simp
  also have "\<dots> = s" using apply_delta_frame[OF s1] .
  finally show ?case .
qed


lemma bucket_clone [simp]: "bucket (clone s) k = bucket s k"
  by (simp add: bucket_def clone_def)




section \<open>Extending the postscript\<close>

lemma extend_postscript_ignores_flag:
  "chapter_position s = 7 \<Longrightarrow> dict_get (resources s) ''mallets'' 0 \<ge> 30 \<Longrightarrow>
   \<exists>s'. extend_postscript s = Committed s'"
  by (simp add: extend_postscript_def clone_def Let_def)

lemma extend_postscript_effect:
  "extend_postscript s =
     (if chapter_position s = 7 \<and> dict_get (resources s) ''mallets'' 0 \<ge> 30
      then Committed
             ((clone s)\<lparr>resources :=
                  AList.update ''mallets'' (dict_get (resources s) ''mallets'' 0 - 30) (resources s),
                postscript_length := postscript_length s + 3,
                postscript_extended := True,
                run_mallets_spent := run_mallets_spent s + 30,
                total_mallets_spent := total_mallets_spent s + 30\<rparr>)
      else Rejected)"
  by (simp add: extend_postscript_def clone_def record_mallet_spend_def Let_def)

text \<open>
  C6 fails on the handler. From a postscript with 100 mallets the first extension commits
  length 13 with the extended flag set, for which the button's condition is false; the
  handler, called again on that state, commits a second extension: length 16, 40 mallets.
\<close>

theorem extend_postscript_twice:
  "chapter_position rich_postscript_example = 7
   \<and> \<not> postscript_extended rich_postscript_example
   \<and> committed_state (extend_postscript rich_postscript_example) \<noteq> None
   \<and> postscript_extended (the (committed_state (extend_postscript rich_postscript_example)))
   \<and> \<not> extend_postscript_button_enabled
          (the (committed_state (extend_postscript rich_postscript_example)))
   \<and> postscript_length (the (committed_state (extend_postscript rich_postscript_example))) = 13
   \<and> committed_state
        (extend_postscript (the (committed_state (extend_postscript rich_postscript_example))))
       \<noteq> None
   \<and> postscript_length
        (the (committed_state
           (extend_postscript (the (committed_state (extend_postscript rich_postscript_example))))))
       = 16
   \<and> dict_get
        (resources (the (committed_state
           (extend_postscript (the (committed_state (extend_postscript rich_postscript_example)))))))
        ''mallets'' 0
       = 40"
  by (simp add: extend_postscript_effect committed_state_def extend_postscript_button_enabled_def
        rich_postscript_example_def new_game_state_def RESOURCE_KEYS_def clone_def dict_get_def)

section \<open>The random source\<close>

lemma random_choice_mem:
  "xs \<noteq> [] \<Longrightarrow> \<exists>x. random_choice n xs = Inr x \<and> x \<in> set xs"
  by (simp add: random_choice_def)

lemma set_shuffle_by: "set (shuffle_by ds xs) = set xs"
proof (induction ds arbitrary: xs)
  case Nil
  then show ?case by simp
next
  case (Cons d ds)
  show ?case
  proof (cases "xs = []")
    case True
    then show ?thesis by simp
  next
    case False
    let ?i = "d mod length xs"
    have i: "?i < length xs" using False by simp
    have "set xs = set (take ?i xs @ xs ! ?i # drop (Suc ?i) xs)"
      using id_take_nth_drop[OF i] by simp
    then show ?thesis using False by (simp add: Cons.IH Un_commute insert_commute)
  qed
qed

lemma shuffle_by_Nil [simp]: "shuffle_by ds xs = [] \<longleftrightarrow> xs = []"
  using set_shuffle_by[of ds xs] by (metis set_empty)

section \<open>Generating the next-chapter choices\<close>

lemma choices_loop_total:
  "genres \<noteq> [] \<Longrightarrow>
   \<exists>cs. choices_loop draws genres avail lens = Inr cs
        \<and> map choice_length cs = lens
        \<and> (\<forall>c \<in> set cs. choice_genre c \<in> set genres \<union> set avail)"
proof (induction lens arbitrary: draws avail)
  case Nil
  then show ?case by simp
next
  case (Cons len lens)
  let ?a1 = "if avail = [] then shuffle_by (case draws of [] \<Rightarrow> [] | d # _ \<Rightarrow> d) genres else avail"
  let ?d1 = "if avail = [] then tl draws else draws"
  have ne: "?a1 \<noteq> []" using Cons.prems by simp
  have sub: "set ?a1 \<subseteq> set genres \<union> set avail" by (simp add: set_shuffle_by)
  from Cons.IH[OF Cons.prems, of ?d1 "butlast ?a1"]
  obtain cs where cs: "choices_loop ?d1 genres (butlast ?a1) lens = Inr cs"
    and len: "map choice_length cs = lens"
    and g: "\<forall>c \<in> set cs. choice_genre c \<in> set genres \<union> set (butlast ?a1)"
    by blast
  have l: "last ?a1 \<in> set genres \<union> set avail" using ne sub last_in_set by blast
  have g': "\<forall>c \<in> set cs. choice_genre c \<in> set genres \<union> set avail"
    using g sub by (meson UnE UnI1 in_set_butlastD subsetD)
  have "choices_loop draws genres avail (len # lens)
          = Inr (\<lparr>choice_length = len, choice_genre = last ?a1\<rparr> # cs)"
    using ne cs by (simp add: Let_def)
  then show ?case using len l g' by simp
qed

lemma genres_for_selection_Some:
  "genres_for_selection self_state (Some b) = (if b then BASE_GENRES @ [FANTASY_GENRE] else BASE_GENRES)"
  by (simp add: genres_for_selection_def)

lemma generate_total:
  "\<exists>cs. generate_next_chapter_choices self_state draws st = Inr cs
        \<and> cs \<noteq> []
        \<and> map choice_length cs = CHAPTER_LENGTHS
        \<and> (\<forall>c \<in> set cs. choice_genre c
               \<in> set (genres_for_selection self_state (Some (run_fantasy_available st))))"
proof -
  let ?g = "genres_for_selection self_state (Some (run_fantasy_available st))"
  have ne: "?g \<noteq> []" by (simp add: genres_for_selection_Some BASE_GENRES_def)
  from choices_loop_total[OF ne, of "tl draws"
      "shuffle_by (case draws of [] \<Rightarrow> [] | d # _ \<Rightarrow> d) ?g" CHAPTER_LENGTHS]
  obtain cs where cs: "choices_loop (tl draws) ?g
        (shuffle_by (case draws of [] \<Rightarrow> [] | d # _ \<Rightarrow> d) ?g) CHAPTER_LENGTHS = Inr cs"
    and len: "map choice_length cs = CHAPTER_LENGTHS"
    and g: "\<forall>c \<in> set cs. choice_genre c \<in> set ?g" 
    by (auto simp: set_shuffle_by)
  have "cs \<noteq> []" using len by (auto simp: CHAPTER_LENGTHS_def)
  then show ?thesis using cs len g by (simp add: generate_next_chapter_choices_def Let_def)
qed

section \<open>Selecting the postscript genre\<close>

lemma pick_loop_mem: "pick_loop pick c ws = Some g \<Longrightarrow> g \<in> fst ` set ws"
  by (induction pick c ws rule: pick_loop.induct) (auto split: if_splits)

lemma genre_weights_subset: "fst ` set (genre_weights s) \<subseteq> set (BASE_GENRES @ [FANTASY_GENRE])"
  by (auto simp: genre_weights_def)

lemma select_genre_total:
  "\<exists>g. select_genre_by_pages rnd s = Inr g \<and> g \<in> set (BASE_GENRES @ [FANTASY_GENRE])"
proof (cases "genre_weights s = []")
  case True
  then show ?thesis
    using random_choice_mem[of "BASE_GENRES @ [FANTASY_GENRE]" "choice_genre_draw rnd"]
    by (simp add: select_genre_by_pages_def)
next
  case False
  let ?pick = "real_of_int (sum_list (map snd (genre_weights s))) * uniform_draw rnd"
  let ?g = "case pick_loop ?pick 0 (genre_weights s) of
              Some genre \<Rightarrow> genre | None \<Rightarrow> fst (last (genre_weights s))"
  have "?g \<in> fst ` set (genre_weights s)"
  proof (cases "pick_loop ?pick 0 (genre_weights s)")
    case None
    then show ?thesis using False by simp
  next
    case (Some g)
    then show ?thesis using pick_loop_mem[OF Some] by simp
  qed
  then have m: "?g \<in> set (BASE_GENRES @ [FANTASY_GENRE])"
    using genre_weights_subset[of s] by blast
  have "select_genre_by_pages rnd s = Inr ?g"
    using False by (simp add: select_genre_by_pages_def Let_def split: option.splits)
  with m show ?thesis by blast
qed

lemma select_genre_pages_only:
  "genre_pages s = genre_pages t \<Longrightarrow> select_genre_by_pages rnd s = select_genre_by_pages rnd t"
  by (simp add: select_genre_by_pages_def genre_weights_def)

section \<open>Notoriety updates\<close>

lemma list_all_update:
  "list_all P d \<Longrightarrow> P (k, v) \<Longrightarrow> list_all P (AList.update k v d)"
  by (induction d) auto

lemma keys_update_existing:
  "k \<in> fst ` set d \<Longrightarrow> map fst (AList.update k v d) = map fst d"
  by (simp add: update_keys)

lemma dict_get_in_set: "dict_has d k \<Longrightarrow> (k, dict_get d k dflt) \<in> set d"
  by (auto simp: dict_has_def dict_get_def dest: map_of_SomeD)

lemma clamp_notoriety_range: "0 \<le> clamp_notoriety v \<and> clamp_notoriety v \<le> 200"
  by (simp add: clamp_notoriety_def)

lemma decay_step_keys: "map fst (decay_step sel g n) = map fst n"
proof (cases "dict_has n g")
  case True
  then show ?thesis by (simp add: decay_step_def keys_update_existing dict_has_iff)
next
  case False
  then show ?thesis by (simp add: decay_step_def dict_get_absent)
qed

lemma decay_step_range:
  assumes "list_all (\<lambda>(g, v). 0 \<le> v \<and> v \<le> (200::int)) n"
  shows "list_all (\<lambda>(g, v). 0 \<le> v \<and> v \<le> 200) (decay_step sel g n)"
proof (cases "dict_has n g")
  case True
  from dict_get_in_set[OF True, of 0] assms have "dict_get n g 0 \<le> 200"
    by (auto simp: list_all_iff)
  then show ?thesis using assms by (auto simp: decay_step_def intro: list_all_update)
next
  case False
  then show ?thesis using assms by (simp add: decay_step_def dict_get_absent)
qed

lemma fold_decay_keys: "map fst (fold (decay_step sel) ks n) = map fst n"
  by (induction ks arbitrary: n) (simp_all add: decay_step_keys)

lemma fold_decay_range:
  "list_all (\<lambda>(g, v). 0 \<le> v \<and> v \<le> (200::int)) n \<Longrightarrow>
   list_all (\<lambda>(g, v). 0 \<le> v \<and> v \<le> 200) (fold (decay_step sel) ks n)"
  by (induction ks arbitrary: n) (simp_all add: decay_step_range)

lemma decay_step_map_of:
  "map_of (decay_step sel k n) g =
     (if g = k \<and> k \<noteq> sel then map_option (\<lambda>v. if v > 1 then v - 1 else v) (map_of n g)
      else map_of n g)"
  by (cases "map_of n k") (auto simp: decay_step_def dict_get_def update_conv')

lemma fold_decay_map_of:
  "distinct ks \<Longrightarrow>
   map_of (fold (decay_step sel) ks n) g =
     (if g \<in> set ks \<and> g \<noteq> sel then map_option (\<lambda>v. if v > 1 then v - 1 else v) (map_of n g)
      else map_of n g)"
proof (induction ks arbitrary: n)
  case Nil
  then show ?case by simp
next
  case (Cons k ks)
  then have d: "distinct ks" and nk: "k \<notin> set ks" by auto
  show ?case
    using nk by (auto simp: Cons.IH[OF d] decay_step_map_of)
qed

lemma fantasy_decay_step_keys:
  "g \<in> fst ` set n \<Longrightarrow> map fst (fantasy_decay_step g n) = map fst n"
  by (simp add: fantasy_decay_step_def keys_update_existing)

lemma fantasy_decay_step_range:
  assumes "list_all (\<lambda>(g, v). 0 \<le> v \<and> v \<le> (200::int)) n" and "g \<in> fst ` set n"
  shows "list_all (\<lambda>(g, v). 0 \<le> v \<and> v \<le> 200) (fantasy_decay_step g n)"
proof -
  have "dict_has n g" using assms(2) by (simp add: dict_has_iff)
  from dict_get_in_set[OF this, of 0] assms(1) have "dict_get n g 0 \<le> 200"
    by (auto simp: list_all_iff)
  then show ?thesis using assms(1) by (auto simp: fantasy_decay_step_def intro: list_all_update)
qed

lemma fold_fantasy_decay:
  "set ks \<subseteq> fst ` set n \<Longrightarrow> list_all (\<lambda>(g, v). 0 \<le> v \<and> v \<le> (200::int)) n \<Longrightarrow>
   map fst (fold fantasy_decay_step ks n) = map fst n
   \<and> list_all (\<lambda>(g, v). 0 \<le> v \<and> v \<le> 200) (fold fantasy_decay_step ks n)"
proof (induction ks arbitrary: n)
  case Nil
  then show ?case by simp
next
  case (Cons k ks)
  from Cons.prems have k: "k \<in> fst ` set n" and ks: "set ks \<subseteq> fst ` set n" by auto
  have keys: "map fst (fantasy_decay_step k n) = map fst n" by (rule fantasy_decay_step_keys[OF k])
  then have "set (map fst (fantasy_decay_step k n)) = set (map fst n)" by simp
  then have ks': "set ks \<subseteq> fst ` set (fantasy_decay_step k n)" using ks by simp
  from Cons.IH[OF ks' fantasy_decay_step_range[OF Cons.prems(2) k]] keys
  show ?case by simp
qed

lemma adjust_notoriety_frame:
  "(adjust_notoriety s sel inc)\<lparr>notoriety := notoriety s\<rparr> = s"
  by (simp add: adjust_notoriety_def Let_def)

lemma adjust_notoriety_ok:
  assumes "notoriety_ok s" and "sel \<in> set BASE_GENRES"
  shows "notoriety_ok (adjust_notoriety s sel inc)"
proof -
  let ?n1 = "AList.update sel (clamp_notoriety (dict_get (notoriety s) sel 0 + inc)) (notoriety s)"
  from assms have k: "sel \<in> fst ` set (notoriety s)"
    by (metis notoriety_ok_def set_map)
  have k1: "map fst ?n1 = BASE_GENRES"
    using assms(1) keys_update_existing[OF k] by (simp add: notoriety_ok_def)
  have r1: "list_all (\<lambda>(g, v). 0 \<le> v \<and> v \<le> 200) ?n1"
    using assms(1) clamp_notoriety_range by (auto simp: notoriety_ok_def intro: list_all_update)
  show ?thesis
    using k1 fold_decay_range[OF r1]
    by (simp add: notoriety_ok_def adjust_notoriety_def Let_def fold_decay_keys)
qed

section \<open>What a hunt can change\<close>

lemma rewards_only_refl [simp]: "rewards_only s s"
  by (simp add: rewards_only_def)

lemma rewards_only_fields:
  assumes "rewards_only s s'"
  shows "enemy_drops s' = enemy_drops s" "total_hunts s' = total_hunts s"
    "current_run_hunts s' = current_run_hunts s" "chapter_position s' = chapter_position s"
    "current_chapter_length s' = current_chapter_length s"
    "current_chapter_genre s' = current_chapter_genre s"
    "current_chapter_progress s' = current_chapter_progress s"
    "postscript_length s' = postscript_length s"
    "pending_chapter_choices s' = pending_chapter_choices s"
    "run_fantasy_available s' = run_fantasy_available s"
    "postscript_extended s' = postscript_extended s"
    "run_mallets_spent s' = run_mallets_spent s"
    "total_mallets_spent s' = total_mallets_spent s"
    "pending_choices_locked s' = pending_choices_locked s"
  using assms by (cases s; cases s'; simp add: rewards_only_def)+

lemma rewards_only_trans: "rewards_only s t \<Longrightarrow> rewards_only t u \<Longrightarrow> rewards_only s u"
  by (cases s; cases t; cases u; simp add: rewards_only_def)

lemma keys_grow_refl [simp]: "keys_grow s s"
  by (simp add: keys_grow_def)

lemma keys_grow_trans: "keys_grow s t \<Longrightarrow> keys_grow t u \<Longrightarrow> keys_grow s u"
  unfolding keys_grow_def by (meson subset_trans)

lemma frame_trans:
  assumes "rewards_only s t \<and> keys_grow s t" and "rewards_only t u \<and> keys_grow t u"
  shows "rewards_only s u \<and> keys_grow s u"
  using assms rewards_only_trans keys_grow_trans by blast

lemma state_ok_step: "state_ok s \<Longrightarrow> keys_grow s s' \<Longrightarrow> notoriety_ok s' \<Longrightarrow> state_ok s'"
  by (auto simp: state_ok_def keys_present_def keys_grow_def)

lemma apply_loot_amount_frame:
  "rewards_only s (apply_loot_amount s m v) \<and> keys_grow s (apply_loot_amount s m v)
   \<and> notoriety (apply_loot_amount s m v) = notoriety s
   \<and> genre_pages (apply_loot_amount s m v) = genre_pages s"
  by (auto simp: apply_loot_amount_def rewards_only_def keys_grow_def dom_update)

lemma loot_loop_frame:
  "rewards_only s (fst (loot_loop mult drops (s, res)))
   \<and> keys_grow s (fst (loot_loop mult drops (s, res)))
   \<and> notoriety (fst (loot_loop mult drops (s, res))) = notoriety s
   \<and> genre_pages (fst (loot_loop mult drops (s, res))) = genre_pages s"
proof (induction drops arbitrary: s res)
  case Nil
  then show ?case by simp
next
  case (Cons p drops)
  obtain m a where p: "p = (m, a)" by (cases p)
  let ?v = "if m \<notin> {''Gold'', ''Diamond''} then a * mult else a"
  let ?s1 = "if m = ''Diamond'' then s\<lparr>total_diamonds_gain := total_diamonds_gain s + ?v\<rparr> else s"
  let ?s2 = "apply_loot_amount ?s1 m ?v"
  have eq: "loot_loop mult (p # drops) (s, res) = loot_loop mult drops (?s2, res @ [(m, ?v)])"
    by (simp add: p Let_def)
  have a1: "rewards_only s ?s1 \<and> keys_grow s ?s1 \<and> notoriety ?s1 = notoriety s
            \<and> genre_pages ?s1 = genre_pages s"
    by (simp add: rewards_only_def keys_grow_def)
  note a2 = apply_loot_amount_frame[of ?s1 m ?v]
  note a3 = Cons.IH[of ?s2 "res @ [(m, ?v)]"]
  have "rewards_only s ?s2 \<and> keys_grow s ?s2"
    using frame_trans[of s ?s1 ?s2] a1 a2 by blast
  then have "rewards_only s (fst (loot_loop mult drops (?s2, res @ [(m, ?v)])))
             \<and> keys_grow s (fst (loot_loop mult drops (?s2, res @ [(m, ?v)])))"
    using frame_trans[of s ?s2 "fst (loot_loop mult drops (?s2, res @ [(m, ?v)]))"] a3 by blast
  moreover have "notoriety (fst (loot_loop mult drops (?s2, res @ [(m, ?v)]))) = notoriety s"
    "genre_pages (fst (loot_loop mult drops (?s2, res @ [(m, ?v)]))) = genre_pages s"
    using a1 a2 a3 by simp_all
  ultimately show ?case unfolding eq by blast
qed

lemma apply_enemy_loot_frame:
  "rewards_only s (fst (apply_enemy_loot s enemy mult))
   \<and> keys_grow s (fst (apply_enemy_loot s enemy mult))
   \<and> notoriety (fst (apply_enemy_loot s enemy mult)) = notoriety s
   \<and> genre_pages (fst (apply_enemy_loot s enemy mult)) = genre_pages s"
  using loot_loop_frame by (simp add: apply_enemy_loot_def split: option.splits)

lemma handle_postscript_hunt_frame:
  assumes "handle_postscript_hunt rnd s r mult = Inr (s', g, e, d)"
  shows "rewards_only s s' \<and> keys_grow s s' \<and> genre_pages s' = genre_pages s
         \<and> (notoriety_ok s \<longrightarrow> notoriety_ok s')"
proof -
  from select_genre_total[of rnd s] obtain g0 where
    sel: "select_genre_by_pages rnd s = Inr g0" and mem: "g0 \<in> set (BASE_GENRES @ [FANTASY_GENRE])"
    by blast
  show ?thesis
  proof (cases "g0 = FANTASY_GENRE")
    case True
    let ?s1 = "fst (apply_enemy_loot s (post_fantasy_enemy r) mult)"
    have s': "s' = ?s1\<lparr>notoriety := fold fantasy_decay_step (map fst (notoriety ?s1)) (notoriety ?s1)\<rparr>"
      using assms sel True by (auto simp: handle_postscript_hunt_def Let_def split: prod.splits)
    note f = apply_enemy_loot_frame[of s "post_fantasy_enemy r" mult]
    have a: "rewards_only ?s1 s' \<and> keys_grow ?s1 s' \<and> genre_pages s' = genre_pages ?s1"
      by (simp add: s' rewards_only_def keys_grow_def)
    have b: "notoriety_ok s \<longrightarrow> notoriety_ok s'"
    proof
      assume ok: "notoriety_ok s"
      then have "list_all (\<lambda>(g, v). 0 \<le> v \<and> v \<le> 200) (notoriety ?s1)"
        using f by (simp add: notoriety_ok_def)
      from fold_fantasy_decay[OF _ this, of "map fst (notoriety ?s1)"] ok f
      show "notoriety_ok s'" by (simp add: s' notoriety_ok_def)
    qed
    from a f frame_trans[of s ?s1 s'] have "rewards_only s s' \<and> keys_grow s s'" by blast
    with a b f show ?thesis by simp
  next
    case False
    let ?s1 = "fst (apply_enemy_loot s (post_enemy r) mult)"
    have s': "s' = adjust_notoriety ?s1 g0 (notoriety_gain r)"
      using assms sel False by (auto simp: handle_postscript_hunt_def Let_def split: prod.splits)
    note f = apply_enemy_loot_frame[of s "post_enemy r" mult]
    have base: "g0 \<in> set BASE_GENRES" using mem False by simp
    have a: "rewards_only ?s1 s' \<and> keys_grow ?s1 s' \<and> genre_pages s' = genre_pages ?s1"
      by (simp add: s' rewards_only_def keys_grow_def adjust_notoriety_def Let_def)
    have b: "notoriety_ok s \<longrightarrow> notoriety_ok s'"
      using adjust_notoriety_ok[OF _ base, of ?s1 "notoriety_gain r"] f
      by (simp add: s' notoriety_ok_def)
    from a f frame_trans[of s ?s1 s'] have "rewards_only s s' \<and> keys_grow s s'" by blast
    with a b f show ?thesis by simp
  qed
qed

lemma handle_postscript_hunt_total:
  "\<exists>s' g e d. handle_postscript_hunt rnd s r mult = Inr (s', g, e, d)"
  using select_genre_total[of rnd s]
  by (auto simp: handle_postscript_hunt_def Let_def split: prod.splits)

lemma notoriety_ok_cong: "notoriety s' = notoriety s \<Longrightarrow> notoriety_ok s' = notoriety_ok s"
  by (simp add: notoriety_ok_def)

lemma hunt_rewards_frame:
  "\<exists>s'. hunt_rewards rnd cc r s = Inr s' \<and> rewards_only s s' \<and> keys_grow s s'
        \<and> (notoriety_ok s \<longrightarrow> notoriety_ok s')"
proof -
  let ?mult = "if cc then cc_multiplier else 1"
  let ?s1 = "if cc then s\<lparr>consumables :=
                AList.update ''CC'' (dict_get (consumables s) ''CC'' 0 - 1) (consumables s)\<rparr> else s"
  have f1: "rewards_only s ?s1 \<and> keys_grow s ?s1"
    by (auto simp: rewards_only_def keys_grow_def dom_update)
  have n1: "notoriety ?s1 = notoriety s" by simp
  have p1: "chapter_position ?s1 = chapter_position s"
    "current_chapter_genre ?s1 = current_chapter_genre s" by simp_all
  show ?thesis
  proof (cases "chapter_position s = 7")
    case True
    from handle_postscript_hunt_total[of rnd ?s1 r ?mult]
    obtain s' g e d where h: "handle_postscript_hunt rnd ?s1 r ?mult = Inr (s', g, e, d)" by blast
    note f2 = handle_postscript_hunt_frame[OF h]
    have "hunt_rewards rnd cc r s = Inr s'"
      using True h p1 by (simp add: hunt_rewards_def Let_def)
    moreover have "rewards_only s s' \<and> keys_grow s s'"
      using frame_trans[of s ?s1 s'] f1 f2 by blast
    moreover have "notoriety_ok s \<longrightarrow> notoriety_ok s'"
      using f2 notoriety_ok_cong[OF n1] by blast
    ultimately show ?thesis by blast
  next
    case False
    show ?thesis
    proof (cases "current_chapter_genre s = None \<or> current_chapter_genre s = Some []")
      case True
      then have "hunt_rewards rnd cc r s = Inr ?s1"
        using False p1 by (auto simp: hunt_rewards_def Let_def)
      then show ?thesis using f1 notoriety_ok_cong[OF n1] by auto
    next
      case nt: False
      then obtain genre where g: "current_chapter_genre s = Some genre" "genre \<noteq> []" by auto
      let ?s2 = "?s1\<lparr>genre_pages :=
                    AList.update genre (dict_get (genre_pages ?s1) genre 0
                                          + page_gain_for_hunt (Some r)) (genre_pages ?s1)\<rparr>"
      let ?s3 = "fst (apply_enemy_loot ?s2 (chapter_enemy r) ?mult)"
      have f2: "rewards_only ?s1 ?s2 \<and> keys_grow ?s1 ?s2"
        by (simp add: rewards_only_def keys_grow_def)
      have n2: "notoriety ?s2 = notoriety s" by simp
      note f3 = apply_enemy_loot_frame[of ?s2 "chapter_enemy r" ?mult]
      have e: "hunt_rewards rnd cc r s = Inr ?s3"
        using False g p1 by (simp add: hunt_rewards_def Let_def)
      have "rewards_only s ?s2 \<and> keys_grow s ?s2"
        using frame_trans[of s ?s1 ?s2] f1 f2 by blast
      then have "rewards_only s ?s3 \<and> keys_grow s ?s3"
        using frame_trans[of s ?s2 ?s3] f3 by blast
      moreover have "notoriety ?s3 = notoriety s" using f3 n2 by simp
      ultimately show ?thesis using e notoriety_ok_cong[of ?s3 s] by blast
    qed
  qed
qed

lemma handle_chapter_completion_total:
  "\<exists>s'. handle_chapter_completion self_state draws st = Inr s'
        \<and> resources s' = resources st \<and> consumables s' = consumables st
        \<and> notoriety s' = notoriety st
        \<and> run_fantasy_available s' = run_fantasy_available st
        \<and> \<not> pending_choices_locked s'"
proof (cases "chapter_position st \<ge> TOTAL_CHAPTERS")
  case True
  then show ?thesis by (simp add: handle_chapter_completion_def enter_postscript_def)
next
  case False
  let ?s1 = "st\<lparr>current_chapter_length := None, current_chapter_genre := None,
                 current_chapter_progress := 0, pending_choices_locked := False\<rparr>"
  from generate_total[of self_state draws ?s1] obtain cs where
    "generate_next_chapter_choices self_state draws ?s1 = Inr cs" by blast
  then show ?thesis using False by (simp add: handle_chapter_completion_def Let_def)
qed

lemma hunt_effects_decomp:
  "\<exists>s3 s'. hunt_effects rnd cc rule t s = Inr s'
     \<and> rewards_only (s\<lparr>current_chapter_progress := current_chapter_progress s + 1,
                        total_hunts := total_hunts s + 1,
                        current_run_hunts := current_run_hunts s + 1\<rparr>) s3
     \<and> keys_grow s s3
     \<and> (notoriety_ok s \<longrightarrow> notoriety_ok s3)
     \<and> (if t \<le> current_chapter_progress s + 1
         then (if chapter_position s = 7 then s' = finish_postscript s3
               else handle_chapter_completion s (shuffle_draws rnd) s3 = Inr s')
         else s' = s3)"
proof -
  let ?p = "s\<lparr>current_chapter_progress := current_chapter_progress s + 1,
               total_hunts := total_hunts s + 1,
               current_run_hunts := current_run_hunts s + 1\<rparr>"
  let ?n = "clone s"
  let ?s1 = "case rule of None \<Rightarrow> ?n
             | Some r \<Rightarrow> ?n\<lparr>resources := AList.update (rule_resource r)
                              (dict_get (resources ?n) (rule_resource r) 0 - 1) (resources ?n)\<rparr>"
  let ?s2 = "?s1\<lparr>current_chapter_progress := current_chapter_progress ?s1 + 1,
                 total_hunts := total_hunts ?s1 + 1,
                 current_run_hunts := current_run_hunts ?s1 + 1\<rparr>"
  have f2: "rewards_only ?p ?s2 \<and> keys_grow s ?s2 \<and> notoriety ?s2 = notoriety s"
    by (cases rule) (auto simp: rewards_only_def keys_grow_def clone_def dom_update)
  have "\<exists>s3. (case rule of None \<Rightarrow> Inr ?s2 | Some r \<Rightarrow> hunt_rewards rnd cc r ?s2) = Inr s3
          \<and> rewards_only ?s2 s3 \<and> keys_grow ?s2 s3 \<and> (notoriety_ok ?s2 \<longrightarrow> notoriety_ok s3)"
  proof (cases rule)
    case None
    then show ?thesis by simp
  next
    case (Some r)
    then show ?thesis using hunt_rewards_frame[of rnd cc r ?s2] by simp
  qed
  then obtain s3 where
    r: "(case rule of None \<Rightarrow> Inr ?s2 | Some r \<Rightarrow> hunt_rewards rnd cc r ?s2) = Inr s3"
    and f3: "rewards_only ?s2 s3 \<and> keys_grow ?s2 s3" 
    and n3: "notoriety_ok ?s2 \<longrightarrow> notoriety_ok s3"
    by blast
  have a: "rewards_only ?p s3" using f2 f3 rewards_only_trans by blast
  have b: "keys_grow s s3" using f2 f3 keys_grow_trans by blast
  have c: "notoriety_ok s \<longrightarrow> notoriety_ok s3"
    using n3 f2 notoriety_ok_cong[of ?s2 s] by blast
  have prog: "current_chapter_progress s3 = current_chapter_progress s + 1"
    and pos: "chapter_position s3 = chapter_position s"
    using rewards_only_fields[OF a] by simp_all
  from handle_chapter_completion_total[of s "shuffle_draws rnd" s3]
  obtain s4 where s4: "handle_chapter_completion s (shuffle_draws rnd) s3 = Inr s4" by blast
  let ?s' = "if t \<le> current_chapter_progress s + 1
             then (if chapter_position s = 7 then finish_postscript s3 else s4) else s3"
  have "hunt_effects rnd cc rule t s = Inr ?s'"
    unfolding hunt_effects_def Let_def r using prog pos s4 by simp
  then show ?thesis using a b c s4 by auto
qed

section \<open>Every action keeps the state well-formed\<close>

lemma subset_keys_update [simp]: "fst ` set d \<subseteq> fst ` set (AList.update k v d)"
  by (simp add: dom_update subset_insertI)

lemma entry_in_keys_update: "(a, b) \<in> set d \<Longrightarrow> a \<in> fst ` set (AList.update k v d)"
  by (force simp: dom_update)

lemma state_ok_cong:
  "resources s' = resources s \<Longrightarrow> consumables s' = consumables s \<Longrightarrow> notoriety s' = notoriety s
   \<Longrightarrow> state_ok s' = state_ok s"
  by (simp add: state_ok_def keys_present_def notoriety_ok_def)

lemma state_ok_clone [simp]: "state_ok (clone s) = state_ok s"
  by (rule state_ok_cong) (simp_all add: clone_def)

lemma perform_hunt_ok:
  assumes "perform_hunt rnd cc ct s = Committed s'" and "state_ok s"
  shows "state_ok s'"
proof -
  from assms(1) obtain t where e: "hunt_effects rnd cc (rule_for ct) t s = Inr s'"
    by (auto simp: perform_hunt_def split: if_splits option.splits sum.splits)
  from hunt_effects_decomp[of rnd cc "rule_for ct" t s] e obtain s3 where
    g: "keys_grow s s3" and n: "notoriety_ok s \<longrightarrow> notoriety_ok s3"
    and c: "if t \<le> current_chapter_progress s + 1
         then (if chapter_position s = 7 then s' = finish_postscript s3
               else handle_chapter_completion s (shuffle_draws rnd) s3 = Inr s')
         else s' = s3"
    by auto
  have ok3: "state_ok s3" using state_ok_step[OF assms(2) g] n assms(2) by (simp add: state_ok_def)
  have "resources s' = resources s3 \<and> consumables s' = consumables s3 \<and> notoriety s' = notoriety s3"
    using c handle_chapter_completion_total[of s "shuffle_draws rnd" s3]
    by (auto simp: finish_postscript_def split: if_splits)
  then show ?thesis using ok3 state_ok_cong by blast
qed

lemma begin_chapter_total:
  "\<exists>s'. begin_chapter self_state draws st n len g = Inr s'
        \<and> resources s' = resources st \<and> consumables s' = consumables st
        \<and> notoriety s' = notoriety st
        \<and> run_fantasy_available s' = run_fantasy_available st
        \<and> chapter_position s' = n
        \<and> current_chapter_genre s' = Some g
        \<and> current_chapter_length s' = Some len
        \<and> pending_choices_locked s' = (n \<le> TOTAL_CHAPTERS - 1)
        \<and> (\<forall>c \<in> set (pending_chapter_choices s'). choice_genre c
               \<in> set (genres_for_selection self_state (Some (run_fantasy_available st))))"
proof -
  let ?s1 = "st\<lparr>chapter_position := n, current_chapter_length := Some len,
                 current_chapter_genre := Some g, current_chapter_progress := 0\<rparr>"
  from generate_total[of self_state draws ?s1] obtain cs where
    "generate_next_chapter_choices self_state draws ?s1 = Inr cs"
    "\<forall>c \<in> set cs. choice_genre c
        \<in> set (genres_for_selection self_state (Some (run_fantasy_available ?s1)))"
    by blast
  then show ?thesis by (simp add: begin_chapter_def Let_def)
qed

lemma start_random_run_ok:
  assumes "start_random_run rnd s = Committed s'" and "state_ok s"
  shows "state_ok s'"
proof -
  from assms(1) obtain len genre where
    b: "begin_chapter s (shuffle_draws rnd)
          (initialize_new_run_state (clone s) (fantasy_unlocked s)) 1 len genre = Inr s'"
    by (auto simp: start_random_run_def Let_def split: if_splits sum.splits)
  from begin_chapter_total[of s "shuffle_draws rnd"
      "initialize_new_run_state (clone s) (fantasy_unlocked s)" 1 len genre] b
  have "resources s' = resources s \<and> consumables s' = consumables s \<and> notoriety s' = notoriety s"
    by (auto simp: initialize_new_run_state_def clone_def)
  then show ?thesis using assms(2) state_ok_cong by blast
qed

lemma confirm_manual_start_ok:
  assumes "confirm_manual_start rnd len genre s = Committed s'" and "state_ok s"
  shows "state_ok s'"
proof -
  let ?n = "clone s"
  let ?s1 = "?n\<lparr>resources := AList.update ''mallets'' (dict_get (resources ?n) ''mallets'' 0 - 30)
                                (resources ?n)\<rparr>"
  let ?s2 = "record_mallet_spend (initialize_new_run_state ?s1 (fantasy_unlocked ?s1)) 30"
  from assms(1) have b: "begin_chapter s (shuffle_draws rnd) ?s2 1 len genre = Inr s'"
    by (auto simp: confirm_manual_start_def Let_def split: if_splits sum.splits)
  have g: "keys_grow s ?s2" and n: "notoriety ?s2 = notoriety s"
    by (auto simp: keys_grow_def record_mallet_spend_def initialize_new_run_state_def clone_def
          dom_update)
  from begin_chapter_total[of s "shuffle_draws rnd" ?s2 1 len genre] b
  have e: "resources s' = resources ?s2 \<and> consumables s' = consumables ?s2
           \<and> notoriety s' = notoriety ?s2" by auto
  have "state_ok ?s2"
    using state_ok_step[OF assms(2) g] assms(2) notoriety_ok_cong[OF n] by (simp add: state_ok_def)
  then show ?thesis using e state_ok_cong by blast
qed

lemma start_manual_run_ok:
  "start_manual_run rnd len genre s = Committed s' \<Longrightarrow> state_ok s \<Longrightarrow> state_ok s'"
  using confirm_manual_start_ok
  by (auto simp: start_manual_run_def Let_def split: if_splits)

lemma choose_next_chapter_ok:
  assumes "choose_next_chapter rnd choice s = Committed s'" and "state_ok s"
  shows "state_ok s'"
proof -
  from assms(1) obtain n where
    b: "begin_chapter s (shuffle_draws rnd) (clone s) n (choice_length choice) (choice_genre choice)
          = Inr s'"
    by (auto simp: choose_next_chapter_def Let_def split: if_splits sum.splits)
  from begin_chapter_total[of s "shuffle_draws rnd" "clone s" n "choice_length choice"
      "choice_genre choice"] b
  have "resources s' = resources s \<and> consumables s' = consumables s \<and> notoriety s' = notoriety s"
    by (auto simp: clone_def)
  then show ?thesis using assms(2) state_ok_cong by blast
qed

lemma extend_postscript_ok:
  assumes "extend_postscript s = Committed s'" and "state_ok s"
  shows "state_ok s'"
proof -
  from assms(1) have g: "keys_grow s s'" and n: "notoriety s' = notoriety s"
    by (auto simp: extend_postscript_def Let_def keys_grow_def
          record_mallet_spend_def clone_def split: if_splits intro: entry_in_keys_update)
  show ?thesis
    using state_ok_step[OF assms(2) g] assms(2) notoriety_ok_cong[OF n] by (simp add: state_ok_def)
qed

lemma reroll_chapter_choices_ok:
  assumes "reroll_chapter_choices rnd s = Committed s'" and "state_ok s"
  shows "state_ok s'"
proof -
  from assms(1) have g: "keys_grow s s'" and n: "notoriety s' = notoriety s"
    by (auto simp: reroll_chapter_choices_def Let_def keys_grow_def
          record_mallet_spend_def clone_def split: if_splits sum.splits intro: entry_in_keys_update)
  show ?thesis
    using state_ok_step[OF assms(2) g] assms(2) notoriety_ok_cong[OF n] by (simp add: state_ok_def)
qed

lemma apply_delta_keys_grow: "apply_delta s k d = Inr s' \<Longrightarrow> keys_grow s s'"
  by (auto simp: apply_delta_def keys_grow_def split: if_splits intro: entry_in_keys_update)

lemma apply_deltas_keys_grow: "apply_deltas ds s = Inr s' \<Longrightarrow> keys_grow s s'"
proof (induction ds arbitrary: s)
  case Nil
  then show ?case by simp
next
  case (Cons p ds)
  obtain k d where p: "p = (k, d)" by (cases p)
  from Cons.prems obtain s1 where s1: "apply_delta s k d = Inr s1"
    and rest: "apply_deltas ds s1 = Inr s'"
    by (auto simp: p split: sum.splits)
  show ?case using keys_grow_trans[OF apply_delta_keys_grow[OF s1] Cons.IH[OF rest]] .
qed

lemma craft_ok:
  assumes "fst (craft r q s) = Committed s'" and "state_ok s"
  shows "state_ok s'"
proof -
  from assms(1) obtain ds where d: "apply_deltas ds (clone s) = Inr s'"
    by (auto simp: craft_def split: option.splits if_splits sum.splits)
  have g: "keys_grow s s'" using apply_deltas_keys_grow[OF d] by (simp add: keys_grow_def clone_def)
  have "notoriety (s'\<lparr>resources := resources (clone s), consumables := consumables (clone s)\<rparr>)
          = notoriety (clone s)"
    using apply_deltas_frame[OF d] by simp
  then have n: "notoriety s' = notoriety s" by (simp add: clone_def)
  show ?thesis
    using state_ok_step[OF assms(2) g] assms(2) notoriety_ok_cong[OF n] by (simp add: state_ok_def)
qed

lemma py_int_range: "0 \<le> r \<Longrightarrow> r \<le> 200 \<Longrightarrow> 0 \<le> py_int r \<and> py_int r \<le> 200"
  by (simp add: py_int_def floor_le_iff)

lemma py_int_of_int [simp]: "py_int (real_of_int n) = n"
  by (simp add: py_int_def)

lemma entry_changed_ok:
  assumes "entry_changed cat key clamp v s = Committed s'" and "state_ok s"
    and "cat = Notoriety \<longrightarrow> clamp"
  shows "state_ok s'"
proof (cases cat)
  case Resources
  with assms(1) have g: "keys_grow s s'" and n: "notoriety s' = notoriety s"
    by (auto simp: entry_changed_def Let_def keys_grow_def clone_def
          split: if_splits option.splits intro: entry_in_keys_update)
  show ?thesis
    using state_ok_step[OF assms(2) g] assms(2) notoriety_ok_cong[OF n] by (simp add: state_ok_def)
next
  case Consumables
  with assms(1) have g: "keys_grow s s'" and n: "notoriety s' = notoriety s"
    by (auto simp: entry_changed_def Let_def keys_grow_def clone_def
          split: if_splits option.splits intro: entry_in_keys_update)
  show ?thesis
    using state_ok_step[OF assms(2) g] assms(2) notoriety_ok_cong[OF n] by (simp add: state_ok_def)
next
  case Notoriety
  with assms obtain v0 where key: "key \<in> set BASE_GENRES"
    and s': "s' = (clone s)\<lparr>notoriety :=
                AList.update key (py_int (max 0 (min 200 v0))) (notoriety (clone s))\<rparr>"
    by (auto simp: entry_changed_def Let_def category_keys_def split: if_splits option.splits)
  have g: "keys_grow s s'" by (simp add: s' keys_grow_def clone_def)
  from assms(2) have ok: "notoriety_ok s" by (simp add: state_ok_def)
  then have k: "key \<in> fst ` set (notoriety s)" using key by (metis notoriety_ok_def set_map)
  have r: "0 \<le> py_int (max 0 (min 200 v0)) \<and> py_int (max 0 (min 200 v0)) \<le> 200"
    by (rule py_int_range) simp_all
  have "notoriety_ok s'"
    using ok keys_update_existing[OF k] r
    by (auto simp: s' notoriety_ok_def clone_def intro: list_all_update)
  then show ?thesis using state_ok_step[OF assms(2) g] by simp
qed

lemma drop_value_changed_ok:
  assumes "drop_value_changed enemy material v s = Committed s'" and "state_ok s"
  shows "state_ok s'"
proof -
  from assms(1) have
    "resources s' = resources s \<and> consumables s' = consumables s \<and> notoriety s' = notoriety s"
    by (auto simp: drop_value_changed_def Let_def clone_def split: if_splits option.splits)
  then show ?thesis using assms(2) state_ok_cong by blast
qed

lemma add_drop_to_enemy_ok:
  assumes "add_drop_to_enemy enemy material s = Committed s'" and "state_ok s"
  shows "state_ok s'"
proof -
  from assms(1) have
    "resources s' = resources s \<and> consumables s' = consumables s \<and> notoriety s' = notoriety s"
    by (auto simp: add_drop_to_enemy_def Let_def clone_def split: if_splits)
  then show ?thesis using assms(2) state_ok_cong by blast
qed

lemma from_dict_notoriety:
  "notoriety (from_dict raw) =
     map (\<lambda>genre. (genre, clamp_notoriety (py_int (dict_get (get_or (doc_notoriety raw) []) genre 0))))
       BASE_GENRES"
  by (simp add: from_dict_def Let_def new_game_state_def BASE_GENRES_def)

lemma from_dict_resources:
  "resources (from_dict raw) =
     map (\<lambda>key. (key, dict_get (get_or (doc_resources raw) []) key 0)) RESOURCE_KEYS"
  by (simp add: from_dict_def Let_def new_game_state_def RESOURCE_KEYS_def)

lemma from_dict_consumables:
  "consumables (from_dict raw) =
     map (\<lambda>key. (key, dict_get (get_or (doc_consumables raw) []) key 0)) CONSUMABLE_KEYS"
  by (simp add: from_dict_def Let_def new_game_state_def CONSUMABLE_KEYS_def)

lemma from_dict_ok: "state_ok (from_dict raw)"
proof -
  have "keys_present (from_dict raw)"
    by (simp add: keys_present_def from_dict_resources from_dict_consumables image_image)
  moreover have "notoriety_ok (from_dict raw)"
    by (simp add: notoriety_ok_def from_dict_notoriety comp_def list_all_iff clamp_notoriety_range)
  ultimately show ?thesis by (simp add: state_ok_def)
qed

lemma new_game_state_ok: "state_ok new_game_state"
  by (simp add: state_ok_def keys_present_def notoriety_ok_def new_game_state_def comp_def
        list_all_iff image_image)

lemma perform_ok:
  assumes "perform a s = Committed s'" and "state_ok s"
  shows "state_ok s'"
proof (cases a)
  case (StartRandomRun rnd)
  then show ?thesis using assms start_random_run_ok by simp
next
  case (StartManualRun rnd len genre)
  then show ?thesis using assms start_manual_run_ok by simp
next
  case (PerformHunt rnd cc ct)
  then show ?thesis using assms perform_hunt_ok by simp
next
  case (ChooseNextChapter rnd choice)
  then show ?thesis using assms choose_next_chapter_ok by simp
next
  case (RerollChoices rnd)
  then show ?thesis using assms reroll_chapter_choices_ok by simp
next
  case ExtendPostscript
  then show ?thesis using assms extend_postscript_ok by simp
next
  case (Craft r q)
  then show ?thesis using assms craft_ok by simp
next
  case (EditResource key v)
  then show ?thesis using assms entry_changed_ok[of Resources key False v s s'] by simp
next
  case (EditConsumable key v)
  then show ?thesis using assms entry_changed_ok[of Consumables key False v s s'] by simp
next
  case (EditNotoriety key v)
  then show ?thesis
    using assms entry_changed_ok[of Notoriety key True "map_option real_of_int v" s s'] by simp
next
  case (EditDrop enemy material v)
  then show ?thesis using assms drop_value_changed_ok by simp
next
  case (AddDrop enemy material)
  then show ?thesis using assms add_drop_to_enemy_ok by simp
next
  case (LoadSnapshot raw)
  then show ?thesis using assms from_dict_ok by (auto simp: load_snapshot_def)
qed

section \<open>Every command keeps the history well-formed\<close>

lemma act_ok: "history_ok h \<Longrightarrow> history_ok (act a h)"
  using perform_ok[of a "h_current h"]
  by (cases "perform a (h_current h)")
     (auto simp: act_def commit_outcome_def commit_def history_ok_def)

lemma fold_act_ok: "history_ok h \<Longrightarrow> history_ok (fold (\<lambda>i. act (f i)) is h)"
  by (induction "is" arbitrary: h) (simp_all add: act_ok)

lemma batch_hunt_ok: "history_ok h \<Longrightarrow> history_ok (batch_hunt rnds cc ct h)"
  using fold_act_ok[of h "\<lambda>i. PerformHunt (rnds i) cc (Some ct)" "[0..<10]"]
  by (simp add: batch_hunt_def split: option.splits)

lemma undo_ok:
  assumes ok: "history_ok h"
  shows "history_ok (snd (undo h))"
proof (cases "h_undo h = []")
  case True
  then show ?thesis using ok by (simp add: undo_def)
next
  case False
  then have "h_undo h = butlast (h_undo h) @ [last (h_undo h)]" by simp
  then have "set (h_undo h) = insert (last (h_undo h)) (set (butlast (h_undo h)))"
    by (metis Un_insert_right append_Nil2 list.simps(15) set_append)
  then show ?thesis using ok False by (auto simp: undo_def history_ok_def list_all_iff)
qed

lemma redo_ok:
  assumes ok: "history_ok h"
  shows "history_ok (snd (redo h))"
proof (cases "h_redo h = []")
  case True
  then show ?thesis using ok by (simp add: redo_def)
next
  case False
  then have "h_redo h = butlast (h_redo h) @ [last (h_redo h)]" by simp
  then have "set (h_redo h) = insert (last (h_redo h)) (set (butlast (h_redo h)))"
    by (metis Un_insert_right append_Nil2 list.simps(15) set_append)
  then show ?thesis using ok False by (auto simp: redo_def history_ok_def list_all_iff)
qed

lemma apply_command_ok: "history_ok h \<Longrightarrow> history_ok (apply_command c h)"
  by (cases c) (simp_all add: act_ok batch_hunt_ok undo_ok redo_ok)

lemma fold_commands_ok: "history_ok h \<Longrightarrow> history_ok (fold apply_command cmds h)"
  by (induction cmds arbitrary: h) (simp_all add: apply_command_ok)

lemma run_commands_ok: "history_ok (run_commands cmds initial_history)"
  unfolding run_commands_def
  by (rule fold_commands_ok)
     (simp add: history_ok_def initial_history_def HistoryManager_def new_game_state_ok)

lemma reachable_state_ok: "state_ok (h_current (run_commands cmds initial_history))"
  using run_commands_ok[of cmds] by (simp add: history_ok_def)

section \<open>Notoriety stays within bounds\<close>

text \<open>
  C1. After any sequence of commands (hunts in chapters or in the postscript, batch hunts,
  field edits, snapshot loads, crafting, run and chapter selection, undo and redo) from the
  fresh state, every base genre has a notoriety entry and its value lies within 0..200.
\<close>

theorem notoriety_within_bounds:
  "\<forall>g \<in> set BASE_GENRES.
     \<exists>v. map_of (notoriety (h_current (run_commands cmds initial_history))) g = Some v
          \<and> 0 \<le> v \<and> v \<le> 200"
proof
  fix g assume g: "g \<in> set BASE_GENRES"
  let ?n = "notoriety (h_current (run_commands cmds initial_history))"
  from reachable_state_ok[of cmds] have k: "map fst ?n = BASE_GENRES"
    and r: "list_all (\<lambda>(g, v). 0 \<le> v \<and> v \<le> 200) ?n"
    by (simp_all add: state_ok_def notoriety_ok_def)
  from g k have "g \<in> fst ` set ?n" by (metis set_map)
  then obtain v where v: "map_of ?n g = Some v"
    by (metis map_of_eq_None_iff not_Some_eq)
  then have "(g, v) \<in> set ?n" by (rule map_of_SomeD)
  with r have "0 \<le> v \<and> v \<le> 200" by (auto simp: list_all_iff)
  with v show "\<exists>v. map_of ?n g = Some v \<and> 0 \<le> v \<and> v \<le> 200" by blast
qed

lemma edit_romance_500:
  "map_of (notoriety (h_current
       (run_commands [Act (EditNotoriety ''Romance'' (Some 500))] initial_history))) ''Romance''
     = Some 200"
  by (simp add: run_commands_def act_def commit_outcome_def commit_def initial_history_def
        HistoryManager_def entry_changed_def category_keys_def BASE_GENRES_def new_game_state_def
        clone_def Let_def py_int_def)

theorem notoriety_within_bounds_witness:
  "''Romance'' \<in> set BASE_GENRES
   \<and> map_of (notoriety (h_current
         (run_commands [Act (EditNotoriety ''Romance'' (Some 500))] initial_history))) ''Romance''
       = Some 200
   \<and> (\<exists>v. map_of (notoriety (h_current
         (run_commands [Act (EditNotoriety ''Romance'' (Some 500))] initial_history))) ''Romance''
       = Some v \<and> 0 \<le> v \<and> v \<le> 200)"
proof -
  have m: "''Romance'' \<in> set BASE_GENRES" by (simp add: BASE_GENRES_def)
  from notoriety_within_bounds[of "[Act (EditNotoriety ''Romance'' (Some 500))]"] m
  have "\<exists>v. map_of (notoriety (h_current
         (run_commands [Act (EditNotoriety ''Romance'' (Some 500))] initial_history))) ''Romance''
       = Some v \<and> 0 \<le> v \<and> v \<le> 200"
    by blast
  with m edit_romance_500 show ?thesis by blast
qed

section \<open>Crafting does not check the stock\<close>





section \<open>Notoriety after a postscript hunt\<close>

lemma adjust_notoriety_map_of:
  assumes "distinct (map fst (notoriety s))"
  shows "map_of (notoriety (adjust_notoriety s g inc)) g' =
           (if g' = g then Some (clamp_notoriety (dict_get (notoriety s) g 0 + inc))
            else map_option (\<lambda>v. if v > 1 then v - 1 else v) (map_of (notoriety s) g'))"
proof -
  let ?n1 = "AList.update g (clamp_notoriety (dict_get (notoriety s) g 0 + inc)) (notoriety s)"
  have d: "distinct (map fst ?n1)" using assms by (rule distinct_update)
  have n: "notoriety (adjust_notoriety s g inc) = fold (decay_step g) (map fst ?n1) ?n1"
    by (simp add: adjust_notoriety_def Let_def)
  have ks: "set (map fst ?n1) = insert g (fst ` set (notoriety s))"
    by (simp add: dom_update)
  show ?thesis
  proof (cases "g' = g")
    case True
    then show ?thesis by (simp add: n fold_decay_map_of[OF d] update_conv')
  next
    case False
    show ?thesis
    proof (cases "map_of (notoriety s) g'")
      case None
      then show ?thesis using False by (simp add: n fold_decay_map_of[OF d] update_conv')
    next
      case (Some a)
      then have "g' \<in> fst ` set (notoriety s)" by (metis map_of_eq_None_iff option.distinct(1))
      then have "g' \<in> set (map fst ?n1)" unfolding ks by simp
      then show ?thesis using False Some by (simp add: n fold_decay_map_of[OF d] update_conv')
    qed
  qed
qed

lemma adjust_notoriety_depends:
  "notoriety a = notoriety b \<Longrightarrow>
   notoriety (adjust_notoriety a g inc) = notoriety (adjust_notoriety b g inc)"
  by (simp add: adjust_notoriety_def Let_def)

lemma handle_postscript_hunt_regular:
  assumes "select_genre_by_pages rnd st = Inr g" and "g \<noteq> FANTASY_GENRE"
  shows "\<exists>st' d. handle_postscript_hunt rnd st r mult = Inr (st', g, post_enemy r, d)
           \<and> notoriety st' = notoriety (adjust_notoriety st g (notoriety_gain r))"
proof -
  let ?s1 = "fst (apply_enemy_loot st (post_enemy r) mult)"
  have n: "notoriety ?s1 = notoriety st" using apply_enemy_loot_frame[of st "post_enemy r" mult] by simp
  have "handle_postscript_hunt rnd st r mult
          = Inr (adjust_notoriety ?s1 g (notoriety_gain r), g, post_enemy r,
                 snd (apply_enemy_loot st (post_enemy r) mult))"
    using assms by (simp add: handle_postscript_hunt_def Let_def split: prod.splits)
  then show ?thesis using adjust_notoriety_depends[OF n] by blast
qed

lemma hunt_effects_postscript_notoriety:
  assumes "chapter_position s = 7" and "select_genre_by_pages rnd (clone s) = Inr g"
    and "g \<noteq> FANTASY_GENRE" and "hunt_effects rnd cc (Some r) t s = Inr s'"
  shows "notoriety s' = notoriety (adjust_notoriety s g (notoriety_gain r))"
proof -
  let ?n = "clone s"
  let ?s1 = "?n\<lparr>resources := AList.update (rule_resource r)
                              (dict_get (resources ?n) (rule_resource r) 0 - 1) (resources ?n)\<rparr>"
  let ?s2 = "?s1\<lparr>current_chapter_progress := current_chapter_progress ?s1 + 1,
                 total_hunts := total_hunts ?s1 + 1,
                 current_run_hunts := current_run_hunts ?s1 + 1\<rparr>"
  let ?mult = "if cc then cc_multiplier else 1"
  let ?s2c = "if cc then ?s2\<lparr>consumables :=
                AList.update ''CC'' (dict_get (consumables ?s2) ''CC'' 0 - 1) (consumables ?s2)\<rparr>
              else ?s2"
  have sel: "select_genre_by_pages rnd ?s2c = Inr g"
    using assms(2) select_genre_pages_only[of ?s2c "clone s" rnd] by simp
  from handle_postscript_hunt_regular[OF sel assms(3), of r ?mult]
  obtain s3 d where h: "handle_postscript_hunt rnd ?s2c r ?mult = Inr (s3, g, post_enemy r, d)"
    and n3: "notoriety s3 = notoriety (adjust_notoriety ?s2c g (notoriety_gain r))"
    by blast
  have n: "notoriety ?s2c = notoriety s" by (simp add: clone_def)
  have n3': "notoriety s3 = notoriety (adjust_notoriety s g (notoriety_gain r))"
    using n3 adjust_notoriety_depends[OF n] by simp
  have pos2: "chapter_position ?s2c = 7" using assms(1) by (simp add: clone_def)
  have rw: "hunt_rewards rnd cc r ?s2 = Inr s3"
    using h pos2 by (cases cc) (simp_all add: hunt_rewards_def Let_def)
  have pos3: "chapter_position s3 = 7"
    using rewards_only_fields(4)[of ?s2c s3] handle_postscript_hunt_frame[OF h] pos2 by simp
  from assms(4) have "s' = s3 \<or> s' = finish_postscript s3"
    unfolding hunt_effects_def Let_def using rw pos3 by (auto split: if_splits)
  then show ?thesis using n3' by (auto simp: finish_postscript_def)
qed

lemma perform_hunt_committed:
  assumes "perform_hunt rnd cc ct s = Committed s'"
  shows "\<exists>t. target_length_of s = Some t \<and> t \<noteq> 0
           \<and> hunt_effects rnd cc (rule_for ct) t s = Inr s'"
  using assms by (auto simp: perform_hunt_def split: if_splits option.splits sum.splits)

text \<open>
  C5, as the code has it. On a committed postscript hunt whose draw selects a genre other
  than Fantasy, the selected genre's notoriety becomes its old value plus the tier's gain,
  clamped to 0..200, and every other entry is lowered by exactly 1 when it is above 1 and
  left as it is otherwise: an entry at 1 stays at 1, an entry at 0 stays at 0.
\<close>

theorem postscript_hunt_notoriety:
  assumes "chapter_position s = 7"
    and "perform_hunt rnd cc (Some tier) s = Committed s'"
    and "map_of CHEESE_HUNT_RULES tier = Some rule"
    and "select_genre_by_pages rnd (clone s) = Inr g" and "g \<noteq> FANTASY_GENRE"
    and "distinct (map fst (notoriety s))"
  shows "map_of (notoriety s') g
           = Some (clamp_notoriety (dict_get (notoriety s) g 0 + notoriety_gain rule))
         \<and> (\<forall>g'. g' \<noteq> g \<longrightarrow>
               map_of (notoriety s') g'
                 = map_option (\<lambda>v. if v > 1 then v - 1 else v) (map_of (notoriety s) g'))"
proof -
  have "tier \<noteq> []" using assms(3) by (auto simp: CHEESE_HUNT_RULES_def)
  then have r: "rule_for (Some tier) = Some rule" using assms(3) by (simp add: rule_for_def)
  from perform_hunt_committed[OF assms(2)] r obtain t where
    "hunt_effects rnd cc (Some rule) t s = Inr s'" by auto
  from hunt_effects_postscript_notoriety[OF assms(1) assms(4) assms(5) this]
  show ?thesis by (simp add: adjust_notoriety_map_of[OF assms(6)])
qed

lemma py_int_numeral [simp]: "py_int (numeral n) = numeral n" "py_int 0 = 0" "py_int 1 = 1"
  by (simp_all add: py_int_def)

lemma perform_hunt_accepts:
  assumes "chapter_position s \<noteq> 0"
    and "\<not> (pending_chapter_choices s \<noteq> [] \<and> \<not> pending_choices_locked s
            \<and> chapter_position s \<le> TOTAL_CHAPTERS)"
    and "ct \<noteq> None"
    and "1 \<le> chapter_position s \<and> chapter_position s \<le> TOTAL_CHAPTERS \<or> chapter_position s = 7"
    and "target_length_of s = Some t" and "t \<noteq> 0"
    and "case rule_for ct of None \<Rightarrow> True
         | Some r \<Rightarrow> dict_get (resources s) (rule_resource r) 0 > 0"
  shows "\<exists>s'. perform_hunt rnd cc ct s = Committed s'
              \<and> hunt_effects rnd cc (rule_for ct) t s = Inr s'"
proof -
  from hunt_effects_decomp[of rnd cc "rule_for ct" t s]
  obtain s' where e: "hunt_effects rnd cc (rule_for ct) t s = Inr s'" by blast
  have g: "\<not> (case rule_for ct of None \<Rightarrow> False
             | Some r \<Rightarrow> dict_get (resources s) (rule_resource r) 0 \<le> 0)"
    using assms(7) by (cases "rule_for ct") auto
  have "perform_hunt rnd cc ct s = Committed s'"
    unfolding perform_hunt_def using assms(1-6) g e by simp
  with e show ?thesis by blast
qed

lemma t1_rule: "rule_for (Some ''T1'') = Some \<lparr>rule_resource = ''T1 cheese'', page_gain = 25,
       chapter_enemy = ''T1 mouse'', post_enemy = ''Common Weaver - With T1 Cheese'',
       post_fantasy_enemy = ''Ultimate MythWeaver - With T1 Cheese'', notoriety_gain = 25\<rparr>"
  by (simp add: rule_for_def CHEESE_HUNT_RULES_def)

lemma postscript_example_select:
  "select_genre_by_pages example_rng (clone postscript_example) = Inr ''Romance''"
  by (simp add: select_genre_by_pages_def genre_weights_def clone_def postscript_example_def
        copy_genre_pages_def number_dict_def default_genre_pages_def BASE_GENRES_def
        FANTASY_GENRE_def dict_get_def dict_has_def example_rng_def Let_def)

lemma postscript_example_hunt:
  "\<exists>s'. perform_hunt example_rng False (Some ''T1'') postscript_example = Committed s'
        \<and> notoriety s' = notoriety (adjust_notoriety postscript_example ''Romance'' 25)"
proof -
  have pos: "chapter_position postscript_example = 7" by (simp add: postscript_example_def)
  have "\<exists>s'. perform_hunt example_rng False (Some ''T1'') postscript_example = Committed s'
          \<and> hunt_effects example_rng False (rule_for (Some ''T1'')) 10 postscript_example = Inr s'"
    by (rule perform_hunt_accepts)
       (simp_all add: postscript_example_def new_game_state_def target_length_of_def t1_rule
          TOTAL_CHAPTERS_def RESOURCE_KEYS_def dict_get_def)
  then obtain s' where c: "perform_hunt example_rng False (Some ''T1'') postscript_example = Committed s'"
    and e: "hunt_effects example_rng False (rule_for (Some ''T1'')) 10 postscript_example = Inr s'"
    by blast
  from hunt_effects_postscript_notoriety[OF pos postscript_example_select _ e[unfolded t1_rule]]
  have "notoriety s' = notoriety (adjust_notoriety postscript_example ''Romance'' 25)"
    by (simp add: FANTASY_GENRE_def)
  with c show ?thesis by blast
qed

theorem postscript_hunt_notoriety_witness:
  "chapter_position postscript_example = 7
   \<and> map_of CHEESE_HUNT_RULES ''T1'' = Some \<lparr>rule_resource = ''T1 cheese'', page_gain = 25,
       chapter_enemy = ''T1 mouse'', post_enemy = ''Common Weaver - With T1 Cheese'',
       post_fantasy_enemy = ''Ultimate MythWeaver - With T1 Cheese'', notoriety_gain = 25\<rparr>
   \<and> select_genre_by_pages example_rng (clone postscript_example) = Inr ''Romance''
   \<and> ''Romance'' \<noteq> FANTASY_GENRE
   \<and> distinct (map fst (notoriety postscript_example))
   \<and> (\<exists>s'. perform_hunt example_rng False (Some ''T1'') postscript_example = Committed s'
          \<and> map_of (notoriety s') ''Romance'' = Some 200
          \<and> map_of (notoriety s') ''Tragedy'' = Some 1
          \<and> map_of (notoriety s') ''Suspense'' = Some 199
          \<and> map_of (notoriety s') ''Comedy'' = Some 0)"
proof -
  let ?r = "\<lparr>rule_resource = ''T1 cheese'', page_gain = 25,
       chapter_enemy = ''T1 mouse'', post_enemy = ''Common Weaver - With T1 Cheese'',
       post_fantasy_enemy = ''Ultimate MythWeaver - With T1 Cheese'', notoriety_gain = 25\<rparr>"
  have pos: "chapter_position postscript_example = 7" by (simp add: postscript_example_def)
  have rule: "map_of CHEESE_HUNT_RULES ''T1'' = Some ?r" by (simp add: CHEESE_HUNT_RULES_def)
  have ne: "''Romance'' \<noteq> FANTASY_GENRE" by (simp add: FANTASY_GENRE_def)
  have d: "distinct (map fst (notoriety postscript_example))"
    by (simp add: postscript_example_def)
  from postscript_example_hunt obtain s' where
    c: "perform_hunt example_rng False (Some ''T1'') postscript_example = Committed s'" by blast
  note t = postscript_hunt_notoriety[OF pos c rule postscript_example_select ne d]
  have "map_of (notoriety s') ''Romance'' = Some 200"
    using t by (simp add: postscript_example_def dict_get_def clamp_notoriety_def)
  moreover have "map_of (notoriety s') ''Tragedy'' = Some 1"
    "map_of (notoriety s') ''Suspense'' = Some 199" "map_of (notoriety s') ''Comedy'' = Some 0"
    using t by (simp_all add: postscript_example_def)
  ultimately show ?thesis using pos rule postscript_example_select ne d c by blast
qed

text \<open>
  The claim as stated fails: Adventure is at 1 before the hunt that selects Romance, and
  it is still at 1 afterwards, not at 0.
\<close>

theorem postscript_decay_counterexample:
  "chapter_position postscript_example = 7
   \<and> select_genre_by_pages example_rng (clone postscript_example) = Inr ''Romance''
   \<and> committed_state (perform_hunt example_rng False (Some ''T1'') postscript_example) \<noteq> None
   \<and> map_of (notoriety postscript_example) ''Adventure'' = Some 1
   \<and> map_of (notoriety (the (committed_state
          (perform_hunt example_rng False (Some ''T1'') postscript_example)))) ''Adventure''
       = Some 1
   \<and> map_of (notoriety (the (committed_state
          (perform_hunt example_rng False (Some ''T1'') postscript_example)))) ''Adventure''
       \<noteq> Some (max 0 (1 - 1))"
proof -
  from postscript_example_hunt obtain s' where
    c: "perform_hunt example_rng False (Some ''T1'') postscript_example = Committed s'"
    and n: "notoriety s' = notoriety (adjust_notoriety postscript_example ''Romance'' 25)"
    by blast
  have d: "distinct (map fst (notoriety postscript_example))"
    by (simp add: postscript_example_def)
  have a: "map_of (notoriety s') ''Adventure'' = Some 1"
    unfolding n adjust_notoriety_map_of[OF d] by (simp add: postscript_example_def)
  have "chapter_position postscript_example = 7"
    "map_of (notoriety postscript_example) ''Adventure'' = Some 1"
    by (simp_all add: postscript_example_def)
  with c a postscript_example_select show ?thesis by (simp add: committed_state_def)
qed

section \<open>The lock on pending choices\<close>

lemma craft_keeps_run_fields:
  assumes "fst (craft r q s) = Committed s'"
  shows "pending_choices_locked s' = pending_choices_locked s"
    "run_fantasy_available s' = run_fantasy_available s"
    "pending_chapter_choices s' = pending_chapter_choices s"
    "chapter_position s' = chapter_position s"
proof -
  from assms obtain ds where d: "apply_deltas ds (clone s) = Inr s'"
    by (auto simp: craft_def split: option.splits if_splits sum.splits)
  let ?t = "s'\<lparr>resources := resources (clone s), consumables := consumables (clone s)\<rparr>"
  have e: "?t = clone s" using apply_deltas_frame[OF d] .
  have "pending_choices_locked ?t = pending_choices_locked (clone s)"
    "run_fantasy_available ?t = run_fantasy_available (clone s)"
    "pending_chapter_choices ?t = pending_chapter_choices (clone s)"
    "chapter_position ?t = chapter_position (clone s)"
    by (simp_all only: e)
  then show "pending_choices_locked s' = pending_choices_locked s"
    "run_fantasy_available s' = run_fantasy_available s"
    "pending_chapter_choices s' = pending_chapter_choices s"
    "chapter_position s' = chapter_position s"
    by (simp_all add: clone_def)
qed













section \<open>The bonus genre of a run\<close>

lemma distinct_BASE_GENRES: "distinct BASE_GENRES"
  by (simp add: BASE_GENRES_def)

lemma fantasy_unlocked_iff:
  assumes "notoriety_ok s"
  shows "fantasy_unlocked s = (\<forall>g \<in> set BASE_GENRES. dict_get (notoriety s) g 0 > 80)"
proof -
  from assms have k: "map fst (notoriety s) = BASE_GENRES" by (simp add: notoriety_ok_def)
  then have d: "distinct (map fst (notoriety s))" using distinct_BASE_GENRES by simp
  have keys: "set BASE_GENRES = fst ` set (notoriety s)" using k by (metis set_map)
  show ?thesis
  proof
    assume u: "fantasy_unlocked s"
    show "\<forall>g \<in> set BASE_GENRES. dict_get (notoriety s) g 0 > 80"
    proof
      fix g assume "g \<in> set BASE_GENRES"
      then have "dict_has (notoriety s) g" using keys by (simp add: dict_has_iff)
      from dict_get_in_set[OF this, of 0] u show "dict_get (notoriety s) g 0 > 80"
        by (auto simp: fantasy_unlocked_def list_all_iff)
    qed
  next
    assume a: "\<forall>g \<in> set BASE_GENRES. dict_get (notoriety s) g 0 > 80"
    have "v > 80" if "(g, v) \<in> set (notoriety s)" for g v
    proof -
      from that d have "map_of (notoriety s) g = Some v" by simp
      then have "dict_get (notoriety s) g 0 = v" by (simp add: dict_get_def)
      moreover have "g \<in> set BASE_GENRES" using that keys by force
      ultimately show ?thesis using a by auto
    qed
    then show "fantasy_unlocked s" by (auto simp: fantasy_unlocked_def list_all_iff)
  qed
qed

lemma fantasy_unlocked_depends:
  "notoriety a = notoriety b \<Longrightarrow> fantasy_unlocked a = fantasy_unlocked b"
  by (simp add: fantasy_unlocked_def)

lemma pool_of_state:
  "genres_for_selection s None = genres_for_selection x (Some (run_fantasy_available s))"
  by (simp add: genres_for_selection_def)

lemma fantasy_in_pool:
  "FANTASY_GENRE \<in> set (genres_for_selection s None) \<longleftrightarrow> run_fantasy_available s"
  by (auto simp: genres_for_selection_def BASE_GENRES_def FANTASY_GENRE_def)

lemma base_in_pool: "set BASE_GENRES \<subseteq> set (genres_for_selection s None)"
  by (auto simp: genres_for_selection_def)

lemma start_random_run_fantasy:
  assumes "start_random_run rnd s = Committed s'"
  shows "run_fantasy_available s' = fantasy_unlocked s
         \<and> (\<exists>g. current_chapter_genre s' = Some g \<and> g \<in> set (genres_for_selection s' None))
         \<and> (\<forall>c \<in> set (pending_chapter_choices s').
               choice_genre c \<in> set (genres_for_selection s' None))"
proof -
  let ?fa = "fantasy_unlocked s"
  let ?st = "initialize_new_run_state (clone s) ?fa"
  from assms obtain len genre where
    g: "random_choice (choice_genre_draw rnd) (genres_for_selection s (Some ?fa)) = Inr genre"
    and b: "begin_chapter s (shuffle_draws rnd) ?st 1 len genre = Inr s'"
    by (auto simp: start_random_run_def Let_def split: if_splits sum.splits)
  have gm: "genre \<in> set (genres_for_selection s (Some ?fa))"
    using g by (auto simp: random_choice_def split: if_splits)
  have fa: "run_fantasy_available ?st = ?fa" by (simp add: initialize_new_run_state_def)
  from begin_chapter_total[of s "shuffle_draws rnd" ?st 1 len genre] b fa
  have r: "run_fantasy_available s' = ?fa" "current_chapter_genre s' = Some genre"
    "\<forall>c \<in> set (pending_chapter_choices s').
        choice_genre c \<in> set (genres_for_selection s (Some ?fa))"
    by auto
  have p: "genres_for_selection s' None = genres_for_selection s (Some ?fa)"
    using pool_of_state[of s' s] r(1) by simp
  show ?thesis using r gm unfolding p by simp
qed

lemma start_manual_run_fantasy:
  assumes "start_manual_run rnd len genre s = Committed s'"
  shows "run_fantasy_available s' = fantasy_unlocked s
         \<and> current_chapter_genre s' = Some genre \<and> genre \<in> set (genres_for_selection s' None)
         \<and> (\<forall>c \<in> set (pending_chapter_choices s').
               choice_genre c \<in> set (genres_for_selection s' None))"
proof -
  let ?fa = "fantasy_unlocked s"
  let ?n = "clone s"
  let ?s1 = "?n\<lparr>resources := AList.update ''mallets'' (dict_get (resources ?n) ''mallets'' 0 - 30)
                                (resources ?n)\<rparr>"
  let ?st = "record_mallet_spend (initialize_new_run_state ?s1 (fantasy_unlocked ?s1)) 30"
  have fa1: "fantasy_unlocked ?s1 = ?fa"
    by (rule fantasy_unlocked_depends) (simp add: clone_def)
  from assms have gm: "genre \<in> set (genres_for_selection s (Some ?fa))"
    and c: "confirm_manual_start rnd len genre s = Committed s'"
    by (auto simp: start_manual_run_def Let_def split: if_splits)
  from c have b: "begin_chapter s (shuffle_draws rnd) ?st 1 len genre = Inr s'"
    by (auto simp: confirm_manual_start_def Let_def split: if_splits sum.splits)
  have fa: "run_fantasy_available ?st = ?fa"
    using fa1 by (simp add: initialize_new_run_state_def record_mallet_spend_def)
  from begin_chapter_total[of s "shuffle_draws rnd" ?st 1 len genre] b fa
  have r: "run_fantasy_available s' = ?fa" "current_chapter_genre s' = Some genre"
    "\<forall>c \<in> set (pending_chapter_choices s').
        choice_genre c \<in> set (genres_for_selection s (Some ?fa))"
    by auto
  have p: "genres_for_selection s' None = genres_for_selection s (Some ?fa)"
    using pool_of_state[of s' s] r(1) by simp
  show ?thesis using r gm unfolding p by simp
qed

lemma handle_chapter_completion_choices:
  assumes "handle_chapter_completion self_state draws st = Inr s'"
  shows "run_fantasy_available s' = run_fantasy_available st
         \<and> (\<forall>c \<in> set (pending_chapter_choices s').
               c \<in> set (pending_chapter_choices st)
               \<or> choice_genre c
                    \<in> set (genres_for_selection self_state (Some (run_fantasy_available st))))"
proof (cases "chapter_position st \<ge> TOTAL_CHAPTERS")
  case True
  then show ?thesis using assms by (auto simp: handle_chapter_completion_def enter_postscript_def)
next
  case False
  let ?s1 = "st\<lparr>current_chapter_length := None, current_chapter_genre := None,
                 current_chapter_progress := 0, pending_choices_locked := False\<rparr>"
  from generate_total[of self_state draws ?s1] obtain cs where
    g: "generate_next_chapter_choices self_state draws ?s1 = Inr cs"
    and m: "\<forall>c \<in> set cs. choice_genre c
               \<in> set (genres_for_selection self_state (Some (run_fantasy_available ?s1)))"
    by blast
  show ?thesis
  proof (cases "pending_chapter_choices st = []")
    case True
    then have "s' = ?s1\<lparr>pending_chapter_choices := cs\<rparr>"
      using assms False g by (simp add: handle_chapter_completion_def Let_def)
    then show ?thesis using m by simp
  next
    case ne: False
    then have "s' = ?s1" using assms False by (simp add: handle_chapter_completion_def Let_def)
    then show ?thesis by simp
  qed
qed

lemma perform_hunt_fantasy:
  assumes "perform_hunt rnd cc ct s = Committed s'"
  shows "(run_fantasy_available s' = run_fantasy_available s
          \<or> chapter_position s' = 0 \<and> \<not> run_fantasy_available s')
         \<and> (\<forall>c \<in> set (pending_chapter_choices s').
               c \<in> set (pending_chapter_choices s)
               \<or> choice_genre c \<in> set (genres_for_selection s (Some (run_fantasy_available s))))"
proof -
  from perform_hunt_committed[OF assms] obtain t where
    e: "hunt_effects rnd cc (rule_for ct) t s = Inr s'" by blast
  from hunt_effects_decomp[of rnd cc "rule_for ct" t s] e obtain s3 where
    f: "rewards_only (s\<lparr>current_chapter_progress := current_chapter_progress s + 1,
                        total_hunts := total_hunts s + 1,
                        current_run_hunts := current_run_hunts s + 1\<rparr>) s3"
    and c: "if t \<le> current_chapter_progress s + 1
         then (if chapter_position s = 7 then s' = finish_postscript s3
               else handle_chapter_completion s (shuffle_draws rnd) s3 = Inr s')
         else s' = s3"
    by auto
  have f3: "run_fantasy_available s3 = run_fantasy_available s"
    "pending_chapter_choices s3 = pending_chapter_choices s"
    using rewards_only_fields(10)[OF f] rewards_only_fields(9)[OF f] by simp_all
  consider (same) "s' = s3" | (fin) "s' = finish_postscript s3"
    | (completed) "handle_chapter_completion s (shuffle_draws rnd) s3 = Inr s'"
    using c by (auto split: if_splits)
  then show ?thesis
  proof cases
    case same
    then show ?thesis using f3 by simp
  next
    case fin
    then show ?thesis by (simp add: finish_postscript_def)
  next
    case completed
    from handle_chapter_completion_choices[OF completed] show ?thesis using f3 by simp
  qed
qed

lemma run_steps_keep_fantasy:
  assumes "perform a s = Committed s'" and "\<not> starts_or_loads a"
  shows "(run_fantasy_available s' = run_fantasy_available s
          \<or> chapter_position s' = 0 \<and> \<not> run_fantasy_available s')
         \<and> (\<forall>c \<in> set (pending_chapter_choices s').
               c \<in> set (pending_chapter_choices s)
               \<or> choice_genre c \<in> set (genres_for_selection s (Some (run_fantasy_available s))))"
proof (cases a)
  case (StartRandomRun rnd)
  then show ?thesis using assms by simp
next
  case (StartManualRun rnd len genre)
  then show ?thesis using assms by simp
next
  case (PerformHunt rnd cc ct)
  then show ?thesis using assms perform_hunt_fantasy[of rnd cc ct s s'] by simp
next
  case (ChooseNextChapter rnd choice)
  with assms obtain n where
    b: "begin_chapter s (shuffle_draws rnd) (clone s) n (choice_length choice) (choice_genre choice)
          = Inr s'"
    by (auto simp: choose_next_chapter_def Let_def split: if_splits sum.splits)
  from begin_chapter_total[of s "shuffle_draws rnd" "clone s" n "choice_length choice"
      "choice_genre choice"] b
  show ?thesis by (auto simp: clone_def)
next
  case (RerollChoices rnd)
  let ?s1 = "(clone s)\<lparr>resources :=
      AList.update ''mallets'' (dict_get (resources (clone s)) ''mallets'' 0 - 3)
        (resources (clone s))\<rparr>"
  from RerollChoices assms obtain cs where
    g: "generate_next_chapter_choices s (shuffle_draws rnd) ?s1 = Inr cs"
    and s': "s' = record_mallet_spend (?s1\<lparr>pending_chapter_choices := cs\<rparr>) 3"
    by (auto simp: reroll_chapter_choices_def Let_def split: if_splits sum.splits)
  from generate_total[of s "shuffle_draws rnd" ?s1] g
  have "\<forall>c \<in> set cs. choice_genre c
           \<in> set (genres_for_selection s (Some (run_fantasy_available s)))"
    by (auto simp: clone_def)
  then show ?thesis by (simp add: s' record_mallet_spend_def clone_def)
next
  case ExtendPostscript
  then show ?thesis using assms
    by (auto simp: extend_postscript_def record_mallet_spend_def
          clone_def Let_def split: if_splits)
next
  case (Craft r q)
  then show ?thesis using assms craft_keeps_run_fields[of r q s s'] by simp
next
  case (EditResource key v)
  then show ?thesis using assms
    by (auto simp: entry_changed_def clone_def Let_def split: if_splits option.splits)
next
  case (EditConsumable key v)
  then show ?thesis using assms
    by (auto simp: entry_changed_def clone_def Let_def split: if_splits option.splits)
next
  case (EditNotoriety key v)
  then show ?thesis using assms
    by (auto simp: entry_changed_def clone_def Let_def split: if_splits option.splits)
next
  case (EditDrop enemy material v)
  then show ?thesis using assms
    by (auto simp: drop_value_changed_def clone_def Let_def split: if_splits option.splits)
next
  case (AddDrop enemy material)
  then show ?thesis using assms
    by (auto simp: add_drop_to_enemy_def clone_def Let_def split: if_splits)
next
  case (LoadSnapshot raw)
  then show ?thesis using assms by simp
qed


lemma start_random_run_commits:
  assumes "chapter_position s = 0"
  shows "\<exists>s'. start_random_run rnd s = Committed s' \<and> notoriety s' = notoriety s
              \<and> chapter_position s' = 1"
proof -
  let ?fa = "fantasy_unlocked s"
  let ?g = "genres_for_selection s (Some ?fa)"
  let ?st = "initialize_new_run_state (clone s) ?fa"
  have ne: "?g \<noteq> []" by (simp add: genres_for_selection_Some BASE_GENRES_def)
  from random_choice_mem[of CHAPTER_LENGTHS "choice_length_draw rnd"]
  obtain len where l: "random_choice (choice_length_draw rnd) CHAPTER_LENGTHS = Inr len"
    by (auto simp: CHAPTER_LENGTHS_def)
  from random_choice_mem[OF ne, of "choice_genre_draw rnd"]
  obtain genre where g: "random_choice (choice_genre_draw rnd) ?g = Inr genre" by blast
  from begin_chapter_total[of s "shuffle_draws rnd" ?st 1 len genre]
  obtain s' where b: "begin_chapter s (shuffle_draws rnd) ?st 1 len genre = Inr s'"
    and n: "notoriety s' = notoriety ?st" and p: "chapter_position s' = 1"
    by blast
  have "start_random_run rnd s = Committed s'"
    using assms ne l g b by (simp add: start_random_run_def ensure_can_start_run_def Let_def)
  moreover have "notoriety s' = notoriety s"
    using n by (simp add: initialize_new_run_state_def clone_def)
  ultimately show ?thesis using p by blast
qed

lemma shuffle_by_can_end_with:
  "g \<in> set xs \<Longrightarrow> \<exists>ds. last (shuffle_by ds xs) = g"
proof (induction "length xs" arbitrary: xs)
  case 0
  then show ?case by simp
next
  case (Suc n)
  then obtain x xs' where xs: "xs = x # xs'" and n: "length xs' = n"
    by (cases xs) auto
  show ?case
  proof (cases "xs' = []")
    case True
    then have "last (shuffle_by [] xs) = g" using Suc.prems xs by simp
    then show ?thesis by blast
  next
    case False
    then have l2: "2 \<le> length xs" using xs by (cases xs') auto
    show ?thesis
    proof (cases "g \<in> set xs'")
      case True
      from Suc.hyps(1)[OF n[symmetric] True] obtain ds where ds: "last (shuffle_by ds xs') = g"
        by blast
      have "shuffle_by (0 # ds) xs = x # shuffle_by ds xs'" using xs by simp
      then have "last (shuffle_by (0 # ds) xs) = g" using ds False by simp
      then show ?thesis by blast
    next
      case notin: False
      then have gx: "g = x" using Suc.prems xs by simp
      obtain y ys where ys: "xs' = y # ys" using False by (cases xs') auto
      have len: "length (x # ys) = n" using n ys by simp
      have "g \<in> set (x # ys)" using gx by simp
      from Suc.hyps(1)[OF len[symmetric] this] obtain ds where
        ds: "last (shuffle_by ds (x # ys)) = g" by blast
      have "shuffle_by (1 # ds) xs = y # shuffle_by ds (x # ys)" using xs ys by simp
      then have "last (shuffle_by (1 # ds) xs) = g" using ds by simp
      then show ?thesis by blast
    qed
  qed
qed

lemma generate_depends:
  "run_fantasy_available a = run_fantasy_available b \<Longrightarrow>
   generate_next_chapter_choices x draws a = generate_next_chapter_choices x draws b"
  by (simp add: generate_next_chapter_choices_def)

lemma generate_can_offer:
  assumes "g \<in> set (genres_for_selection x (Some (run_fantasy_available st)))"
  shows "\<exists>draws cs. generate_next_chapter_choices x draws st = Inr cs
           \<and> cs \<noteq> [] \<and> choice_genre (hd cs) = g"
proof -
  let ?g = "genres_for_selection x (Some (run_fantasy_available st))"
  have ne: "?g \<noteq> []" using assms by auto
  from shuffle_by_can_end_with[OF assms] obtain ds where ds: "last (shuffle_by ds ?g) = g"
    by blast
  let ?a = "shuffle_by ds ?g"
  have a: "?a \<noteq> []" using ne by simp
  from choices_loop_total[OF ne, of "[]" "butlast ?a" "tl CHAPTER_LENGTHS"]
  obtain cs where cs: "choices_loop [] ?g (butlast ?a) (tl CHAPTER_LENGTHS) = Inr cs" by blast
  have "generate_next_chapter_choices x [ds] st
          = Inr (\<lparr>choice_length = hd CHAPTER_LENGTHS, choice_genre = g\<rparr> # cs)"
    using a cs ds by (simp add: generate_next_chapter_choices_def CHAPTER_LENGTHS_def Let_def)
  then show ?thesis by force
qed

lemma begin_chapter_choices:
  assumes "n \<le> TOTAL_CHAPTERS - 1"
  shows "\<exists>s'. begin_chapter x draws st n len g = Inr s'
           \<and> run_fantasy_available s' = run_fantasy_available st
           \<and> notoriety s' = notoriety st
           \<and> current_chapter_genre s' = Some g
           \<and> generate_next_chapter_choices x draws s' = Inr (pending_chapter_choices s')"
proof -
  let ?s1 = "st\<lparr>chapter_position := n, current_chapter_length := Some len,
                 current_chapter_genre := Some g, current_chapter_progress := 0\<rparr>"
  from generate_total[of x draws ?s1] obtain cs where
    cs: "generate_next_chapter_choices x draws ?s1 = Inr cs" by blast
  let ?s' = "?s1\<lparr>pending_chapter_choices := cs, pending_choices_locked := True\<rparr>"
  have b: "begin_chapter x draws st n len g = Inr ?s'"
    using assms cs by (simp add: begin_chapter_def Let_def)
  have "generate_next_chapter_choices x draws ?s' = Inr cs"
    using cs generate_depends[of ?s' ?s1 x draws] by simp
  then show ?thesis using b by simp
qed

lemma start_random_run_draws:
  assumes "chapter_position s = 0"
  shows "\<exists>t. start_random_run rnd s = Committed t
           \<and> run_fantasy_available t = fantasy_unlocked s
           \<and> current_chapter_genre t
               = Some (genres_for_selection s (Some (fantasy_unlocked s))
                         ! (choice_genre_draw rnd
                              mod length (genres_for_selection s (Some (fantasy_unlocked s)))))
           \<and> generate_next_chapter_choices s (shuffle_draws rnd) t
               = Inr (pending_chapter_choices t)"
proof -
  let ?fa = "fantasy_unlocked s"
  let ?g = "genres_for_selection s (Some ?fa)"
  let ?st = "initialize_new_run_state (clone s) ?fa"
  let ?len = "CHAPTER_LENGTHS ! (choice_length_draw rnd mod length CHAPTER_LENGTHS)"
  let ?genre = "?g ! (choice_genre_draw rnd mod length ?g)"
  have ne: "?g \<noteq> []" by (simp add: genres_for_selection_Some BASE_GENRES_def)
  have l: "random_choice (choice_length_draw rnd) CHAPTER_LENGTHS = Inr ?len"
    by (simp add: random_choice_def CHAPTER_LENGTHS_def)
  have g: "random_choice (choice_genre_draw rnd) ?g = Inr ?genre"
    using ne by (simp add: random_choice_def)
  have one: "(1::int) \<le> TOTAL_CHAPTERS - 1" by (simp add: TOTAL_CHAPTERS_def)
  from begin_chapter_choices[OF one, of s "shuffle_draws rnd" ?st ?len ?genre]
  obtain t where b: "begin_chapter s (shuffle_draws rnd) ?st 1 ?len ?genre = Inr t"
    and f: "run_fantasy_available t = run_fantasy_available ?st"
    and c: "current_chapter_genre t = Some ?genre"
    and p: "generate_next_chapter_choices s (shuffle_draws rnd) t = Inr (pending_chapter_choices t)"
    by blast
  have "start_random_run rnd s = Committed t"
    using assms ne l g b by (simp add: start_random_run_def ensure_can_start_run_def Let_def)
  moreover have "run_fantasy_available t = ?fa" using f by (simp add: initialize_new_run_state_def)
  ultimately show ?thesis using c p by blast
qed

lemma start_random_run_can_draw:
  assumes "chapter_position s = 0"
    and "g \<in> set (genres_for_selection s (Some (fantasy_unlocked s)))"
  shows "\<exists>r t. start_random_run r s = Committed t \<and> current_chapter_genre t = Some g"
proof -
  let ?g = "genres_for_selection s (Some (fantasy_unlocked s))"
  from assms(2) obtain i where i: "i < length ?g" and gi: "?g ! i = g"
    by (auto simp: in_set_conv_nth)
  let ?r = "\<lparr>choice_length_draw = 0, choice_genre_draw = i, uniform_draw = 0, shuffle_draws = []\<rparr>"
  from start_random_run_draws[OF assms(1), of ?r] obtain t where
    "start_random_run ?r s = Committed t"
    "current_chapter_genre t = Some (?g ! (i mod length ?g))"
    by auto
  then show ?thesis using i gi by auto
qed

lemma start_manual_run_accepts:
  assumes "chapter_position s = 0" and "30 \<le> dict_get (resources s) ''mallets'' 0"
    and "len \<in> set CHAPTER_LENGTHS"
  shows "(\<exists>t. start_manual_run rnd len genre s = Committed t)
           \<longleftrightarrow> genre \<in> set (genres_for_selection s (Some (fantasy_unlocked s)))"
proof
  assume "\<exists>t. start_manual_run rnd len genre s = Committed t"
  then show "genre \<in> set (genres_for_selection s (Some (fantasy_unlocked s)))"
    by (auto simp: start_manual_run_def Let_def split: if_splits)
next
  assume g: "genre \<in> set (genres_for_selection s (Some (fantasy_unlocked s)))"
  let ?s1 = "(clone s)\<lparr>resources :=
               AList.update ''mallets'' (dict_get (resources (clone s)) ''mallets'' 0 - 30)
                 (resources (clone s))\<rparr>"
  have fu: "fantasy_unlocked ?s1 = fantasy_unlocked s"
    by (rule fantasy_unlocked_depends) (simp add: clone_def)
  have nf: "\<not> (genre = FANTASY_GENRE \<and> \<not> fantasy_unlocked s)"
    using g by (auto simp: genres_for_selection_Some BASE_GENRES_def FANTASY_GENRE_def
        split: if_splits)
  from begin_chapter_total[of s "shuffle_draws rnd"
      "record_mallet_spend (initialize_new_run_state ?s1 (fantasy_unlocked ?s1)) 30" 1 len genre]
  obtain t where "begin_chapter s (shuffle_draws rnd)
      (record_mallet_spend (initialize_new_run_state ?s1 (fantasy_unlocked ?s1)) 30) 1 len genre
      = Inr t" by blast
  then have "confirm_manual_start rnd len genre s = Committed t"
    using assms(2) nf fu by (simp add: confirm_manual_start_def Let_def clone_def)
  moreover have "genres_for_selection s (Some (fantasy_unlocked s)) \<noteq> []" using g by auto
  ultimately have "start_manual_run rnd len genre s = Committed t"
    using assms g by (simp add: start_manual_run_def ensure_can_start_run_def Let_def)
  then show "\<exists>t. start_manual_run rnd len genre s = Committed t" by blast
qed

lemma confirm_manual_start_refuses_fantasy:
  "\<not> fantasy_unlocked s \<Longrightarrow> confirm_manual_start rnd len FANTASY_GENRE s = Rejected"
  by (simp add: confirm_manual_start_def Let_def fantasy_unlocked_def clone_def)

lemma reroll_draws:
  assumes "pending_chapter_choices s \<noteq> []" and "3 \<le> dict_get (resources s) ''mallets'' 0"
  shows "\<exists>t. reroll_chapter_choices rnd s = Committed t
           \<and> run_fantasy_available t = run_fantasy_available s
           \<and> generate_next_chapter_choices s (shuffle_draws rnd) s
               = Inr (pending_chapter_choices t)"
proof -
  let ?s1 = "(clone s)\<lparr>resources :=
               AList.update ''mallets'' (dict_get (resources (clone s)) ''mallets'' 0 - 3)
                 (resources (clone s))\<rparr>"
  from generate_total[of s "shuffle_draws rnd" ?s1] obtain cs where
    cs: "generate_next_chapter_choices s (shuffle_draws rnd) ?s1 = Inr cs" by blast
  have "generate_next_chapter_choices s (shuffle_draws rnd) s = Inr cs"
    using cs generate_depends[of s ?s1 s "shuffle_draws rnd"] by (simp add: clone_def)
  moreover have "reroll_chapter_choices rnd s
      = Committed (record_mallet_spend (?s1\<lparr>pending_chapter_choices := cs\<rparr>) 3)"
    using assms cs by (simp add: reroll_chapter_choices_def Let_def clone_def)
  ultimately show ?thesis by (simp add: record_mallet_spend_def clone_def)
qed

lemma choose_next_chapter_takes:
  assumes "pending_chapter_choices s \<noteq> []" and "\<not> pending_choices_locked s"
    and "choice_length c \<noteq> 0"
  shows "\<exists>t. choose_next_chapter rnd c s = Committed t
           \<and> run_fantasy_available t = run_fantasy_available s
           \<and> current_chapter_genre t = Some (choice_genre c)"
proof -
  let ?n0 = "min (chapter_position (clone s) + 1) TOTAL_CHAPTERS"
  let ?n = "if ?n0 \<le> chapter_position (clone s) then chapter_position (clone s) + 1 else ?n0"
  from begin_chapter_total[of s "shuffle_draws rnd" "clone s" ?n "choice_length c" "choice_genre c"]
  obtain t where "begin_chapter s (shuffle_draws rnd) (clone s) ?n (choice_length c) (choice_genre c)
      = Inr t" "run_fantasy_available t = run_fantasy_available (clone s)"
    "current_chapter_genre t = Some (choice_genre c)" by blast
  moreover have "pending_chapter_choices (clone s) \<noteq> []" "\<not> pending_choices_locked (clone s)"
    using assms by (simp_all add: clone_def)
  ultimately have "choose_next_chapter rnd c s = Committed t
           \<and> run_fantasy_available t = run_fantasy_available (clone s)
           \<and> current_chapter_genre t = Some (choice_genre c)"
    using assms(3) by (simp add: choose_next_chapter_def Let_def)
  then show ?thesis by (auto simp: clone_def)
qed

text \<open>
  C7. In every state \<open>s\<close> reached from the fresh state, with "unlocked" standing for: every
  base genre's notoriety exceeds 80 in \<open>s\<close>.
  Starting a run: a random start records as \<open>run_fantasy_available\<close> whether Fantasy is
  unlocked at that moment, and a manual start does the same. Outside a run a random start
  always commits, and it can draw as first genre every base genre, and Fantasy when it is
  unlocked. Outside a run, with 30 mallets and one of the chapter lengths, a manual start
  commits exactly for the base genres, and for Fantasy when it is unlocked.
  The pool: the genre pool of a state holds the base genres, and Fantasy exactly when the
  recorded flag is set; the first chapter's genre and the generated choices come from that
  pool, and generation can offer every genre of the pool.
  During the run: every action inside a run (hunt, choice, reroll, extension, crafting,
  edits of resources, consumables, notoriety or the loot table) leaves the flag as it is,
  unless it is the hunt that ends the run, and draws new choices only from the pool of the
  recorded flag; a reroll with pending choices and 3 mallets commits the choices generated
  from that pool, and an unlocked choice commits with the chosen genre.
\<close>

theorem bonus_genre_frozen_for_run:
  assumes "s = h_current (run_commands cmds initial_history)"
  shows "(start_random_run rnd s = Committed s1 \<longrightarrow>
            run_fantasy_available s1 = (\<forall>g \<in> set BASE_GENRES. 80 < dict_get (notoriety s) g 0)
            \<and> (\<exists>g. current_chapter_genre s1 = Some g \<and> g \<in> set (genres_for_selection s1 None))
            \<and> (\<forall>c \<in> set (pending_chapter_choices s1).
                  choice_genre c \<in> set (genres_for_selection s1 None)))
         \<and> (start_manual_run rnd len genre s = Committed s2 \<longrightarrow>
            run_fantasy_available s2 = (\<forall>g \<in> set BASE_GENRES. 80 < dict_get (notoriety s) g 0)
            \<and> current_chapter_genre s2 = Some genre
            \<and> genre \<in> set (genres_for_selection s2 None)
            \<and> (\<forall>c \<in> set (pending_chapter_choices s2).
                  choice_genre c \<in> set (genres_for_selection s2 None)))
         \<and> (FANTASY_GENRE \<in> set (genres_for_selection s None) \<longleftrightarrow> run_fantasy_available s)
         \<and> set BASE_GENRES \<subseteq> set (genres_for_selection s None)
         \<and> (perform a s = Committed s3 \<and> \<not> starts_or_loads a \<longrightarrow>
            (run_fantasy_available s3 = run_fantasy_available s
             \<or> chapter_position s3 = 0 \<and> \<not> run_fantasy_available s3)
            \<and> (\<forall>c \<in> set (pending_chapter_choices s3).
                  c \<in> set (pending_chapter_choices s)
                  \<or> choice_genre c \<in> set (genres_for_selection s None)))
         \<and> (chapter_position s = 0 \<longrightarrow>
            (\<exists>t. start_random_run rnd s = Committed t
                \<and> generate_next_chapter_choices s (shuffle_draws rnd) t
                    = Inr (pending_chapter_choices t)))
         \<and> (chapter_position s = 0
            \<and> (g \<in> set BASE_GENRES
               \<or> g = FANTASY_GENRE \<and> (\<forall>b \<in> set BASE_GENRES. 80 < dict_get (notoriety s) b 0)) \<longrightarrow>
            (\<exists>r t. start_random_run r s = Committed t \<and> current_chapter_genre t = Some g))
         \<and> (chapter_position s = 0 \<and> 30 \<le> dict_get (resources s) ''mallets'' 0
            \<and> len \<in> set CHAPTER_LENGTHS \<longrightarrow>
            ((\<exists>t. start_manual_run rnd len genre s = Committed t) \<longleftrightarrow>
               (genre \<in> set BASE_GENRES
                \<or> genre = FANTASY_GENRE
                  \<and> (\<forall>b \<in> set BASE_GENRES. 80 < dict_get (notoriety s) b 0))))
         \<and> (g \<in> set (genres_for_selection s None) \<longrightarrow>
            (\<exists>draws cs. generate_next_chapter_choices s draws s = Inr cs
                \<and> cs \<noteq> [] \<and> choice_genre (hd cs) = g))
         \<and> (pending_chapter_choices s \<noteq> [] \<and> 3 \<le> dict_get (resources s) ''mallets'' 0 \<longrightarrow>
            (\<exists>t. reroll_chapter_choices rnd s = Committed t
                \<and> run_fantasy_available t = run_fantasy_available s
                \<and> generate_next_chapter_choices s (shuffle_draws rnd) s
                    = Inr (pending_chapter_choices t)))
         \<and> (pending_chapter_choices s \<noteq> [] \<and> \<not> pending_choices_locked s
            \<and> choice_length c \<noteq> 0 \<longrightarrow>
            (\<exists>t. choose_next_chapter rnd c s = Committed t
                \<and> run_fantasy_available t = run_fantasy_available s
                \<and> current_chapter_genre t = Some (choice_genre c)))"
proof -
  have ok: "notoriety_ok s" using reachable_state_ok[of cmds] assms by (simp add: state_ok_def)
  note u = fantasy_unlocked_iff[OF ok]
  have p: "genres_for_selection s None = genres_for_selection s (Some (run_fantasy_available s))"
    by (rule pool_of_state)
  have start_pool: "x \<in> set (genres_for_selection s (Some (fantasy_unlocked s))) \<longleftrightarrow>
      x \<in> set BASE_GENRES
      \<or> x = FANTASY_GENRE \<and> (\<forall>b \<in> set BASE_GENRES. 80 < dict_get (notoriety s) b 0)" for x
    unfolding u[symmetric] by (auto simp: genres_for_selection_Some)
  have old: "(start_random_run rnd s = Committed s1 \<longrightarrow>
            run_fantasy_available s1 = (\<forall>g \<in> set BASE_GENRES. 80 < dict_get (notoriety s) g 0)
            \<and> (\<exists>g. current_chapter_genre s1 = Some g \<and> g \<in> set (genres_for_selection s1 None))
            \<and> (\<forall>c \<in> set (pending_chapter_choices s1).
                  choice_genre c \<in> set (genres_for_selection s1 None)))
         \<and> (start_manual_run rnd len genre s = Committed s2 \<longrightarrow>
            run_fantasy_available s2 = (\<forall>g \<in> set BASE_GENRES. 80 < dict_get (notoriety s) g 0)
            \<and> current_chapter_genre s2 = Some genre
            \<and> genre \<in> set (genres_for_selection s2 None)
            \<and> (\<forall>c \<in> set (pending_chapter_choices s2).
                  choice_genre c \<in> set (genres_for_selection s2 None)))
         \<and> (FANTASY_GENRE \<in> set (genres_for_selection s None) \<longleftrightarrow> run_fantasy_available s)
         \<and> set BASE_GENRES \<subseteq> set (genres_for_selection s None)
         \<and> (perform a s = Committed s3 \<and> \<not> starts_or_loads a \<longrightarrow>
            (run_fantasy_available s3 = run_fantasy_available s
             \<or> chapter_position s3 = 0 \<and> \<not> run_fantasy_available s3)
            \<and> (\<forall>c \<in> set (pending_chapter_choices s3).
                  c \<in> set (pending_chapter_choices s)
                  \<or> choice_genre c \<in> set (genres_for_selection s None)))"
    using start_random_run_fantasy[of rnd s s1] start_manual_run_fantasy[of rnd len genre s s2]
      fantasy_in_pool[of s] base_in_pool[of s] run_steps_keep_fantasy[of a s s3]
    unfolding u p by blast
  have n1: "chapter_position s = 0 \<longrightarrow>
            (\<exists>t. start_random_run rnd s = Committed t
                \<and> generate_next_chapter_choices s (shuffle_draws rnd) t
                    = Inr (pending_chapter_choices t))"
    using start_random_run_draws[of s rnd] by blast
  have n2: "chapter_position s = 0
            \<and> (g \<in> set BASE_GENRES
               \<or> g = FANTASY_GENRE \<and> (\<forall>b \<in> set BASE_GENRES. 80 < dict_get (notoriety s) b 0)) \<longrightarrow>
            (\<exists>r t. start_random_run r s = Committed t \<and> current_chapter_genre t = Some g)"
    using start_random_run_can_draw[of s g] start_pool[of g] by blast
  have n3: "chapter_position s = 0 \<and> 30 \<le> dict_get (resources s) ''mallets'' 0
            \<and> len \<in> set CHAPTER_LENGTHS \<longrightarrow>
            ((\<exists>t. start_manual_run rnd len genre s = Committed t) \<longleftrightarrow>
               (genre \<in> set BASE_GENRES
                \<or> genre = FANTASY_GENRE
                  \<and> (\<forall>b \<in> set BASE_GENRES. 80 < dict_get (notoriety s) b 0)))"
    using start_manual_run_accepts[of s len rnd genre] start_pool[of genre] by blast
  have n4: "g \<in> set (genres_for_selection s None) \<longrightarrow>
            (\<exists>draws cs. generate_next_chapter_choices s draws s = Inr cs
                \<and> cs \<noteq> [] \<and> choice_genre (hd cs) = g)"
    using generate_can_offer[of g s s] unfolding p by blast
  have n5: "pending_chapter_choices s \<noteq> [] \<and> 3 \<le> dict_get (resources s) ''mallets'' 0 \<longrightarrow>
            (\<exists>t. reroll_chapter_choices rnd s = Committed t
                \<and> run_fantasy_available t = run_fantasy_available s
                \<and> generate_next_chapter_choices s (shuffle_draws rnd) s
                    = Inr (pending_chapter_choices t))"
    using reroll_draws[of s rnd] by blast
  have n6: "pending_chapter_choices s \<noteq> [] \<and> \<not> pending_choices_locked s
            \<and> choice_length c \<noteq> 0 \<longrightarrow>
            (\<exists>t. choose_next_chapter rnd c s = Committed t
                \<and> run_fantasy_available t = run_fantasy_available s
                \<and> current_chapter_genre t = Some (choice_genre c))"
    using choose_next_chapter_takes[of s c rnd] by blast
  from old n1 n2 n3 n4 n5 n6 show ?thesis by (elim conjE) (intro conjI; assumption)
qed

lemma in_set_update: "(k, v) \<in> set (AList.update k v d)"
  by (induction d) auto

lemma notorious_state:
  "h_current (run_commands [Act (LoadSnapshot notorious_doc)] initial_history)
     = from_dict notorious_doc"
  "chapter_position (from_dict notorious_doc) = 0"
  by (simp_all add: run_commands_def act_def commit_outcome_def load_snapshot_def commit_def
        from_dict_def notorious_doc_def get_or_def Let_def)

lemma notorious_notoriety:
  "notoriety (from_dict notorious_doc) = map (\<lambda>genre. (genre, 90)) BASE_GENRES"
  by (simp add: from_dict_notoriety notorious_doc_def get_or_def dict_get_def
        clamp_notoriety_def BASE_GENRES_def)

lemma rich_notorious_state:
  "h_current (run_commands [Act (LoadSnapshot rich_notorious_doc)] initial_history)
     = from_dict rich_notorious_doc"
  "chapter_position (from_dict rich_notorious_doc) = 0"
  by (simp_all add: run_commands_def act_def commit_outcome_def load_snapshot_def commit_def
        from_dict_def rich_notorious_doc_def notorious_doc_def get_or_def Let_def)

lemma rich_notorious_notoriety:
  "notoriety (from_dict rich_notorious_doc) = map (\<lambda>genre. (genre, 90)) BASE_GENRES"
  by (simp add: from_dict_notoriety rich_notorious_doc_def notorious_doc_def get_or_def
        dict_get_def clamp_notoriety_def BASE_GENRES_def)

lemma rich_notorious_mallets:
  "dict_get (resources (from_dict rich_notorious_doc)) ''mallets'' 0 = 30"
  by (simp add: from_dict_resources rich_notorious_doc_def notorious_doc_def get_or_def
        dict_get_def RESOURCE_KEYS_def)

theorem bonus_genre_frozen_for_run_witness:
  "(\<exists>s1. start_random_run example_rng
           (h_current (run_commands [Act (LoadSnapshot notorious_doc)] initial_history))
           = Committed s1
        \<and> run_fantasy_available s1
        \<and> FANTASY_GENRE \<in> set (genres_for_selection s1 None)
        \<and> s1 = h_current (run_commands [Act (LoadSnapshot notorious_doc),
                                         Act (StartRandomRun example_rng)] initial_history)
        \<and> (\<exists>s4. perform (EditNotoriety ''Romance'' (Some 0)) s1 = Committed s4
               \<and> \<not> starts_or_loads (EditNotoriety ''Romance'' (Some 0))
               \<and> \<not> fantasy_unlocked s4
               \<and> chapter_position s4 = 1
               \<and> run_fantasy_available s4))
   \<and> (\<exists>r t. start_random_run r
               (h_current (run_commands [Act (LoadSnapshot notorious_doc)] initial_history))
               = Committed t
            \<and> current_chapter_genre t = Some FANTASY_GENRE)
   \<and> (\<exists>t. start_manual_run example_rng 10 FANTASY_GENRE
             (h_current (run_commands [Act (LoadSnapshot rich_notorious_doc)] initial_history))
             = Committed t)"
proof -
  let ?cmds1 = "[Act (LoadSnapshot notorious_doc)]"
  let ?cmds2 = "[Act (LoadSnapshot notorious_doc), Act (StartRandomRun example_rng)]"
  let ?cmds3 = "[Act (LoadSnapshot rich_notorious_doc)]"
  let ?s = "h_current (run_commands ?cmds1 initial_history)"
  let ?m = "h_current (run_commands ?cmds3 initial_history)"
  let ?a = "EditNotoriety ''Romance'' (Some 0)"
  have s: "?s = from_dict notorious_doc" by (rule notorious_state(1))
  have m: "?m = from_dict rich_notorious_doc" by (rule rich_notorious_state(1))
  from start_random_run_commits[of ?s example_rng] obtain s1 where
    c: "start_random_run example_rng ?s = Committed s1" and n1: "notoriety s1 = notoriety ?s"
    and p1: "chapter_position s1 = 1"
    by (auto simp: s notorious_state(2))
  have all: "\<forall>g \<in> set BASE_GENRES. 80 < dict_get (notoriety ?s) g 0"
    by (simp add: s notorious_notoriety BASE_GENRES_def dict_get_def)
  from bonus_genre_frozen_for_run[of ?s ?cmds1 example_rng s1] c all
  have f1: "run_fantasy_available s1" by blast
  have r2: "s1 = h_current (run_commands ?cmds2 initial_history)"
    using c by (simp add: run_commands_def act_def commit_outcome_def load_snapshot_def
        commit_def)
  from bonus_genre_frozen_for_run[of s1 ?cmds2] r2 f1
  have pool: "FANTASY_GENRE \<in> set (genres_for_selection s1 None)" by blast
  let ?s4 = "(clone s1)\<lparr>notoriety := AList.update ''Romance'' 0 (notoriety (clone s1))\<rparr>"
  have e: "perform ?a s1 = Committed ?s4"
    by (simp add: entry_changed_def category_keys_def BASE_GENRES_def n1 s notorious_notoriety
          Let_def)
  have sl: "\<not> starts_or_loads ?a" by simp
  have p4: "chapter_position ?s4 = 1" using p1 by (simp add: clone_def)
  from bonus_genre_frozen_for_run[of s1 ?cmds2 example_rng s1 0 "''Romance''" s1 ?a ?s4] r2 e sl p4 f1
  have f4: "run_fantasy_available ?s4" by auto
  have "(''Romance'', 0) \<in> set (notoriety ?s4)" by (simp add: in_set_update)
  then have nu: "\<not> fantasy_unlocked ?s4" by (force simp: fantasy_unlocked_def list_all_iff)
  from c f1 pool r2 e sl nu p4 f4 have first: "\<exists>s1. start_random_run example_rng ?s = Committed s1
        \<and> run_fantasy_available s1
        \<and> FANTASY_GENRE \<in> set (genres_for_selection s1 None)
        \<and> s1 = h_current (run_commands ?cmds2 initial_history)
        \<and> (\<exists>s4. perform ?a s1 = Committed s4
               \<and> \<not> starts_or_loads ?a
               \<and> \<not> fantasy_unlocked s4
               \<and> chapter_position s4 = 1
               \<and> run_fantasy_available s4)"
    by blast
  have p0: "chapter_position ?s = 0" by (simp add: s notorious_state(2))
  from bonus_genre_frozen_for_run[of ?s ?cmds1 _ _ _ _ _ _ _ FANTASY_GENRE] p0 all
  have second: "\<exists>r t. start_random_run r ?s = Committed t
      \<and> current_chapter_genre t = Some FANTASY_GENRE"
    by blast
  have m0: "chapter_position ?m = 0" by (simp add: m rich_notorious_state(2))
  have mm: "30 \<le> dict_get (resources ?m) ''mallets'' 0" by (simp add: m rich_notorious_mallets)
  have mall: "\<forall>g \<in> set BASE_GENRES. 80 < dict_get (notoriety ?m) g 0"
    by (simp add: m rich_notorious_notoriety BASE_GENRES_def dict_get_def)
  have ten: "(10::int) \<in> set CHAPTER_LENGTHS" by (simp add: CHAPTER_LENGTHS_def)
  from bonus_genre_frozen_for_run[of ?m ?cmds3 example_rng _ 10 FANTASY_GENRE] m0 mm mall ten
  have third: "\<exists>t. start_manual_run example_rng 10 FANTASY_GENRE ?m = Committed t"
    by blast
  from first second third show ?thesis by blast
qed

section \<open>Saving and loading snapshots\<close>

lemma map_of_keyed:
  "map_of (map (\<lambda>k. (k, f k)) ks) k = (if k \<in> set ks then Some (f k) else None)"
  by (induction ks) auto

lemma reread_fixed_keys:
  assumes "fst ` set d = set ks"
  shows "map_of (map (\<lambda>k. (k, dict_get d k dflt)) ks) = map_of d"
proof
  fix k
  show "map_of (map (\<lambda>k. (k, dict_get d k dflt)) ks) k = map_of d k"
  proof (cases "map_of d k")
    case None
    then have "k \<notin> set ks" using assms by (simp add: map_of_eq_None_iff)
    then show ?thesis using None by (simp add: map_of_keyed)
  next
    case (Some v)
    then have "k \<in> set ks" using assms by (metis map_of_eq_None_iff option.distinct(1))
    then show ?thesis using Some by (simp add: map_of_keyed dict_get_def)
  qed
qed

lemma map_of_number_dict: "map_of (number_dict d) k = map_option real_of_int (map_of d k)"
  by (induction d) (auto simp: number_dict_def)

lemma dict_get_number_dict: "dict_get (number_dict d) k 0 = real_of_int (dict_get d k 0)"
  by (simp add: dict_get_def map_of_number_dict split: option.splits)

lemma map_of_clamped_entries:
  "map_of (map (\<lambda>(g, v). (g, f v)) d) k = map_option f (map_of d k)"
  by (induction d) auto

lemma fold_update_map_of:
  "distinct (map fst raw) \<Longrightarrow>
   map_of (fold (\<lambda>(e, d) m. AList.update e d m) raw base) k =
     (case map_of raw k of Some v \<Rightarrow> Some v | None \<Rightarrow> map_of base k)"
proof (induction raw arbitrary: base)
  case Nil
  then show ?case by simp
next
  case (Cons p raw)
  obtain e d where p: "p = (e, d)" by (cases p)
  from Cons.prems have dist: "distinct (map fst raw)" and n: "e \<notin> fst ` set raw"
    by (auto simp: p)
  have none: "map_of raw e = None" using n by (simp add: map_of_eq_None_iff)
  show ?case using none by (auto simp: p Cons.IH[OF dist] update_conv' split: option.splits)
qed

lemma fold_update_keys:
  "fst ` set base \<subseteq> fst ` set (fold (\<lambda>(e, d) m. AList.update e d m) raw base)"
proof (induction raw arbitrary: base)
  case Nil
  then show ?case by simp
next
  case (Cons p raw)
  obtain e d where p: "p = (e, d)" by (cases p)
  have "fst ` set base \<subseteq> fst ` set (AList.update e d base)" by simp
  also have "\<dots> \<subseteq> fst ` set (fold (\<lambda>(e, d) m. AList.update e d m) raw (AList.update e d base))"
    by (rule Cons.IH)
  finally show ?case by (simp add: p)
qed

lemma fold_setdefault_present:
  "set es \<subseteq> fst ` set m \<Longrightarrow> fold (\<lambda>e m. dict_setdefault e (f e) m) es m = m"
  by (induction es) (auto simp: dict_setdefault_def dict_has_iff)

lemma from_dict_enemy_drops:
  "enemy_drops (from_dict raw) =
     fold (\<lambda>(e, d) m. AList.update e d m) (get_or (doc_enemy_drops raw) []) default_enemy_drops"
proof -
  let ?m = "fold (\<lambda>(e, d) m. AList.update e d m) (get_or (doc_enemy_drops raw) [])
              default_enemy_drops"
  have "set (map fst DEFAULT_ENEMY_DROPS) \<subseteq> fst ` set ?m"
    using fold_update_keys[of default_enemy_drops "get_or (doc_enemy_drops raw) []"]
    by (simp add: default_enemy_drops_def)
  from fold_setdefault_present[OF this, of "\<lambda>e. dict_get DEFAULT_ENEMY_DROPS e []"]
  show ?thesis by (simp add: from_dict_def Let_def new_game_state_def)
qed

lemma copy_step_has:
  "dict_has (if dict_has acc g0 then AList.update g0 v acc else acc) g = dict_has acc g"
  by auto

lemma fold_copy_map_of:
  "distinct (map fst src) \<Longrightarrow>
   map_of (fold (\<lambda>(genre, v) pages.
                   if dict_has pages genre then AList.update genre (py_int v) pages else pages)
             src acc) g =
     (if dict_has acc g
      then (case map_of src g of Some v \<Rightarrow> Some (py_int v) | None \<Rightarrow> map_of acc g)
      else None)"
proof (induction src arbitrary: acc)
  case Nil
  then show ?case by (simp add: dict_has_def)
next
  case (Cons p src)
  obtain g0 v0 where p: "p = (g0, v0)" by (cases p)
  from Cons.prems have dist: "distinct (map fst src)" and n: "g0 \<notin> fst ` set src"
    by (auto simp: p)
  have none: "map_of src g0 = None" using n by (simp add: map_of_eq_None_iff)
  let ?acc = "if dict_has acc g0 then AList.update g0 (py_int v0) acc else acc"
  have h: "dict_has ?acc g = dict_has acc g" by (rule copy_step_has)
  have m: "map_of ?acc g = (if g = g0 \<and> dict_has acc g0 then Some (py_int v0) else map_of acc g)"
    by (simp add: update_conv')
  show ?case
    using none by (auto simp: p Cons.IH[OF dist] h update_conv' split: option.splits)
qed

lemma copy_genre_pages_same:
  assumes "fst ` set pages = set (BASE_GENRES @ [FANTASY_GENRE])" and "distinct (map fst pages)"
  shows "map_of (copy_genre_pages (number_dict pages)) = map_of pages"
proof
  fix g
  have d: "distinct (map fst (number_dict pages))"
    using assms(2) by (simp add: number_dict_def comp_def case_prod_unfold)
  have has: "dict_has default_genre_pages g \<longleftrightarrow> g \<in> set (BASE_GENRES @ [FANTASY_GENRE])"
    by (simp add: dict_has_iff default_genre_pages_def image_image)
  show "map_of (copy_genre_pages (number_dict pages)) g = map_of pages g"
  proof (cases "map_of pages g")
    case None
    then have "g \<notin> set (BASE_GENRES @ [FANTASY_GENRE])"
      using assms(1) by (simp add: map_of_eq_None_iff)
    then show ?thesis
      using None has by (simp add: copy_genre_pages_def fold_copy_map_of[OF d])
  next
    case (Some v)
    then have "g \<in> set (BASE_GENRES @ [FANTASY_GENRE])"
      using assms(1) by (metis map_of_eq_None_iff option.distinct(1))
    then show ?thesis
      using Some has
      by (simp add: copy_genre_pages_def fold_copy_map_of[OF d] map_of_number_dict)
  qed
qed


lemma roundtrip_scalars:
  "total_hunts (from_dict (to_dict s)) = total_hunts s"
  "current_run_hunts (from_dict (to_dict s)) = current_run_hunts s"
  "chapter_position (from_dict (to_dict s)) = chapter_position s"
  "current_chapter_length (from_dict (to_dict s)) = current_chapter_length s"
  "current_chapter_genre (from_dict (to_dict s)) = current_chapter_genre s"
  "current_chapter_progress (from_dict (to_dict s)) = current_chapter_progress s"
  "postscript_length (from_dict (to_dict s)) = postscript_length s"
  "pending_chapter_choices (from_dict (to_dict s)) = pending_chapter_choices s"
  "run_fantasy_available (from_dict (to_dict s)) = run_fantasy_available s"
  "postscript_extended (from_dict (to_dict s)) = postscript_extended s"
  "run_mallets_spent (from_dict (to_dict s)) = run_mallets_spent s"
  "total_mallets_spent (from_dict (to_dict s)) = total_mallets_spent s"
  "total_diamonds_gain (from_dict (to_dict s)) = total_diamonds_gain s"
  "pending_choices_locked (from_dict (to_dict s)) = pending_choices_locked s"
  by (simp_all add: from_dict_def to_dict_def get_or_def Let_def option.map_comp comp_def
        option.map_ident)

lemma from_dict_genre_pages:
  "genre_pages (from_dict raw) = copy_genre_pages (get_or (doc_genre_pages raw) [])"
  by (simp add: from_dict_def Let_def)

lemma roundtrip_same_state:
  assumes "builtin_keys_only s"
  shows "same_state (from_dict (to_dict s)) (clamped s)"
proof -
  have r: "same_dict (resources (from_dict (to_dict s))) (resources (clamped s))"
    using assms reread_fixed_keys[of "resources s" RESOURCE_KEYS 0]
    by (simp add: same_dict_def from_dict_resources to_dict_def get_or_def clamped_def
          builtin_keys_only_def)
  have c: "same_dict (consumables (from_dict (to_dict s))) (consumables (clamped s))"
    using assms reread_fixed_keys[of "consumables s" CONSUMABLE_KEYS 0]
    by (simp add: same_dict_def from_dict_consumables to_dict_def get_or_def clamped_def
          builtin_keys_only_def)
  have n: "same_dict (notoriety (from_dict (to_dict s))) (notoriety (clamped s))"
    unfolding same_dict_def
  proof
    fix g
    have k: "fst ` set (notoriety s) = set BASE_GENRES"
      using assms by (simp add: builtin_keys_only_def)
    show "map_of (notoriety (from_dict (to_dict s))) g = map_of (notoriety (clamped s)) g"
    proof (cases "map_of (notoriety s) g")
      case None
      then have "g \<notin> set BASE_GENRES" using k by (simp add: map_of_eq_None_iff)
      then show ?thesis
        using None by (simp add: from_dict_notoriety map_of_keyed clamped_def
            map_of_clamped_entries)
    next
      case (Some v)
      then have "g \<in> set BASE_GENRES" using k by (metis map_of_eq_None_iff option.distinct(1))
      then show ?thesis
        using Some
        by (simp add: from_dict_notoriety map_of_keyed clamped_def map_of_clamped_entries
              to_dict_def get_or_def dict_get_number_dict)
           (simp add: dict_get_def)
    qed
  qed
  have e: "same_dict (enemy_drops (from_dict (to_dict s))) (enemy_drops (clamped s))"
    unfolding same_dict_def
  proof
    fix k
    from assms have d: "distinct (map fst (enemy_drops s))"
      and sub: "fst ` set DEFAULT_ENEMY_DROPS \<subseteq> fst ` set (enemy_drops s)"
      by (simp_all add: builtin_keys_only_def)
    have "map_of (enemy_drops s) k = None \<Longrightarrow> map_of default_enemy_drops k = None"
      using sub by (auto simp: map_of_eq_None_iff default_enemy_drops_def)
    then show "map_of (enemy_drops (from_dict (to_dict s))) k = map_of (enemy_drops (clamped s)) k"
      by (simp add: from_dict_enemy_drops to_dict_def get_or_def fold_update_map_of[OF d]
            clamped_def split: option.splits)
  qed
  have p: "same_dict (genre_pages (from_dict (to_dict s))) (genre_pages (clamped s))"
    using assms copy_genre_pages_same[of "genre_pages s"]
    by (simp add: same_dict_def from_dict_genre_pages to_dict_def get_or_def clamped_def
          builtin_keys_only_def)
  show ?thesis
    unfolding same_state_def using r c n e p
    by (simp add: roundtrip_scalars clamped_def)
qed

lemma fold_update_other:
  "k \<notin> fst ` set raw \<Longrightarrow>
   map_of (fold (\<lambda>(e, d) m. AList.update e d m) raw base) k = map_of base k"
proof (induction raw arbitrary: base)
  case Nil
  then show ?case by simp
next
  case (Cons p raw)
  obtain e d where p: "p = (e, d)" by (cases p)
  from Cons.prems have "k \<noteq> e" and "k \<notin> fst ` set raw" by (auto simp: p)
  then show ?case by (simp add: p Cons.IH update_conv')
qed

lemma backfilled_enemies:
  "fst ` set DEFAULT_ENEMY_DROPS \<subseteq> fst ` set (enemy_drops (from_dict d))"
  using fold_update_keys[of default_enemy_drops "get_or (doc_enemy_drops d) []"]
  by (simp add: from_dict_enemy_drops default_enemy_drops_def)

lemma backfilled_entry:
  "e \<notin> fst ` set (get_or (doc_enemy_drops d) []) \<Longrightarrow>
   dict_get (enemy_drops (from_dict d)) e [] = dict_get DEFAULT_ENEMY_DROPS e []"
  by (simp add: from_dict_enemy_drops dict_get_def fold_update_other default_enemy_drops_def)

lemma from_dict_scalars:
  "total_hunts (from_dict d) = py_int (get_or (doc_total_hunts d) 0)"
  "current_run_hunts (from_dict d) = py_int (get_or (doc_current_run_hunts d) 0)"
  "chapter_position (from_dict d) = py_int (get_or (doc_chapter_position d) 0)"
  "current_chapter_length (from_dict d) = map_option py_int (doc_current_chapter_length d)"
  "current_chapter_genre (from_dict d) = doc_current_chapter_genre d"
  "current_chapter_progress (from_dict d) = py_int (get_or (doc_current_chapter_progress d) 0)"
  "postscript_length (from_dict d) = py_int (get_or (doc_postscript_length d) 10)"
  "pending_chapter_choices (from_dict d) = get_or (doc_pending_chapter_choices d) []"
  "run_fantasy_available (from_dict d) = get_or (doc_run_fantasy_available d) False"
  "postscript_extended (from_dict d) = get_or (doc_postscript_extended d) False"
  "run_mallets_spent (from_dict d) = py_int (get_or (doc_run_mallets_spent d) 0)"
  "total_mallets_spent (from_dict d) = py_int (get_or (doc_total_mallets_spent d) 0)"
  "total_diamonds_gain (from_dict d) = get_or (doc_total_diamonds_gain d) 0"
  "pending_choices_locked (from_dict d) = get_or (doc_pending_choices_locked d) False"
  by (simp_all add: from_dict_def Let_def)

lemma absent_dicts_defaulted:
  "doc_resources d = None \<Longrightarrow> resources (from_dict d) = resources new_game_state"
  "doc_consumables d = None \<Longrightarrow> consumables (from_dict d) = consumables new_game_state"
  "doc_notoriety d = None \<Longrightarrow> notoriety (from_dict d) = notoriety new_game_state"
  "doc_enemy_drops d = None \<Longrightarrow> enemy_drops (from_dict d) = enemy_drops new_game_state"
  "doc_genre_pages d = None \<Longrightarrow> genre_pages (from_dict d) = genre_pages new_game_state"
  by (simp_all add: from_dict_resources from_dict_consumables from_dict_notoriety
        from_dict_enemy_drops from_dict_genre_pages get_or_def dict_get_def new_game_state_def
        clamp_notoriety_def copy_genre_pages_def)

lemma absent_scalars_defaulted:
  "doc_total_hunts d = None \<Longrightarrow> total_hunts (from_dict d) = total_hunts new_game_state"
  "doc_current_run_hunts d = None \<Longrightarrow>
     current_run_hunts (from_dict d) = current_run_hunts new_game_state"
  "doc_chapter_position d = None \<Longrightarrow>
     chapter_position (from_dict d) = chapter_position new_game_state"
  "doc_current_chapter_length d = None \<Longrightarrow>
     current_chapter_length (from_dict d) = current_chapter_length new_game_state"
  "doc_current_chapter_genre d = None \<Longrightarrow>
     current_chapter_genre (from_dict d) = current_chapter_genre new_game_state"
  "doc_current_chapter_progress d = None \<Longrightarrow>
     current_chapter_progress (from_dict d) = current_chapter_progress new_game_state"
  "doc_postscript_length d = None \<Longrightarrow>
     postscript_length (from_dict d) = postscript_length new_game_state"
  "doc_pending_chapter_choices d = None \<Longrightarrow>
     pending_chapter_choices (from_dict d) = pending_chapter_choices new_game_state"
  "doc_run_fantasy_available d = None \<Longrightarrow>
     run_fantasy_available (from_dict d) = run_fantasy_available new_game_state"
  "doc_postscript_extended d = None \<Longrightarrow>
     postscript_extended (from_dict d) = postscript_extended new_game_state"
  "doc_run_mallets_spent d = None \<Longrightarrow>
     run_mallets_spent (from_dict d) = run_mallets_spent new_game_state"
  "doc_total_mallets_spent d = None \<Longrightarrow>
     total_mallets_spent (from_dict d) = total_mallets_spent new_game_state"
  "doc_total_diamonds_gain d = None \<Longrightarrow>
     total_diamonds_gain (from_dict d) = total_diamonds_gain new_game_state"
  "doc_pending_choices_locked d = None \<Longrightarrow>
     pending_choices_locked (from_dict d) = pending_choices_locked new_game_state"
  by (simp_all add: from_dict_scalars get_or_def new_game_state_def)

lemma from_dict_empty: "from_dict empty_doc = new_game_state"
  by (rule game_state.equality)
     (simp_all add: absent_dicts_defaulted absent_scalars_defaulted empty_doc_def)


text \<open>
  C9, as the code has it. For a state whose dictionaries hold exactly the built-in keys
  and whose loot table covers every built-in enemy, saving and loading gives the same
  state except that notoriety values are clamped to 0..200. A document with fields
  missing loads: every absent field is defaulted whatever the other fields hold, the
  document without any field loads as the fresh state, every built-in enemy has a loot
  entry after any load, and an enemy the document does not mention gets its built-in
  entry.
\<close>

theorem snapshot_roundtrip:
  "(builtin_keys_only s \<longrightarrow> same_state (from_dict (to_dict s)) (clamped s))
   \<and> (doc_resources d = None \<longrightarrow> resources (from_dict d) = resources new_game_state)
   \<and> (doc_consumables d = None \<longrightarrow> consumables (from_dict d) = consumables new_game_state)
   \<and> (doc_notoriety d = None \<longrightarrow> notoriety (from_dict d) = notoriety new_game_state)
   \<and> (doc_enemy_drops d = None \<longrightarrow> enemy_drops (from_dict d) = enemy_drops new_game_state)
   \<and> (doc_genre_pages d = None \<longrightarrow> genre_pages (from_dict d) = genre_pages new_game_state)
   \<and> (doc_total_hunts d = None \<longrightarrow> total_hunts (from_dict d) = total_hunts new_game_state)
   \<and> (doc_current_run_hunts d = None \<longrightarrow>
        current_run_hunts (from_dict d) = current_run_hunts new_game_state)
   \<and> (doc_chapter_position d = None \<longrightarrow>
        chapter_position (from_dict d) = chapter_position new_game_state)
   \<and> (doc_current_chapter_length d = None \<longrightarrow>
        current_chapter_length (from_dict d) = current_chapter_length new_game_state)
   \<and> (doc_current_chapter_genre d = None \<longrightarrow>
        current_chapter_genre (from_dict d) = current_chapter_genre new_game_state)
   \<and> (doc_current_chapter_progress d = None \<longrightarrow>
        current_chapter_progress (from_dict d) = current_chapter_progress new_game_state)
   \<and> (doc_postscript_length d = None \<longrightarrow>
        postscript_length (from_dict d) = postscript_length new_game_state)
   \<and> (doc_pending_chapter_choices d = None \<longrightarrow>
        pending_chapter_choices (from_dict d) = pending_chapter_choices new_game_state)
   \<and> (doc_run_fantasy_available d = None \<longrightarrow>
        run_fantasy_available (from_dict d) = run_fantasy_available new_game_state)
   \<and> (doc_postscript_extended d = None \<longrightarrow>
        postscript_extended (from_dict d) = postscript_extended new_game_state)
   \<and> (doc_run_mallets_spent d = None \<longrightarrow>
        run_mallets_spent (from_dict d) = run_mallets_spent new_game_state)
   \<and> (doc_total_mallets_spent d = None \<longrightarrow>
        total_mallets_spent (from_dict d) = total_mallets_spent new_game_state)
   \<and> (doc_pending_choices_locked d = None \<longrightarrow>
        pending_choices_locked (from_dict d) = pending_choices_locked new_game_state)
   \<and> (doc_total_diamonds_gain d = None \<longrightarrow>
        total_diamonds_gain (from_dict d) = total_diamonds_gain new_game_state)
   \<and> from_dict empty_doc = new_game_state
   \<and> fst ` set DEFAULT_ENEMY_DROPS \<subseteq> fst ` set (enemy_drops (from_dict d))
   \<and> (e \<notin> fst ` set (get_or (doc_enemy_drops d) []) \<longrightarrow>
        dict_get (enemy_drops (from_dict d)) e [] = dict_get DEFAULT_ENEMY_DROPS e [])"
proof (intro conjI impI)
  show "fst ` set DEFAULT_ENEMY_DROPS \<subseteq> fst ` set (enemy_drops (from_dict d))"
    by (rule backfilled_enemies)
  show "from_dict empty_doc = new_game_state" by (rule from_dict_empty)
qed (simp_all add: roundtrip_same_state absent_dicts_defaulted absent_scalars_defaulted
       backfilled_entry)

lemma out_of_range_builtin: "builtin_keys_only out_of_range_example"
  by code_simp

lemma out_of_range_clamped:
  "notoriety (clamped out_of_range_example)
     = [(''Romance'', 200), (''Adventure'', 0), (''Comedy'', 0), (''Tragedy'', 2),
        (''Suspense'', 200)]"
  by (simp add: clamped_def out_of_range_example_def clamp_notoriety_def)

theorem snapshot_roundtrip_witness:
  "builtin_keys_only out_of_range_example
   \<and> same_state (from_dict (to_dict out_of_range_example)) (clamped out_of_range_example)
   \<and> dict_get (notoriety out_of_range_example) ''Romance'' 0 = 250
   \<and> dict_get (notoriety (from_dict (to_dict out_of_range_example))) ''Romance'' 0 = 200
   \<and> doc_resources notorious_doc = None
   \<and> resources (from_dict notorious_doc) = resources new_game_state
   \<and> doc_enemy_drops custom_loot_doc \<noteq> None
   \<and> dict_get (enemy_drops (from_dict custom_loot_doc)) ''T2 mouse'' []
       = dict_get DEFAULT_ENEMY_DROPS ''T2 mouse'' []"
proof -
  note t = snapshot_roundtrip[of out_of_range_example notorious_doc]
  have same: "same_state (from_dict (to_dict out_of_range_example)) (clamped out_of_range_example)"
    using t out_of_range_builtin by simp
  then have "map_of (notoriety (from_dict (to_dict out_of_range_example)))
               = map_of (notoriety (clamped out_of_range_example))"
    by (simp add: same_state_def same_dict_def)
  then have n: "dict_get (notoriety (from_dict (to_dict out_of_range_example))) ''Romance'' 0 = 200"
    by (simp add: dict_get_def out_of_range_clamped)
  have o: "dict_get (notoriety out_of_range_example) ''Romance'' 0 = 250"
    by (simp add: dict_get_def out_of_range_example_def)
  have a: "doc_resources notorious_doc = None" by (simp add: notorious_doc_def)
  have r: "resources (from_dict notorious_doc) = resources new_game_state"
    using t a by simp
  have p: "doc_enemy_drops custom_loot_doc \<noteq> None" by (simp add: custom_loot_doc_def)
  have q: "''T2 mouse'' \<notin> fst ` set (get_or (doc_enemy_drops custom_loot_doc) [])"
    by (simp add: custom_loot_doc_def get_or_def)
  have b: "dict_get (enemy_drops (from_dict custom_loot_doc)) ''T2 mouse'' []
             = dict_get DEFAULT_ENEMY_DROPS ''T2 mouse'' []"
    using snapshot_roundtrip[of out_of_range_example custom_loot_doc "''T2 mouse''"] q
    by simp
  from out_of_range_builtin same o n a r p b show ?thesis by (intro conjI)
qed

lemma looted_resources:
  "map_of (resources looted_example) ''Foo'' = Some 1"
  by code_simp

text \<open>
  C9 as stated fails. A T1 hunt in chapter 1, after loading a document whose loot table
  gives the T1 mouse the material \<open>Foo\<close>, creates the resource \<open>Foo\<close>; saving and
  loading that state drops it, and no notoriety value of the state is out of range.
\<close>

theorem snapshot_roundtrip_counterexample:
  "map_of (resources looted_example) ''Foo'' = Some 1
   \<and> map_of (resources (from_dict (to_dict looted_example))) ''Foo'' = None
   \<and> notoriety (clamped looted_example) = notoriety looted_example
   \<and> \<not> same_state (from_dict (to_dict looted_example)) (clamped looted_example)"
proof -
  have a: "map_of (resources looted_example) ''Foo'' = Some 1" by (rule looted_resources)
  have b: "map_of (resources (from_dict (to_dict looted_example))) ''Foo'' = None"
    by (simp add: from_dict_resources RESOURCE_KEYS_def)
  have c: "notoriety (clamped looted_example) = notoriety looted_example"
    by code_simp
  have "\<not> same_dict (resources (from_dict (to_dict looted_example)))
            (resources (clamped looted_example))"
    using a b by (auto simp: same_dict_def clamped_def)
  then have "\<not> same_state (from_dict (to_dict looted_example)) (clamped looted_example)"
    by (simp add: same_state_def)
  with a b c show ?thesis by blast
qed

end
